theory Spec2Isabelle
  imports Main
begin

section \<open>JavaScript values\<close>

text \<open>
  The server handles loosely typed values (\<^verbatim>\<open>any\<close>): argument bags, creation payloads,
  backend requests, resource records and response envelopes. They are modelled as JSON-like
  values. An object is an association list; reading a property that is absent gives
  \<^verbatim>\<open>undefined\<close>. Numbers are modelled as integers.
\<close>

datatype jv =
    JUndef
  | JNull
  | JBool bool
  | JNum int
  | JStr string
  | JArr "jv list"
  | JObj "(string \<times> jv) list"

type_synonym obj = "(string \<times> jv) list"

text \<open>Truthiness, as \<^verbatim>\<open>if (x)\<close>, \<^verbatim>\<open>!x\<close> and \<^verbatim>\<open>x || y\<close> test it.\<close>

fun truthy :: "jv \<Rightarrow> bool" where
  "truthy JUndef = False"
| "truthy JNull = False"
| "truthy (JBool b) = b"
| "truthy (JNum n) = (n \<noteq> 0)"
| "truthy (JStr s) = (s \<noteq> [])"
| "truthy (JArr xs) = True"
| "truthy (JObj kvs) = True"

text \<open>\<^verbatim>\<open>a || b\<close>\<close>

definition jor :: "jv \<Rightarrow> jv \<Rightarrow> jv" where
  "jor a b = (if truthy a then a else b)"

text \<open>\<^verbatim>\<open>o.k\<close> on an object \<^verbatim>\<open>o\<close>.\<close>

definition fld :: "obj \<Rightarrow> string \<Rightarrow> jv" where
  "fld kvs k = (case map_of kvs k of Some v \<Rightarrow> v | None \<Rightarrow> JUndef)"

text \<open>
  A value of which the code only reads properties, as the list of its properties: those of
  an object; none for a primitive (every property read is undefined). Reading a property
  of \<^verbatim>\<open>undefined\<close> or \<^verbatim>\<open>null\<close> throws instead: \<^verbatim>\<open>handleOCIManage\<close> below tests for that
  before it reads its argument bag, and \<^verbatim>\<open>input.data as any\<close> of a validated create
  input is an object, since every creation payload shape is an object schema.
\<close>

definition as_object :: "jv \<Rightarrow> obj" where
  "as_object v = (case v of JObj kvs \<Rightarrow> kvs | _ \<Rightarrow> [])"

text \<open>Decimal rendering of a number inside a template string.\<close>

definition digit_char :: "nat \<Rightarrow> char" where
  "digit_char n = ''0123456789'' ! (n mod 10)"

fun nat_digits :: "nat \<Rightarrow> string" where
  "nat_digits n = (if 10 \<le> n then nat_digits (n div 10) else []) @ [digit_char n]"

declare nat_digits.simps [simp del]

definition number_string :: "int \<Rightarrow> string" where
  "number_string n = (if 0 \<le> n then nat_digits (nat n) else CHR ''-'' # nat_digits (nat (- n)))"

text \<open>\<^verbatim>\<open>Array.prototype.join\<close>\<close>

fun join :: "string \<Rightarrow> string list \<Rightarrow> string" where
  "join sep [] = []"
| "join sep [x] = x"
| "join sep (x # y # ys) = x @ sep @ join sep (y # ys)"

text \<open>
  String conversion, as a template string \<^verbatim>\<open>`${v}`\<close> performs it. An array is its
  elements joined by commas, with \<^verbatim>\<open>null\<close> and \<^verbatim>\<open>undefined\<close> elements empty.
\<close>

fun to_string :: "jv \<Rightarrow> string" where
  "to_string JUndef = ''undefined''"
| "to_string JNull = ''null''"
| "to_string (JBool b) = (if b then ''true'' else ''false'')"
| "to_string (JNum n) = number_string n"
| "to_string (JStr s) = s"
| "to_string (JArr xs) =
     join '','' (map (\<lambda>x. if x = JUndef \<or> x = JNull then [] else to_string x) xs)"
| "to_string (JObj kvs) = ''[object Object]''"

section \<open>Errors and the error classifier (utils/oci-client.ts)\<close>

text \<open>
  A thrown or rejected error value: the three properties \<^verbatim>\<open>handleOCIError\<close> reads, the
  result of its \<^verbatim>\<open>toString()\<close>, and whether it is an \<^verbatim>\<open>instanceof Error\<close>.
\<close>

record js_error =
  statusCode :: jv
  code :: jv
  message :: jv
  toString :: string
  instanceofError :: bool


text \<open>\<^verbatim>\<open>new Error(msg)\<close>\<close>

definition new_Error :: "string \<Rightarrow> js_error" where
  "new_Error msg =
     \<lparr> statusCode = JUndef, code = JUndef, message = JStr msg,
       toString = (if msg = [] then ''Error'' else ''Error: '' @ msg),
       instanceofError = True \<rparr>"

definition handleOCIError :: "js_error \<Rightarrow> string" where
  "handleOCIError error =
     (if truthy (statusCode error) then
        ''OCI API Error ('' @ to_string (statusCode error) @ ''): ''
          @ to_string (jor (message error) (JStr ''Unknown error''))
      else if truthy (code error) then
        ''OCI Error ('' @ to_string (code error) @ ''): ''
          @ to_string (jor (message error) (JStr ''Unknown error''))
      else
        ''OCI Error: ''
          @ (if truthy (message error) then to_string (message error) else toString error))"

text \<open>
  The classification order as the specification words it: a status code that is carried
  selects the first format, else a code that is carried selects the second, else the third;
  the message is interpolated as it is.
\<close>

definition classify_spec :: "js_error \<Rightarrow> string" where
  "classify_spec error =
     (if statusCode error \<noteq> JUndef then
        ''OCI API Error ('' @ to_string (statusCode error) @ ''): '' @ to_string (message error)
      else if code error \<noteq> JUndef then
        ''OCI Error ('' @ to_string (code error) @ ''): '' @ to_string (message error)
      else
        ''OCI Error: ''
          @ (if message error \<noteq> JUndef then to_string (message error) else toString error))"

section \<open>The backend collaborator and the calls made to it\<close>

text \<open>
  The authentication configuration, as \<^verbatim>\<open>OCIAuthConfigSchema\<close> types it: five required
  strings and an optional default compartment.
\<close>

record OCIAuthConfig =
  tenancyId :: string
  userId :: string
  keyFingerprint :: string
  privateKeyPath :: string
  region :: string
  compartmentId :: "string option"

text \<open>
  A backend call is the client method invoked and the request object passed to it. The
  trace is the sequence of calls made so far, in order.
\<close>

type_synonym call = "string \<times> jv"
type_synonym trace = "call list"

text \<open>
  The client manager: its configuration and the cloud backend behind its SDK clients. The
  backend is an external collaborator: a call resolves with a response or rejects with an
  error, and what it answers may depend on every call made before (the trace), so a
  stateful backend is covered. SDK methods are grouped by the part of the response the
  dispatchers read:
  \<^item> \<^verbatim>\<open>itemsOp\<close>: list operations, answering \<^verbatim>\<open>response.items\<close>;
  \<^item> \<^verbatim>\<open>resourceOp\<close>: operations answering one record (\<^verbatim>\<open>response.instance\<close>,
    \<^verbatim>\<open>response.alarm\<close>, ...; for \<^verbatim>\<open>getObject\<close> and \<^verbatim>\<open>getNamespace\<close> the response itself);
  \<^item> \<^verbatim>\<open>objectsOp\<close>: \<^verbatim>\<open>listObjects\<close>, answering \<^verbatim>\<open>response.listObjects.objects\<close>, which
    may be undefined;
  \<^item> \<^verbatim>\<open>voidOp\<close>: operations whose response is not read.
\<close>

record OCIClientManager =
  authConfig :: OCIAuthConfig
  itemsOp :: "trace \<Rightarrow> string \<Rightarrow> jv \<Rightarrow> js_error + jv list"
  resourceOp :: "trace \<Rightarrow> string \<Rightarrow> jv \<Rightarrow> js_error + obj"
  objectsOp :: "trace \<Rightarrow> string \<Rightarrow> jv \<Rightarrow> js_error + jv list option"
  voidOp :: "trace \<Rightarrow> string \<Rightarrow> jv \<Rightarrow> js_error + unit"

text \<open>\<^verbatim>\<open>return this.authConfig.compartmentId || this.authConfig.tenancyId\<close>\<close>

definition getDefaultCompartmentId :: "OCIClientManager \<Rightarrow> string" where
  "getDefaultCompartmentId c =
     (case compartmentId (authConfig c) of
        Some cid \<Rightarrow> if cid \<noteq> [] then cid else tenancyId (authConfig c)
      | None \<Rightarrow> tenancyId (authConfig c))"

text \<open>
  An asynchronous computation: it starts from the trace so far and ends with a value or a
  thrown error (a rejected promise), and the trace extended by the calls it made.
\<close>

type_synonym 'a io = "trace \<Rightarrow> (js_error + 'a) \<times> trace"

definition ret :: "'a \<Rightarrow> 'a io" where
  "ret a tr = (Inr a, tr)"

definition throw :: "js_error \<Rightarrow> 'a io" where
  "throw e tr = (Inl e, tr)"

text \<open>\<^verbatim>\<open>const a = await m; f(a)\<close>: a rejection of \<^verbatim>\<open>m\<close> propagates.\<close>

definition bnd :: "'a io \<Rightarrow> ('a \<Rightarrow> 'b io) \<Rightarrow> 'b io" where
  "bnd m f tr = (case m tr of (Inl e, tr') \<Rightarrow> (Inl e, tr') | (Inr a, tr') \<Rightarrow> f a tr')"

definition itemsCall :: "OCIClientManager \<Rightarrow> string \<Rightarrow> jv \<Rightarrow> (jv list) io" where
  "itemsCall c name req tr = (itemsOp c tr name req, tr @ [(name, req)])"

definition resourceCall :: "OCIClientManager \<Rightarrow> string \<Rightarrow> jv \<Rightarrow> obj io" where
  "resourceCall c name req tr = (resourceOp c tr name req, tr @ [(name, req)])"

definition objectsCall :: "OCIClientManager \<Rightarrow> string \<Rightarrow> jv \<Rightarrow> (jv list option) io" where
  "objectsCall c name req tr = (objectsOp c tr name req, tr @ [(name, req)])"

definition voidCall :: "OCIClientManager \<Rightarrow> string \<Rightarrow> jv \<Rightarrow> unit io" where
  "voidCall c name req tr = (voidOp c tr name req, tr @ [(name, req)])"

text \<open>
  The catch of every dispatcher's \<^verbatim>\<open>execute\<close>: a thrown error becomes the failure
  envelope \<^verbatim>\<open>{ success: false, message: handleOCIError(error) }\<close>. The result is an
  envelope in every case.
\<close>

definition catch_execute :: "jv io \<Rightarrow> trace \<Rightarrow> jv \<times> trace" where
  "catch_execute m tr =
     (case m tr of
        (Inr envelope, tr') \<Rightarrow> (envelope, tr')
      | (Inl error, tr') \<Rightarrow>
          (JObj [(''success'', JBool False), (''message'', JStr (handleOCIError error))], tr'))"

text \<open>\<^verbatim>\<open>{ ...a, k: v }\<close>: the property is replaced where it stands, or added last.\<close>

fun set_prop :: "obj \<Rightarrow> string \<Rightarrow> jv \<Rightarrow> obj" where
  "set_prop [] k v = [(k, v)]"
| "set_prop ((k', v') # kvs) k v =
     (if k' = k then (k, v) # kvs else (k', v') # set_prop kvs k v)"

text \<open>\<^verbatim>\<open>{ ...a, ...b }\<close>\<close>

definition spread2 :: "obj \<Rightarrow> obj \<Rightarrow> obj" where
  "spread2 a b = foldl (\<lambda>acc (k, v). set_prop acc k v) a b"

section \<open>The compute dispatcher (tools/compute.ts)\<close>

text \<open>
  The validated input of a dispatcher is an object; \<^verbatim>\<open>Date.now()\<close> is the parameter
  \<open>now\<close>.
\<close>

definition listResources_compute :: "OCIClientManager \<Rightarrow> obj \<Rightarrow> jv io" where
  "listResources_compute c input =
     (let compartmentId = jor (fld input ''compartmentId'') (JStr (getDefaultCompartmentId c));
          resourceType = fld input ''resourceType''
      in
      if resourceType = JStr ''instances'' then
        bnd (itemsCall c ''computeClient.listInstances''
               (JObj [(''compartmentId'', compartmentId),
                      (''availabilityDomain'', fld input ''availabilityDomain''),
                      (''limit'', jor (fld input ''limit'') (JNum 50)),
                      (''displayName'', fld input ''displayName''),
                      (''lifecycleState'', fld input ''lifecycleState'')]))
          (\<lambda>items. ret (JObj
             [(''success'', JBool True),
              (''data'', JArr items),
              (''count'', JNum (int (length items))),
              (''message'', JStr (''Found '' @ nat_digits (length items) @ '' compute instances''))]))
      else if resourceType = JStr ''images'' then
        bnd (itemsCall c ''computeClient.listImages''
               (JObj [(''compartmentId'', compartmentId),
                      (''limit'', jor (fld input ''limit'') (JNum 50)),
                      (''lifecycleState'', fld input ''lifecycleState'')]))
          (\<lambda>items. ret (JObj
             [(''success'', JBool True),
              (''data'', JArr items),
              (''count'', JNum (int (length items))),
              (''message'', JStr (''Found '' @ nat_digits (length items) @ '' compute images''))]))
      else if resourceType = JStr ''shapes'' then
        bnd (itemsCall c ''computeClient.listShapes''
               (JObj [(''compartmentId'', compartmentId),
                      (''availabilityDomain'', fld input ''availabilityDomain''),
                      (''limit'', jor (fld input ''limit'') (JNum 50))]))
          (\<lambda>items. ret (JObj
             [(''success'', JBool True),
              (''data'', JArr items),
              (''count'', JNum (int (length items))),
              (''message'', JStr (''Found '' @ nat_digits (length items) @ '' compute shapes''))]))
      else if resourceType = JStr ''volumes'' then
        bnd (itemsCall c ''blockstorageClient.listVolumes''
               (JObj [(''compartmentId'', compartmentId),
                      (''availabilityDomain'', fld input ''availabilityDomain''),
                      (''limit'', jor (fld input ''limit'') (JNum 50)),
                      (''displayName'', fld input ''displayName''),
                      (''lifecycleState'', fld input ''lifecycleState'')]))
          (\<lambda>items. ret (JObj
             [(''success'', JBool True),
              (''data'', JArr items),
              (''count'', JNum (int (length items))),
              (''message'', JStr (''Found '' @ nat_digits (length items) @ '' block volumes''))]))
      else if resourceType = JStr ''volume-attachments'' then
        bnd (itemsCall c ''computeClient.listVolumeAttachments''
               (JObj [(''compartmentId'', compartmentId),
                      (''availabilityDomain'', fld input ''availabilityDomain''),
                      (''limit'', jor (fld input ''limit'') (JNum 50))]))
          (\<lambda>items. ret (JObj
             [(''success'', JBool True),
              (''data'', JArr items),
              (''count'', JNum (int (length items))),
              (''message'', JStr (''Found '' @ nat_digits (length items) @ '' volume attachments''))]))
      else throw (new_Error (''Unsupported resource type: '' @ to_string resourceType)))"

definition getResource_compute :: "OCIClientManager \<Rightarrow> obj \<Rightarrow> jv io" where
  "getResource_compute c input =
     (let resourceType = fld input ''resourceType'';
          resourceId = fld input ''resourceId''
      in
      if resourceType = JStr ''instance'' then
        bnd (resourceCall c ''computeClient.getInstance'' (JObj [(''instanceId'', resourceId)]))
          (\<lambda>instance. ret (JObj
             [(''success'', JBool True),
              (''data'', JObj instance),
              (''message'', JStr (''Retrieved instance details for '' @ to_string resourceId))]))
      else if resourceType = JStr ''image'' then
        bnd (resourceCall c ''computeClient.getImage'' (JObj [(''imageId'', resourceId)]))
          (\<lambda>image. ret (JObj
             [(''success'', JBool True),
              (''data'', JObj image),
              (''message'', JStr (''Retrieved image details for '' @ to_string resourceId))]))
      else if resourceType = JStr ''volume'' then
        bnd (resourceCall c ''blockstorageClient.getVolume'' (JObj [(''volumeId'', resourceId)]))
          (\<lambda>volume. ret (JObj
             [(''success'', JBool True),
              (''data'', JObj volume),
              (''message'', JStr (''Retrieved volume details for '' @ to_string resourceId))]))
      else if resourceType = JStr ''volume-attachment'' then
        bnd (resourceCall c ''computeClient.getVolumeAttachment''
               (JObj [(''volumeAttachmentId'', resourceId)]))
          (\<lambda>volumeAttachment. ret (JObj
             [(''success'', JBool True),
              (''data'', JObj volumeAttachment),
              (''message'', JStr (''Retrieved volume attachment details for '' @ to_string resourceId))]))
      else throw (new_Error (''Unsupported resource type: '' @ to_string resourceType)))"

text \<open>
  \<^verbatim>\<open>sshAuthorizedKeys\<close> is an array of strings or absent, and \<^verbatim>\<open>metadata\<close> an object or
  absent, by the type of the instance payload.
\<close>

definition createResource_compute :: "OCIClientManager \<Rightarrow> int \<Rightarrow> obj \<Rightarrow> jv io" where
  "createResource_compute c now input =
     (let resourceType = fld input ''resourceType'';
          data = as_object (fld input ''data'')
      in
      if resourceType = JStr ''instance'' then
        bnd (resourceCall c ''computeClient.launchInstance''
               (JObj [(''launchInstanceDetails'', JObj
                  [(''availabilityDomain'', fld data ''availabilityDomain''),
                   (''compartmentId'', fld data ''compartmentId''),
                   (''shape'', fld data ''shape''),
                   (''displayName'',
                      jor (fld data ''displayName'') (JStr (''instance-'' @ number_string now))),
                   (''sourceDetails'', JObj
                      [(''sourceType'', JStr ''image''), (''imageId'', fld data ''imageId'')]),
                   (''createVnicDetails'',
                      (if truthy (fld data ''subnetId'')
                       then JObj [(''subnetId'', fld data ''subnetId'')] else JUndef)),
                   (''metadata'', JObj
                      (spread2 (as_object (fld data ''metadata''))
                         (case fld data ''sshAuthorizedKeys'' of
                            JArr keys \<Rightarrow>
                              [(''ssh_authorized_keys'',
                                JStr (join [CHR 0x0A]
                                   (map (\<lambda>x. if x = JUndef \<or> x = JNull then [] else to_string x)
                                      keys)))]
                          | _ \<Rightarrow> [])))])]))
          (\<lambda>instance. ret (JObj
             [(''success'', JBool True),
              (''data'', JObj instance),
              (''message'', JStr (''Instance creation initiated: ''
                  @ to_string (fld instance ''displayName''))),
              (''operationId'', fld instance ''id'')]))
      else if resourceType = JStr ''volume'' then
        bnd (resourceCall c ''blockstorageClient.createVolume''
               (JObj [(''createVolumeDetails'', JObj
                  [(''availabilityDomain'', fld data ''availabilityDomain''),
                   (''compartmentId'', fld data ''compartmentId''),
                   (''sizeInGBs'', fld data ''sizeInGBs''),
                   (''displayName'',
                      jor (fld data ''displayName'') (JStr (''volume-'' @ number_string now))),
                   (''volumeType'', jor (fld data ''volumeType'') (JStr ''iscsi''))])]))
          (\<lambda>volume. ret (JObj
             [(''success'', JBool True),
              (''data'', JObj volume),
              (''message'', JStr (''Volume creation initiated: ''
                  @ to_string (fld volume ''displayName''))),
              (''operationId'', fld volume ''id'')]))
      else throw (new_Error (''Unsupported resource type: '' @ to_string resourceType)))"

definition manageInstance :: "OCIClientManager \<Rightarrow> obj \<Rightarrow> jv io" where
  "manageInstance c input =
     (let action = fld input ''action'';
          resourceId = fld input ''resourceId''
      in
      if action = JStr ''start'' then
        bnd (resourceCall c ''computeClient.instanceAction''
               (JObj [(''instanceId'', resourceId), (''action'', JStr ''START'')]))
          (\<lambda>instance. ret (JObj
             [(''success'', JBool True),
              (''data'', JObj instance),
              (''message'', JStr (''Instance start initiated: '' @ to_string resourceId)),
              (''operationId'', resourceId)]))
      else if action = JStr ''stop'' then
        bnd (resourceCall c ''computeClient.instanceAction''
               (JObj [(''instanceId'', resourceId), (''action'', JStr ''STOP'')]))
          (\<lambda>instance. ret (JObj
             [(''success'', JBool True),
              (''data'', JObj instance),
              (''message'', JStr (''Instance stop initiated: '' @ to_string resourceId)),
              (''operationId'', resourceId)]))
      else if action = JStr ''reboot'' then
        bnd (resourceCall c ''computeClient.instanceAction''
               (JObj [(''instanceId'', resourceId), (''action'', JStr ''RESET'')]))
          (\<lambda>instance. ret (JObj
             [(''success'', JBool True),
              (''data'', JObj instance),
              (''message'', JStr (''Instance reboot initiated: '' @ to_string resourceId)),
              (''operationId'', resourceId)]))
      else if action = JStr ''terminate'' then
        bnd (voidCall c ''computeClient.terminateInstance'' (JObj [(''instanceId'', resourceId)]))
          (\<lambda>_. ret (JObj
             [(''success'', JBool True),
              (''message'', JStr (''Instance termination initiated: '' @ to_string resourceId)),
              (''operationId'', resourceId)]))
      else throw (new_Error (''Unsupported instance action: '' @ to_string action)))"

definition manageVolume :: "OCIClientManager \<Rightarrow> obj \<Rightarrow> jv io" where
  "manageVolume c input =
     (let action = fld input ''action'' in
      if action = JStr ''attach-volume'' then
        if \<not> truthy (fld input ''instanceId'') \<or> \<not> truthy (fld input ''volumeId'') then
          throw (new_Error ''Both instanceId and volumeId are required for volume attachment'')
        else
          bnd (resourceCall c ''computeClient.attachVolume''
                 (JObj [(''attachVolumeDetails'', JObj
                    [(''instanceId'', fld input ''instanceId''),
                     (''type'', JStr ''iscsi''),
                     (''volumeId'', fld input ''volumeId'')])]))
            (\<lambda>volumeAttachment. ret (JObj
               [(''success'', JBool True),
                (''data'', JObj volumeAttachment),
                (''message'', JStr (''Volume attachment initiated: ''
                    @ to_string (fld input ''volumeId'') @ '' to ''
                    @ to_string (fld input ''instanceId''))),
                (''operationId'', fld volumeAttachment ''id'')]))
      else if action = JStr ''detach-volume'' then
        bnd (voidCall c ''computeClient.detachVolume''
               (JObj [(''volumeAttachmentId'', fld input ''resourceId'')]))
          (\<lambda>_. ret (JObj
             [(''success'', JBool True),
              (''message'', JStr (''Volume detachment initiated: ''
                  @ to_string (fld input ''resourceId''))),
              (''operationId'', fld input ''resourceId'')]))
      else throw (new_Error (''Unsupported volume action: '' @ to_string action)))"

definition run_compute :: "OCIClientManager \<Rightarrow> int \<Rightarrow> obj \<Rightarrow> jv io" where
  "run_compute c now input =
     (let action = fld input ''action'' in
      if action = JStr ''list'' then listResources_compute c input
      else if action = JStr ''get'' then getResource_compute c input
      else if action = JStr ''create'' then createResource_compute c now input
      else if action \<in> {JStr ''start'', JStr ''stop'', JStr ''reboot'', JStr ''terminate''}
        then manageInstance c input
      else if action \<in> {JStr ''attach-volume'', JStr ''detach-volume''}
        then manageVolume c input
      else throw (new_Error (''Unsupported action: '' @ to_string action)))"

text \<open>\<^verbatim>\<open>ComputeManager.execute\<close>: the \<^verbatim>\<open>switch\<close> inside the \<^verbatim>\<open>try\<close>, and its \<^verbatim>\<open>catch\<close>.\<close>

definition execute_compute :: "OCIClientManager \<Rightarrow> int \<Rightarrow> obj \<Rightarrow> trace \<Rightarrow> jv \<times> trace" where
  "execute_compute c now input = catch_execute (run_compute c now input)"

section \<open>The database and analytics dispatcher (tools/database-analytics.ts)\<close>

definition listResources_database :: "OCIClientManager \<Rightarrow> obj \<Rightarrow> jv io" where
  "listResources_database c input =
     (let compartmentId = jor (fld input ''compartmentId'') (JStr (getDefaultCompartmentId c));
          resourceType = fld input ''resourceType''
      in
      if resourceType = JStr ''db-systems'' then
        bnd (itemsCall c ''databaseClient.listDbSystems''
               (JObj [(''compartmentId'', compartmentId),
                      (''limit'', jor (fld input ''limit'') (JNum 50)),
                      (''displayName'', fld input ''displayName''),
                      (''lifecycleState'', fld input ''lifecycleState'')]))
          (\<lambda>items. ret (JObj
             [(''success'', JBool True),
              (''data'', JArr items),
              (''count'', JNum (int (length items))),
              (''message'', JStr (''Found '' @ nat_digits (length items) @ '' DB systems''))]))
      else if resourceType = JStr ''autonomous-databases'' then
        bnd (itemsCall c ''databaseClient.listAutonomousDatabases''
               (JObj [(''compartmentId'', compartmentId),
                      (''limit'', jor (fld input ''limit'') (JNum 50)),
                      (''displayName'', fld input ''displayName''),
                      (''lifecycleState'', fld input ''lifecycleState'')]))
          (\<lambda>items. ret (JObj
             [(''success'', JBool True),
              (''data'', JArr items),
              (''count'', JNum (int (length items))),
              (''message'', JStr (''Found '' @ nat_digits (length items) @ '' autonomous databases''))]))
      else if resourceType = JStr ''databases'' then
        if \<not> truthy (fld input ''dbSystemId'') \<and> \<not> truthy (fld input ''dbHomeId'') then
          throw (new_Error ''Either dbSystemId or dbHomeId is required for listing databases'')
        else
        bnd (itemsCall c ''databaseClient.listDatabases''
               (if truthy (fld input ''dbSystemId'')
                then JObj [(''compartmentId'', compartmentId),
                           (''dbSystemId'', fld input ''dbSystemId''),
                           (''limit'', jor (fld input ''limit'') (JNum 50))]
                else JObj [(''compartmentId'', compartmentId),
                           (''dbHomeId'', fld input ''dbHomeId''),
                           (''limit'', jor (fld input ''limit'') (JNum 50))]))
          (\<lambda>items. ret (JObj
             [(''success'', JBool True),
              (''data'', JArr items),
              (''count'', JNum (int (length items))),
              (''message'', JStr (''Found '' @ nat_digits (length items) @ '' databases''))]))
      else if resourceType = JStr ''db-homes'' then
        if \<not> truthy (fld input ''dbSystemId'') then
          throw (new_Error ''dbSystemId is required for listing DB homes'')
        else
        bnd (itemsCall c ''databaseClient.listDbHomes''
               (JObj [(''compartmentId'', compartmentId),
                      (''dbSystemId'', fld input ''dbSystemId''),
                      (''limit'', jor (fld input ''limit'') (JNum 50)),
                      (''displayName'', fld input ''displayName''),
                      (''lifecycleState'', fld input ''lifecycleState'')]))
          (\<lambda>items. ret (JObj
             [(''success'', JBool True),
              (''data'', JArr items),
              (''count'', JNum (int (length items))),
              (''message'', JStr (''Found '' @ nat_digits (length items) @ '' DB homes''))]))
      else if resourceType = JStr ''db-nodes'' then
        if \<not> truthy (fld input ''dbSystemId'') then
          throw (new_Error ''dbSystemId is required for listing DB nodes'')
        else
        bnd (itemsCall c ''databaseClient.listDbNodes''
               (JObj [(''compartmentId'', compartmentId),
                      (''dbSystemId'', fld input ''dbSystemId''),
                      (''limit'', jor (fld input ''limit'') (JNum 50)),
                      (''lifecycleState'', fld input ''lifecycleState'')]))
          (\<lambda>items. ret (JObj
             [(''success'', JBool True),
              (''data'', JArr items),
              (''count'', JNum (int (length items))),
              (''message'', JStr (''Found '' @ nat_digits (length items) @ '' DB nodes''))]))
      else if resourceType = JStr ''backups'' then
        bnd (itemsCall c ''databaseClient.listBackups''
               (JObj [(''compartmentId'', compartmentId),
                      (''limit'', jor (fld input ''limit'') (JNum 50)),
                      (''lifecycleState'', fld input ''lifecycleState'')]))
          (\<lambda>items. ret (JObj
             [(''success'', JBool True),
              (''data'', JArr items),
              (''count'', JNum (int (length items))),
              (''message'', JStr (''Found '' @ nat_digits (length items) @ '' database backups''))]))
      else throw (new_Error (''Unsupported resource type: '' @ to_string resourceType)))"

definition getResource_database :: "OCIClientManager \<Rightarrow> obj \<Rightarrow> jv io" where
  "getResource_database c input =
     (let resourceType = fld input ''resourceType'';
          resourceId = fld input ''resourceId''
      in
      if resourceType = JStr ''db-system'' then
        bnd (resourceCall c ''databaseClient.getDbSystem'' (JObj [(''dbSystemId'', resourceId)]))
          (\<lambda>dbSystem. ret (JObj
             [(''success'', JBool True),
              (''data'', JObj dbSystem),
              (''message'', JStr (''Retrieved DB system details for '' @ to_string resourceId))]))
      else if resourceType = JStr ''autonomous-database'' then
        bnd (resourceCall c ''databaseClient.getAutonomousDatabase'' (JObj [(''autonomousDatabaseId'', resourceId)]))
          (\<lambda>autonomousDatabase. ret (JObj
             [(''success'', JBool True),
              (''data'', JObj autonomousDatabase),
              (''message'', JStr (''Retrieved autonomous database details for '' @ to_string resourceId))]))
      else if resourceType = JStr ''database'' then
        bnd (resourceCall c ''databaseClient.getDatabase'' (JObj [(''databaseId'', resourceId)]))
          (\<lambda>database. ret (JObj
             [(''success'', JBool True),
              (''data'', JObj database),
              (''message'', JStr (''Retrieved database details for '' @ to_string resourceId))]))
      else if resourceType = JStr ''db-home'' then
        bnd (resourceCall c ''databaseClient.getDbHome'' (JObj [(''dbHomeId'', resourceId)]))
          (\<lambda>dbHome. ret (JObj
             [(''success'', JBool True),
              (''data'', JObj dbHome),
              (''message'', JStr (''Retrieved DB home details for '' @ to_string resourceId))]))
      else if resourceType = JStr ''backup'' then
        bnd (resourceCall c ''databaseClient.getBackup'' (JObj [(''backupId'', resourceId)]))
          (\<lambda>backup. ret (JObj
             [(''success'', JBool True),
              (''data'', JObj backup),
              (''message'', JStr (''Retrieved backup details for '' @ to_string resourceId))]))
      else throw (new_Error (''Unsupported resource type: '' @ to_string resourceType)))"

text \<open>
  The request built for \<^verbatim>\<open>createAutonomousDatabase\<close>, with the defaults of the optional
  fields.
\<close>

definition createAdbRequest :: "obj \<Rightarrow> jv" where
  "createAdbRequest adbData =
     JObj [(''createAutonomousDatabaseDetails'', JObj
        [(''compartmentId'', fld adbData ''compartmentId''),
         (''dbName'', fld adbData ''dbName''),
         (''cpuCoreCount'', fld adbData ''cpuCoreCount''),
         (''dataStorageSizeInTBs'', fld adbData ''dataStorageSizeInTBs''),
         (''adminPassword'', fld adbData ''adminPassword''),
         (''displayName'', jor (fld adbData ''displayName'') (fld adbData ''dbName'')),
         (''dbVersion'', fld adbData ''dbVersion''),
         (''dbWorkload'', jor (fld adbData ''dbWorkload'') (JStr ''OLTP'')),
         (''isAutoScalingEnabled'', jor (fld adbData ''isAutoScalingEnabled'') (JBool False)),
         (''isFreeTier'', jor (fld adbData ''isFreeTier'') (JBool False)),
         (''licenseModel'', jor (fld adbData ''licenseModel'') (JStr ''LICENSE_INCLUDED'')),
         (''subnetId'', fld adbData ''subnetId''),
         (''nsgIds'', fld adbData ''nsgIds'')])]"

definition createResource_database :: "OCIClientManager \<Rightarrow> obj \<Rightarrow> jv io" where
  "createResource_database c input =
     (let resourceType = fld input ''resourceType'';
          data = as_object (fld input ''data'')
      in
      if resourceType = JStr ''autonomous-database'' then
        bnd (resourceCall c ''databaseClient.createAutonomousDatabase'' (createAdbRequest data))
          (\<lambda>autonomousDatabase. ret (JObj
             [(''success'', JBool True),
              (''data'', JObj autonomousDatabase),
              (''message'', JStr (''Autonomous database creation initiated: ''
                  @ to_string (fld autonomousDatabase ''displayName''))),
              (''operationId'', fld autonomousDatabase ''id'')]))
      else if resourceType = JStr ''database'' then
        bnd (resourceCall c ''databaseClient.createDatabase''
               (JObj [(''createDatabaseDetails'', JObj
                  [(''dbName'', fld data ''dbName''),
                   (''adminPassword'', fld data ''adminPassword''),
                   (''dbVersion'', fld data ''dbVersion''),
                   (''characterSet'', jor (fld data ''characterSet'') (JStr ''AL32UTF8'')),
                   (''ncharacterSet'', jor (fld data ''ncharacterSet'') (JStr ''AL16UTF16'')),
                   (''pdbName'', fld data ''pdbName'')]),
                 (''dbHomeId'', fld data ''dbSystemId'')]))
          (\<lambda>database. ret (JObj
             [(''success'', JBool True),
              (''data'', JObj database),
              (''message'', JStr (''Database creation initiated: ''
                  @ to_string (fld database ''dbName''))),
              (''operationId'', fld database ''id'')]))
      else if resourceType = JStr ''backup'' then
        bnd (resourceCall c ''databaseClient.createBackup''
               (JObj [(''createBackupDetails'', JObj
                  [(''databaseId'', fld data ''databaseId''),
                   (''displayName'', fld data ''displayName''),
                   (''type'', jor (fld data ''type'') (JStr ''INCREMENTAL''))])]))
          (\<lambda>backup. ret (JObj
             [(''success'', JBool True),
              (''data'', JObj backup),
              (''message'', JStr (''Database backup creation initiated: ''
                  @ to_string (fld backup ''displayName''))),
              (''operationId'', fld backup ''id'')]))
      else throw (new_Error (''Unsupported resource type: '' @ to_string resourceType)))"

definition manageResource_database :: "OCIClientManager \<Rightarrow> int \<Rightarrow> obj \<Rightarrow> jv io" where
  "manageResource_database c now input =
     (let action = fld input ''action'';
          resourceId = fld input ''resourceId''
      in
      if action = JStr ''start-autonomous-db'' then
        bnd (resourceCall c ''databaseClient.startAutonomousDatabase''
               (JObj [(''autonomousDatabaseId'', resourceId)]))
          (\<lambda>autonomousDatabase. ret (JObj
             [(''success'', JBool True),
              (''data'', JObj autonomousDatabase),
              (''message'', JStr (''Autonomous database start initiated: '' @ to_string resourceId)),
              (''operationId'', resourceId)]))
      else if action = JStr ''stop-autonomous-db'' then
        bnd (resourceCall c ''databaseClient.stopAutonomousDatabase''
               (JObj [(''autonomousDatabaseId'', resourceId)]))
          (\<lambda>autonomousDatabase. ret (JObj
             [(''success'', JBool True),
              (''data'', JObj autonomousDatabase),
              (''message'', JStr (''Autonomous database stop initiated: '' @ to_string resourceId)),
              (''operationId'', resourceId)]))
      else if action = JStr ''scale-autonomous-db'' then
        if \<not> truthy (fld input ''cpuCoreCount'') \<and> \<not> truthy (fld input ''dataStorageSizeInTBs'') then
          throw (new_Error ''Either cpuCoreCount or dataStorageSizeInTBs is required for scaling'')
        else
          bnd (resourceCall c ''databaseClient.updateAutonomousDatabase''
                 (JObj [(''autonomousDatabaseId'', resourceId),
                        (''updateAutonomousDatabaseDetails'', JObj
                           [(''cpuCoreCount'', fld input ''cpuCoreCount''),
                            (''dataStorageSizeInTBs'', fld input ''dataStorageSizeInTBs'')])]))
            (\<lambda>autonomousDatabase. ret (JObj
               [(''success'', JBool True),
                (''data'', JObj autonomousDatabase),
                (''message'', JStr (''Autonomous database scaling initiated: ''
                    @ to_string resourceId)),
                (''operationId'', resourceId)]))
      else if action = JStr ''clone-database'' then
        if fld input ''resourceType'' = JStr ''autonomous-database'' then
          bnd (resourceCall c ''databaseClient.createAutonomousDatabaseClone''
                 (JObj [(''createAutonomousDatabaseCloneDetails'', JObj
                    [(''sourceId'', resourceId),
                     (''cloneType'', JStr ''FULL''),
                     (''displayName'',
                        jor (fld input ''cloneName'') (JStr (''clone-'' @ number_string now))),
                     (''compartmentId'',
                        jor (fld input ''targetCompartmentId'')
                            (JStr (getDefaultCompartmentId c)))])]))
            (\<lambda>autonomousDatabase. ret (JObj
               [(''success'', JBool True),
                (''data'', JObj autonomousDatabase),
                (''message'', JStr (''Autonomous database clone initiated: ''
                    @ to_string (fld autonomousDatabase ''displayName''))),
                (''operationId'', fld autonomousDatabase ''id'')]))
        else throw (new_Error ''Clone operation only supported for autonomous databases'')
      else if action = JStr ''delete-backup'' then
        bnd (voidCall c ''databaseClient.deleteBackup'' (JObj [(''backupId'', resourceId)]))
          (\<lambda>_. ret (JObj
             [(''success'', JBool True),
              (''message'', JStr (''Backup deletion initiated: '' @ to_string resourceId)),
              (''operationId'', resourceId)]))
      else throw (new_Error (''Unsupported management action: '' @ to_string action)))"

definition run_database :: "OCIClientManager \<Rightarrow> int \<Rightarrow> obj \<Rightarrow> jv io" where
  "run_database c now input =
     (let action = fld input ''action'' in
      if action = JStr ''list'' then listResources_database c input
      else if action = JStr ''get'' then getResource_database c input
      else if action = JStr ''create'' then createResource_database c input
      else if action \<in> {JStr ''start-database'', JStr ''stop-database'', JStr ''restart-database'',
                         JStr ''start-autonomous-db'', JStr ''stop-autonomous-db'',
                         JStr ''scale-autonomous-db'', JStr ''restore-database'',
                         JStr ''clone-database'', JStr ''delete-backup''}
        then manageResource_database c now input
      else throw (new_Error (''Unsupported action: '' @ to_string action)))"

text \<open>\<^verbatim>\<open>DatabaseAnalyticsManager.execute\<close>\<close>

definition execute_database :: "OCIClientManager \<Rightarrow> int \<Rightarrow> obj \<Rightarrow> trace \<Rightarrow> jv \<times> trace" where
  "execute_database c now input = catch_execute (run_database c now input)"

section \<open>The monitoring and security dispatcher (tools/monitoring-security.ts)\<close>

text \<open>\<^verbatim>\<open>new Date(v)\<close> is the parameter \<open>newDate\<close>.\<close>

definition listResources_monitoring :: "OCIClientManager \<Rightarrow> (jv \<Rightarrow> jv) \<Rightarrow> obj \<Rightarrow> jv io" where
  "listResources_monitoring c newDate input =
     (let compartmentId = jor (fld input ''compartmentId'') (JStr (getDefaultCompartmentId c));
          resourceType = fld input ''resourceType''
      in
      if resourceType = JStr ''alarms'' then
        bnd (itemsCall c ''monitoringClient.listAlarms''
               (JObj [(''compartmentId'', compartmentId),
                      (''limit'', jor (fld input ''limit'') (JNum 50)),
                      (''displayName'', fld input ''displayName'')]))
          (\<lambda>items. ret (JObj
             [(''success'', JBool True),
              (''data'', JArr items),
              (''count'', JNum (int (length items))),
              (''message'', JStr (''Found '' @ nat_digits (length items) @ '' alarms''))]))
      else if resourceType = JStr ''metrics'' then
        if \<not> truthy (fld input ''metricNamespace'') then
          throw (new_Error ''Metric namespace is required for listing metrics'')
        else
        bnd (itemsCall c ''monitoringClient.listMetrics''
               (JObj [(''compartmentId'', compartmentId),
                      (''namespace'', fld input ''metricNamespace''),
                      (''limit'', jor (fld input ''limit'') (JNum 50))]))
          (\<lambda>items. ret (JObj
             [(''success'', JBool True),
              (''data'', JArr items),
              (''count'', JNum (int (length items))),
              (''message'', JStr (''Found '' @ nat_digits (length items) @ '' metrics in namespace ''
                  @ to_string (fld input ''metricNamespace'')))]))
      else if resourceType = JStr ''metric-data'' then
        if \<not> truthy (fld input ''metricNamespace'') \<or> \<not> truthy (fld input ''startTime'')
            \<or> \<not> truthy (fld input ''endTime'') then
          throw (new_Error
            ''Metric namespace, start time, and end time are required for metric data'')
        else
        bnd (itemsCall c ''monitoringClient.summarizeMetricsData''
               (JObj [(''compartmentId'', compartmentId),
                      (''query'', JStr (to_string (fld input ''metricNamespace'') @ ''[]'')),
                      (''startTime'', newDate (fld input ''startTime'')),
                      (''endTime'', newDate (fld input ''endTime''))]))
          (\<lambda>items. ret (JObj
             [(''success'', JBool True),
              (''data'', JArr items),
              (''count'', JNum (int (length items))),
              (''message'', JStr (''Retrieved metric data for '' @ to_string (fld input ''metricNamespace'')))]))
      else if resourceType = JStr ''log-groups'' then
        bnd (itemsCall c ''loggingClient.listLogGroups''
               (JObj [(''compartmentId'', compartmentId),
                      (''limit'', jor (fld input ''limit'') (JNum 50)),
                      (''displayName'', fld input ''displayName'')]))
          (\<lambda>items. ret (JObj
             [(''success'', JBool True),
              (''data'', JArr items),
              (''count'', JNum (int (length items))),
              (''message'', JStr (''Found '' @ nat_digits (length items) @ '' log groups''))]))
      else if resourceType = JStr ''network-security-groups'' then
        bnd (itemsCall c ''virtualNetworkClient.listNetworkSecurityGroups''
               (JObj [(''compartmentId'', compartmentId),
                      (''vcnId'', fld input ''vcnId''),
                      (''limit'', jor (fld input ''limit'') (JNum 50)),
                      (''displayName'', fld input ''displayName'')]))
          (\<lambda>items. ret (JObj
             [(''success'', JBool True),
              (''data'', JArr items),
              (''count'', JNum (int (length items))),
              (''message'', JStr (''Found '' @ nat_digits (length items) @ '' network security groups''))]))
      else if resourceType = JStr ''security-lists'' then
        bnd (itemsCall c ''virtualNetworkClient.listSecurityLists''
               (JObj [(''compartmentId'', compartmentId),
                      (''vcnId'', fld input ''vcnId''),
                      (''limit'', jor (fld input ''limit'') (JNum 50)),
                      (''displayName'', fld input ''displayName'')]))
          (\<lambda>items. ret (JObj
             [(''success'', JBool True),
              (''data'', JArr items),
              (''count'', JNum (int (length items))),
              (''message'', JStr (''Found '' @ nat_digits (length items) @ '' security lists''))]))
      else if resourceType = JStr ''users'' then
        bnd (itemsCall c ''identityClient.listUsers''
               (JObj [(''compartmentId'', compartmentId),
                      (''limit'', jor (fld input ''limit'') (JNum 50))]))
          (\<lambda>items. ret (JObj
             [(''success'', JBool True),
              (''data'', JArr items),
              (''count'', JNum (int (length items))),
              (''message'', JStr (''Found '' @ nat_digits (length items) @ '' users''))]))
      else if resourceType = JStr ''groups'' then
        bnd (itemsCall c ''identityClient.listGroups''
               (JObj [(''compartmentId'', compartmentId),
                      (''limit'', jor (fld input ''limit'') (JNum 50))]))
          (\<lambda>items. ret (JObj
             [(''success'', JBool True),
              (''data'', JArr items),
              (''count'', JNum (int (length items))),
              (''message'', JStr (''Found '' @ nat_digits (length items) @ '' groups''))]))
      else if resourceType = JStr ''policies'' then
        bnd (itemsCall c ''identityClient.listPolicies''
               (JObj [(''compartmentId'', compartmentId),
                      (''limit'', jor (fld input ''limit'') (JNum 50))]))
          (\<lambda>items. ret (JObj
             [(''success'', JBool True),
              (''data'', JArr items),
              (''count'', JNum (int (length items))),
              (''message'', JStr (''Found '' @ nat_digits (length items) @ '' policies''))]))
      else throw (new_Error (''Unsupported resource type: '' @ to_string resourceType)))"

definition getResource_monitoring :: "OCIClientManager \<Rightarrow> obj \<Rightarrow> jv io" where
  "getResource_monitoring c input =
     (let resourceType = fld input ''resourceType'';
          resourceId = fld input ''resourceId''
      in
      if resourceType = JStr ''alarm'' then
        bnd (resourceCall c ''monitoringClient.getAlarm'' (JObj [(''alarmId'', resourceId)]))
          (\<lambda>alarm. ret (JObj
             [(''success'', JBool True),
              (''data'', JObj alarm),
              (''message'', JStr (''Retrieved alarm details for '' @ to_string resourceId))]))
      else if resourceType = JStr ''log-group'' then
        bnd (resourceCall c ''loggingClient.getLogGroup'' (JObj [(''logGroupId'', resourceId)]))
          (\<lambda>logGroup. ret (JObj
             [(''success'', JBool True),
              (''data'', JObj logGroup),
              (''message'', JStr (''Retrieved log group details for '' @ to_string resourceId))]))
      else if resourceType = JStr ''network-security-group'' then
        bnd (resourceCall c ''virtualNetworkClient.getNetworkSecurityGroup'' (JObj [(''networkSecurityGroupId'', resourceId)]))
          (\<lambda>networkSecurityGroup. ret (JObj
             [(''success'', JBool True),
              (''data'', JObj networkSecurityGroup),
              (''message'', JStr (''Retrieved network security group details for '' @ to_string resourceId))]))
      else if resourceType = JStr ''security-list'' then
        bnd (resourceCall c ''virtualNetworkClient.getSecurityList'' (JObj [(''securityListId'', resourceId)]))
          (\<lambda>securityList. ret (JObj
             [(''success'', JBool True),
              (''data'', JObj securityList),
              (''message'', JStr (''Retrieved security list details for '' @ to_string resourceId))]))
      else if resourceType = JStr ''user'' then
        bnd (resourceCall c ''identityClient.getUser'' (JObj [(''userId'', resourceId)]))
          (\<lambda>user. ret (JObj
             [(''success'', JBool True),
              (''data'', JObj user),
              (''message'', JStr (''Retrieved user details for '' @ to_string resourceId))]))
      else if resourceType = JStr ''group'' then
        bnd (resourceCall c ''identityClient.getGroup'' (JObj [(''groupId'', resourceId)]))
          (\<lambda>grp. ret (JObj
             [(''success'', JBool True),
              (''data'', JObj grp),
              (''message'', JStr (''Retrieved group details for '' @ to_string resourceId))]))
      else if resourceType = JStr ''policy'' then
        bnd (resourceCall c ''identityClient.getPolicy'' (JObj [(''policyId'', resourceId)]))
          (\<lambda>policy. ret (JObj
             [(''success'', JBool True),
              (''data'', JObj policy),
              (''message'', JStr (''Retrieved policy details for '' @ to_string resourceId))]))
      else throw (new_Error (''Unsupported resource type: '' @ to_string resourceType)))"

text \<open>
  \<^verbatim>\<open>for (const rule of nsgData.securityRules) { await ...add...({ ... [rule] }) }\<close>:
  one call per rule, in order; a rejected call ends the loop with its error.
\<close>

fun addSecurityRules :: "OCIClientManager \<Rightarrow> jv \<Rightarrow> jv list \<Rightarrow> unit io" where
  "addSecurityRules c nsgId [] = ret ()"
| "addSecurityRules c nsgId (rule # rules) =
     bnd (voidCall c ''virtualNetworkClient.addNetworkSecurityGroupSecurityRules''
            (JObj [(''networkSecurityGroupId'', nsgId),
                   (''addNetworkSecurityGroupSecurityRulesDetails'', JObj
                      [(''securityRules'', JArr [rule])])]))
       (\<lambda>_. addSecurityRules c nsgId rules)"

text \<open>
  \<^verbatim>\<open>securityRules\<close> is an array of rule objects or absent, by the type of the payload.
\<close>

definition createResource_monitoring :: "OCIClientManager \<Rightarrow> obj \<Rightarrow> jv io" where
  "createResource_monitoring c input =
     (let resourceType = fld input ''resourceType'';
          data = as_object (fld input ''data'')
      in
      if resourceType = JStr ''alarm'' then
        bnd (resourceCall c ''monitoringClient.createAlarm''
               (JObj [(''createAlarmDetails'', JObj
                  [(''compartmentId'', fld data ''compartmentId''),
                   (''displayName'', fld data ''displayName''),
                   (''metricCompartmentId'', fld data ''metricCompartmentId''),
                   (''namespace'', fld data ''namespace''),
                   (''query'', fld data ''query''),
                   (''severity'', fld data ''severity''),
                   (''destinations'', fld data ''destinations''),
                   (''isEnabled'', JBool (fld data ''isEnabled'' \<noteq> JBool False)),
                   (''body'', fld data ''body''),
                   (''pendingDuration'', jor (fld data ''pendingDuration'') (JStr ''PT5M''))])]))
          (\<lambda>alarm. ret (JObj
             [(''success'', JBool True),
              (''data'', JObj alarm),
              (''message'', JStr (''Alarm created successfully: ''
                  @ to_string (fld alarm ''displayName''))),
              (''operationId'', fld alarm ''id'')]))
      else if resourceType = JStr ''log-group'' then
        bnd (resourceCall c ''loggingClient.createLogGroup''
               (JObj [(''createLogGroupDetails'', JObj
                  [(''compartmentId'', fld data ''compartmentId''),
                   (''displayName'', fld data ''displayName''),
                   (''description'', fld data ''description'')])]))
          (\<lambda>logGroup. ret (JObj
             [(''success'', JBool True),
              (''data'', JObj logGroup),
              (''message'', JStr (''Log group created successfully: ''
                  @ to_string (fld logGroup ''displayName''))),
              (''operationId'', fld logGroup ''id'')]))
      else if resourceType = JStr ''network-security-group'' then
        bnd (resourceCall c ''virtualNetworkClient.createNetworkSecurityGroup''
               (JObj [(''createNetworkSecurityGroupDetails'', JObj
                  [(''compartmentId'', fld data ''compartmentId''),
                   (''vcnId'', fld data ''vcnId''),
                   (''displayName'', fld data ''displayName'')])]))
          (\<lambda>networkSecurityGroup.
             bnd (case fld data ''securityRules'' of
                    JArr securityRules \<Rightarrow>
                      if length securityRules > 0
                      then addSecurityRules c (fld networkSecurityGroup ''id'') securityRules
                      else ret ()
                  | _ \<Rightarrow> ret ())
               (\<lambda>_. ret (JObj
                  [(''success'', JBool True),
                   (''data'', JObj networkSecurityGroup),
                   (''message'', JStr (''Network security group created successfully: ''
                       @ to_string (fld networkSecurityGroup ''displayName''))),
                   (''operationId'', fld networkSecurityGroup ''id'')])))
      else if resourceType = JStr ''user'' then
        bnd (resourceCall c ''identityClient.createUser''
               (JObj [(''createUserDetails'', JObj
                  [(''compartmentId'', fld data ''compartmentId''),
                   (''name'', fld data ''name''),
                   (''description'', fld data ''description''),
                   (''email'', fld data ''email'')])]))
          (\<lambda>user. ret (JObj
             [(''success'', JBool True),
              (''data'', JObj user),
              (''message'', JStr (''User created successfully: '' @ to_string (fld user ''name''))),
              (''operationId'', fld user ''id'')]))
      else if resourceType = JStr ''group'' then
        bnd (resourceCall c ''identityClient.createGroup''
               (JObj [(''createGroupDetails'', JObj
                  [(''compartmentId'', fld data ''compartmentId''),
                   (''name'', fld data ''name''),
                   (''description'', fld data ''description'')])]))
          (\<lambda>grp. ret (JObj
             [(''success'', JBool True),
              (''data'', JObj grp),
              (''message'', JStr (''Group created successfully: '' @ to_string (fld grp ''name''))),
              (''operationId'', fld grp ''id'')]))
      else if resourceType = JStr ''policy'' then
        bnd (resourceCall c ''identityClient.createPolicy''
               (JObj [(''createPolicyDetails'', JObj
                  [(''compartmentId'', fld data ''compartmentId''),
                   (''name'', fld data ''name''),
                   (''description'', fld data ''description''),
                   (''statements'', jor (fld data ''statements'') (JArr []))])]))
          (\<lambda>policy. ret (JObj
             [(''success'', JBool True),
              (''data'', JObj policy),
              (''message'', JStr (''Policy created successfully: ''
                  @ to_string (fld policy ''name''))),
              (''operationId'', fld policy ''id'')]))
      else throw (new_Error (''Unsupported resource type: '' @ to_string resourceType)))"

definition manageResource_monitoring :: "OCIClientManager \<Rightarrow> obj \<Rightarrow> jv io" where
  "manageResource_monitoring c input =
     (let action = fld input ''action'';
          resourceId = fld input ''resourceId''
      in
      if action = JStr ''enable-alarm'' then
        bnd (resourceCall c ''monitoringClient.updateAlarm''
               (JObj [(''alarmId'', resourceId),
                      (''updateAlarmDetails'', JObj [(''isEnabled'', JBool True)])]))
          (\<lambda>alarm. ret (JObj
             [(''success'', JBool True),
              (''data'', JObj alarm),
              (''message'', JStr (''Alarm enabled: '' @ to_string resourceId)),
              (''operationId'', resourceId)]))
      else if action = JStr ''disable-alarm'' then
        bnd (resourceCall c ''monitoringClient.updateAlarm''
               (JObj [(''alarmId'', resourceId),
                      (''updateAlarmDetails'', JObj [(''isEnabled'', JBool False)])]))
          (\<lambda>alarm. ret (JObj
             [(''success'', JBool True),
              (''data'', JObj alarm),
              (''message'', JStr (''Alarm disabled: '' @ to_string resourceId)),
              (''operationId'', resourceId)]))
      else if action = JStr ''update-alarm'' then
        bnd (resourceCall c ''monitoringClient.updateAlarm''
               (JObj [(''alarmId'', resourceId),
                      (''updateAlarmDetails'', JObj
                         [(''query'', fld input ''query''),
                          (''severity'', fld input ''severity''),
                          (''isEnabled'', fld input ''isEnabled'')])]))
          (\<lambda>alarm. ret (JObj
             [(''success'', JBool True),
              (''data'', JObj alarm),
              (''message'', JStr (''Alarm updated: '' @ to_string resourceId)),
              (''operationId'', resourceId)]))
      else if action = JStr ''delete-alarm'' then
        bnd (voidCall c ''monitoringClient.deleteAlarm'' (JObj [(''alarmId'', resourceId)]))
          (\<lambda>_. ret (JObj
             [(''success'', JBool True),
              (''message'', JStr (''Alarm deletion initiated: '' @ to_string resourceId)),
              (''operationId'', resourceId)]))
      else if action = JStr ''add-security-rule'' then
        if \<not> truthy (fld input ''securityRule'') then
          throw (new_Error ''Security rule is required for adding security rule'')
        else
          bnd (voidCall c ''virtualNetworkClient.addNetworkSecurityGroupSecurityRules''
                 (JObj [(''networkSecurityGroupId'', resourceId),
                        (''addNetworkSecurityGroupSecurityRulesDetails'', JObj
                           [(''securityRules'', JArr [fld input ''securityRule''])])]))
            (\<lambda>_. ret (JObj
               [(''success'', JBool True),
                (''message'', JStr (''Security rule added to NSG: '' @ to_string resourceId)),
                (''operationId'', resourceId)]))
      else if action = JStr ''add-user-to-group'' then
        if \<not> truthy (fld input ''userId'') \<or> \<not> truthy (fld input ''groupId'') then
          throw (new_Error ''Both userId and groupId are required for adding user to group'')
        else
          bnd (resourceCall c ''identityClient.addUserToGroup''
                 (JObj [(''addUserToGroupDetails'', JObj
                    [(''userId'', fld input ''userId''),
                     (''groupId'', fld input ''groupId'')])]))
            (\<lambda>userGroupMembership. ret (JObj
               [(''success'', JBool True),
                (''data'', JObj userGroupMembership),
                (''message'', JStr (''User '' @ to_string (fld input ''userId'')
                    @ '' added to group '' @ to_string (fld input ''groupId''))),
                (''operationId'', fld userGroupMembership ''id'')]))
      else if action = JStr ''remove-user-from-group'' then
        bnd (voidCall c ''identityClient.removeUserFromGroup''
               (JObj [(''userGroupMembershipId'', resourceId)]))
          (\<lambda>_. ret (JObj
             [(''success'', JBool True),
              (''message'', JStr (''User removed from group: '' @ to_string resourceId)),
              (''operationId'', resourceId)]))
      else throw (new_Error (''Unsupported management action: '' @ to_string action)))"

definition run_monitoring :: "OCIClientManager \<Rightarrow> (jv \<Rightarrow> jv) \<Rightarrow> obj \<Rightarrow> jv io" where
  "run_monitoring c newDate input =
     (let action = fld input ''action'' in
      if action = JStr ''list'' then listResources_monitoring c newDate input
      else if action = JStr ''get'' then getResource_monitoring c input
      else if action = JStr ''create'' then createResource_monitoring c input
      else if action \<in> {JStr ''enable-alarm'', JStr ''disable-alarm'', JStr ''update-alarm'',
                         JStr ''delete-alarm'', JStr ''add-security-rule'',
                         JStr ''remove-security-rule'', JStr ''update-secret'',
                         JStr ''rotate-secret'', JStr ''add-user-to-group'',
                         JStr ''remove-user-from-group'', JStr ''attach-policy'',
                         JStr ''detach-policy''}
        then manageResource_monitoring c input
      else throw (new_Error (''Unsupported action: '' @ to_string action)))"

text \<open>\<^verbatim>\<open>MonitoringSecurityManager.execute\<close>\<close>

definition execute_monitoring ::
  "OCIClientManager \<Rightarrow> (jv \<Rightarrow> jv) \<Rightarrow> obj \<Rightarrow> trace \<Rightarrow> jv \<times> trace" where
  "execute_monitoring c newDate input = catch_execute (run_monitoring c newDate input)"

section \<open>The storage and network dispatcher (tools/storage-network.ts)\<close>

text \<open>\<^verbatim>\<open>getNamespace\<close>: one backend call, answering \<^verbatim>\<open>response.value\<close>.\<close>

definition getNamespace :: "OCIClientManager \<Rightarrow> jv io" where
  "getNamespace c =
     bnd (resourceCall c ''objectStorageClient.getNamespace'' (JObj []))
       (\<lambda>response. ret (fld response ''value''))"

text \<open>\<^verbatim>\<open>input.namespaceName || await this.getNamespace()\<close>\<close>

definition namespaceOf :: "OCIClientManager \<Rightarrow> obj \<Rightarrow> jv io" where
  "namespaceOf c input =
     (if truthy (fld input ''namespaceName'') then ret (fld input ''namespaceName'')
      else getNamespace c)"

definition listResources_storage :: "OCIClientManager \<Rightarrow> obj \<Rightarrow> jv io" where
  "listResources_storage c input =
     (let compartmentId = jor (fld input ''compartmentId'') (JStr (getDefaultCompartmentId c));
          resourceType = fld input ''resourceType''
      in
      if resourceType = JStr ''buckets'' then
        bnd (namespaceOf c input) (\<lambda>namespaceName.
        bnd (itemsCall c ''objectStorageClient.listBuckets''
               (JObj [(''namespaceName'', namespaceName),
                      (''compartmentId'', compartmentId),
                      (''limit'', jor (fld input ''limit'') (JNum 50))]))
          (\<lambda>items. ret (JObj
             [(''success'', JBool True),
              (''data'', JArr items),
              (''count'', JNum (int (length items))),
              (''message'', JStr (''Found '' @ nat_digits (length items) @ '' buckets''))])))
      else if resourceType = JStr ''objects'' then
        if \<not> truthy (fld input ''bucketName'') then
          throw (new_Error ''Bucket name is required for listing objects'')
        else
          bnd (namespaceOf c input) (\<lambda>objectsNamespace.
          bnd (objectsCall c ''objectStorageClient.listObjects''
                 (JObj [(''namespaceName'', objectsNamespace),
                        (''bucketName'', fld input ''bucketName''),
                        (''limit'', jor (fld input ''limit'') (JNum 50))]))
            (\<lambda>objects. ret (JObj
               [(''success'', JBool True),
                (''data'', JArr (case objects of Some xs \<Rightarrow> xs | None \<Rightarrow> [])),
                (''count'', JNum (case objects of Some xs \<Rightarrow> int (length xs) | None \<Rightarrow> 0)),
                (''message'', JStr (''Found ''
                    @ nat_digits (case objects of Some xs \<Rightarrow> length xs | None \<Rightarrow> 0)
                    @ '' objects in bucket '' @ to_string (fld input ''bucketName'')))])))
      else if resourceType = JStr ''vcns'' then
        bnd (itemsCall c ''virtualNetworkClient.listVcns''
               (JObj [(''compartmentId'', compartmentId),
                      (''limit'', jor (fld input ''limit'') (JNum 50)),
                      (''displayName'', fld input ''displayName'')]))
          (\<lambda>items. ret (JObj
             [(''success'', JBool True),
              (''data'', JArr items),
              (''count'', JNum (int (length items))),
              (''message'', JStr (''Found '' @ nat_digits (length items) @ '' VCNs''))]))
      else if resourceType = JStr ''subnets'' then
        bnd (itemsCall c ''virtualNetworkClient.listSubnets''
               (JObj [(''compartmentId'', compartmentId),
                      (''vcnId'', fld input ''vcnId''),
                      (''limit'', jor (fld input ''limit'') (JNum 50)),
                      (''displayName'', fld input ''displayName'')]))
          (\<lambda>items. ret (JObj
             [(''success'', JBool True),
              (''data'', JArr items),
              (''count'', JNum (int (length items))),
              (''message'', JStr (''Found '' @ nat_digits (length items) @ '' subnets''))]))
      else if resourceType = JStr ''security-lists'' then
        bnd (itemsCall c ''virtualNetworkClient.listSecurityLists''
               (JObj [(''compartmentId'', compartmentId),
                      (''vcnId'', fld input ''vcnId''),
                      (''limit'', jor (fld input ''limit'') (JNum 50)),
                      (''displayName'', fld input ''displayName'')]))
          (\<lambda>items. ret (JObj
             [(''success'', JBool True),
              (''data'', JArr items),
              (''count'', JNum (int (length items))),
              (''message'', JStr (''Found '' @ nat_digits (length items) @ '' security lists''))]))
      else if resourceType = JStr ''route-tables'' then
        bnd (itemsCall c ''virtualNetworkClient.listRouteTables''
               (JObj [(''compartmentId'', compartmentId),
                      (''vcnId'', fld input ''vcnId''),
                      (''limit'', jor (fld input ''limit'') (JNum 50)),
                      (''displayName'', fld input ''displayName'')]))
          (\<lambda>items. ret (JObj
             [(''success'', JBool True),
              (''data'', JArr items),
              (''count'', JNum (int (length items))),
              (''message'', JStr (''Found '' @ nat_digits (length items) @ '' route tables''))]))
      else if resourceType = JStr ''internet-gateways'' then
        bnd (itemsCall c ''virtualNetworkClient.listInternetGateways''
               (JObj [(''compartmentId'', compartmentId),
                      (''vcnId'', fld input ''vcnId''),
                      (''limit'', jor (fld input ''limit'') (JNum 50)),
                      (''displayName'', fld input ''displayName'')]))
          (\<lambda>items. ret (JObj
             [(''success'', JBool True),
              (''data'', JArr items),
              (''count'', JNum (int (length items))),
              (''message'', JStr (''Found '' @ nat_digits (length items) @ '' internet gateways''))]))
      else if resourceType = JStr ''nat-gateways'' then
        bnd (itemsCall c ''virtualNetworkClient.listNatGateways''
               (JObj [(''compartmentId'', compartmentId),
                      (''vcnId'', fld input ''vcnId''),
                      (''limit'', jor (fld input ''limit'') (JNum 50)),
                      (''displayName'', fld input ''displayName'')]))
          (\<lambda>items. ret (JObj
             [(''success'', JBool True),
              (''data'', JArr items),
              (''count'', JNum (int (length items))),
              (''message'', JStr (''Found '' @ nat_digits (length items) @ '' NAT gateways''))]))
      else if resourceType = JStr ''load-balancers'' then
        bnd (itemsCall c ''loadBalancerClient.listLoadBalancers''
               (JObj [(''compartmentId'', compartmentId),
                      (''limit'', jor (fld input ''limit'') (JNum 50)),
                      (''displayName'', fld input ''displayName'')]))
          (\<lambda>items. ret (JObj
             [(''success'', JBool True),
              (''data'', JArr items),
              (''count'', JNum (int (length items))),
              (''message'', JStr (''Found '' @ nat_digits (length items) @ '' load balancers''))]))
      else throw (new_Error (''Unsupported resource type: '' @ to_string resourceType)))"

definition getResource_storage :: "OCIClientManager \<Rightarrow> obj \<Rightarrow> jv io" where
  "getResource_storage c input =
     (let resourceType = fld input ''resourceType'';
          resourceId = fld input ''resourceId''
      in
      if resourceType = JStr ''bucket'' then
        bnd (namespaceOf c input) (\<lambda>namespaceName.
        bnd (resourceCall c ''objectStorageClient.getBucket''
               (JObj [(''namespaceName'', namespaceName), (''bucketName'', resourceId)]))
          (\<lambda>bucket. ret (JObj
             [(''success'', JBool True),
              (''data'', JObj bucket),
              (''message'', JStr (''Retrieved bucket details for '' @ to_string resourceId))])))
      else if resourceType = JStr ''object'' then
        if \<not> truthy (fld input ''bucketName'') \<or> \<not> truthy (fld input ''objectName'') then
          throw (new_Error ''Bucket name and object name are required'')
        else
          bnd (namespaceOf c input) (\<lambda>objectNamespace.
          bnd (resourceCall c ''objectStorageClient.getObject''
                 (JObj [(''namespaceName'', objectNamespace),
                        (''bucketName'', fld input ''bucketName''),
                        (''objectName'', fld input ''objectName'')]))
            (\<lambda>objectResponse. ret (JObj
               [(''success'', JBool True),
                (''data'', JObj
                   [(''objectName'', fld input ''objectName''),
                    (''contentLength'', fld objectResponse ''contentLength''),
                    (''contentType'', fld objectResponse ''contentType''),
                    (''etag'', fld objectResponse ''etag''),
                    (''lastModified'', fld objectResponse ''lastModified'')]),
                (''message'', JStr (''Retrieved object details for ''
                    @ to_string (fld input ''objectName'')))])))
      else if resourceType = JStr ''vcn'' then
        bnd (resourceCall c ''virtualNetworkClient.getVcn'' (JObj [(''vcnId'', resourceId)]))
          (\<lambda>vcn. ret (JObj
             [(''success'', JBool True),
              (''data'', JObj vcn),
              (''message'', JStr (''Retrieved VCN details for '' @ to_string resourceId))]))
      else if resourceType = JStr ''subnet'' then
        bnd (resourceCall c ''virtualNetworkClient.getSubnet'' (JObj [(''subnetId'', resourceId)]))
          (\<lambda>subnet. ret (JObj
             [(''success'', JBool True),
              (''data'', JObj subnet),
              (''message'', JStr (''Retrieved subnet details for '' @ to_string resourceId))]))
      else if resourceType = JStr ''security-list'' then
        bnd (resourceCall c ''virtualNetworkClient.getSecurityList'' (JObj [(''securityListId'', resourceId)]))
          (\<lambda>securityList. ret (JObj
             [(''success'', JBool True),
              (''data'', JObj securityList),
              (''message'', JStr (''Retrieved security list details for '' @ to_string resourceId))]))
      else throw (new_Error (''Unsupported resource type: '' @ to_string resourceType)))"

definition createResource_storage :: "OCIClientManager \<Rightarrow> int \<Rightarrow> obj \<Rightarrow> jv io" where
  "createResource_storage c now input =
     (let resourceType = fld input ''resourceType'';
          data = as_object (fld input ''data'')
      in
      if resourceType = JStr ''bucket'' then
        bnd (resourceCall c ''objectStorageClient.createBucket''
               (JObj [(''namespaceName'', fld data ''namespace''),
                      (''createBucketDetails'', JObj
                         [(''name'', fld data ''name''),
                          (''compartmentId'', fld data ''compartmentId''),
                          (''storageTier'', jor (fld data ''storageTier'') (JStr ''Standard'')),
                          (''publicAccessType'',
                             jor (fld data ''publicAccessType'') (JStr ''NoPublicAccess''))])]))
          (\<lambda>bucket. ret (JObj
             [(''success'', JBool True),
              (''data'', JObj bucket),
              (''message'', JStr (''Bucket created successfully: ''
                  @ to_string (fld data ''name''))),
              (''operationId'', fld data ''name'')]))
      else if resourceType = JStr ''vcn'' then
        bnd (resourceCall c ''virtualNetworkClient.createVcn''
               (JObj [(''createVcnDetails'', JObj
                  [(''compartmentId'', fld data ''compartmentId''),
                   (''cidrBlock'', fld data ''cidrBlock''),
                   (''displayName'',
                      jor (fld data ''displayName'') (JStr (''vcn-'' @ number_string now))),
                   (''dnsLabel'', fld data ''dnsLabel'')])]))
          (\<lambda>vcn. ret (JObj
             [(''success'', JBool True),
              (''data'', JObj vcn),
              (''message'', JStr (''VCN created successfully: ''
                  @ to_string (fld vcn ''displayName''))),
              (''operationId'', fld vcn ''id'')]))
      else if resourceType = JStr ''subnet'' then
        bnd (resourceCall c ''virtualNetworkClient.createSubnet''
               (JObj [(''createSubnetDetails'', JObj
                  [(''compartmentId'', fld data ''compartmentId''),
                   (''vcnId'', fld data ''vcnId''),
                   (''cidrBlock'', fld data ''cidrBlock''),
                   (''availabilityDomain'', fld data ''availabilityDomain''),
                   (''displayName'',
                      jor (fld data ''displayName'') (JStr (''subnet-'' @ number_string now))),
                   (''routeTableId'', fld data ''routeTableId''),
                   (''securityListIds'', fld data ''securityListIds''),
                   (''prohibitPublicIpOnVnic'', fld data ''prohibitPublicIpOnVnic'')])]))
          (\<lambda>subnet. ret (JObj
             [(''success'', JBool True),
              (''data'', JObj subnet),
              (''message'', JStr (''Subnet created successfully: ''
                  @ to_string (fld subnet ''displayName''))),
              (''operationId'', fld subnet ''id'')]))
      else if resourceType = JStr ''internet-gateway'' then
        bnd (resourceCall c ''virtualNetworkClient.createInternetGateway''
               (JObj [(''createInternetGatewayDetails'', JObj
                  [(''compartmentId'', fld data ''compartmentId''),
                   (''vcnId'', fld data ''vcnId''),
                   (''displayName'',
                      jor (fld data ''displayName'') (JStr (''igw-'' @ number_string now))),
                   (''isEnabled'', JBool (fld data ''isEnabled'' \<noteq> JBool False))])]))
          (\<lambda>internetGateway. ret (JObj
             [(''success'', JBool True),
              (''data'', JObj internetGateway),
              (''message'', JStr (''Internet Gateway created successfully: ''
                  @ to_string (fld internetGateway ''displayName''))),
              (''operationId'', fld internetGateway ''id'')]))
      else throw (new_Error (''Unsupported resource type: '' @ to_string resourceType)))"

definition manageObject :: "OCIClientManager \<Rightarrow> obj \<Rightarrow> jv io" where
  "manageObject c input =
     bnd (namespaceOf c input) (\<lambda>namespaceName.
       let action = fld input ''action'' in
       if action = JStr ''upload-object'' then
         if \<not> truthy (fld input ''bucketName'') \<or> \<not> truthy (fld input ''objectName'')
             \<or> \<not> truthy (fld input ''objectContent'') then
           throw (new_Error ''Bucket name, object name, and content are required for upload'')
         else
           bnd (voidCall c ''objectStorageClient.putObject''
                  (JObj [(''namespaceName'', namespaceName),
                         (''bucketName'', fld input ''bucketName''),
                         (''objectName'', fld input ''objectName''),
                         (''putObjectBody'', fld input ''objectContent''),
                         (''contentType'',
                            jor (fld input ''contentType'') (JStr ''application/octet-stream''))]))
             (\<lambda>_. ret (JObj
                [(''success'', JBool True),
                 (''message'', JStr (''Object uploaded successfully: ''
                     @ to_string (fld input ''objectName''))),
                 (''operationId'', fld input ''objectName'')]))
       else if action = JStr ''delete-object'' then
         if \<not> truthy (fld input ''bucketName'') \<or> \<not> truthy (fld input ''objectName'') then
           throw (new_Error ''Bucket name and object name are required for deletion'')
         else
           bnd (voidCall c ''objectStorageClient.deleteObject''
                  (JObj [(''namespaceName'', namespaceName),
                         (''bucketName'', fld input ''bucketName''),
                         (''objectName'', fld input ''objectName'')]))
             (\<lambda>_. ret (JObj
                [(''success'', JBool True),
                 (''message'', JStr (''Object deleted successfully: ''
                     @ to_string (fld input ''objectName''))),
                 (''operationId'', fld input ''objectName'')]))
       else throw (new_Error (''Unsupported object action: '' @ to_string action)))"

definition manageResource_storage :: "OCIClientManager \<Rightarrow> obj \<Rightarrow> jv io" where
  "manageResource_storage c input =
     (let action = fld input ''action'' in
      if action = JStr ''delete-bucket'' then
        if \<not> truthy (fld input ''bucketName'') then
          throw (new_Error ''Bucket name is required for deletion'')
        else
          bnd (namespaceOf c input) (\<lambda>namespaceName.
          bnd (voidCall c ''objectStorageClient.deleteBucket''
                 (JObj [(''namespaceName'', namespaceName),
                        (''bucketName'', fld input ''bucketName'')]))
            (\<lambda>_. ret (JObj
               [(''success'', JBool True),
                (''message'', JStr (''Bucket deleted successfully: ''
                    @ to_string (fld input ''bucketName''))),
                (''operationId'', fld input ''bucketName'')])))
      else if action = JStr ''delete-vcn'' then
        if \<not> truthy (fld input ''resourceId'') then
          throw (new_Error ''VCN ID is required for deletion'')
        else
          bnd (voidCall c ''virtualNetworkClient.deleteVcn''
                 (JObj [(''vcnId'', fld input ''resourceId'')]))
            (\<lambda>_. ret (JObj
               [(''success'', JBool True),
                (''message'', JStr (''VCN deletion initiated: ''
                    @ to_string (fld input ''resourceId''))),
                (''operationId'', fld input ''resourceId'')]))
      else throw (new_Error (''Unsupported management action: '' @ to_string action)))"

definition run_storage :: "OCIClientManager \<Rightarrow> int \<Rightarrow> obj \<Rightarrow> jv io" where
  "run_storage c now input =
     (let action = fld input ''action'' in
      if action = JStr ''list'' then listResources_storage c input
      else if action = JStr ''get'' then getResource_storage c input
      else if action = JStr ''create'' then createResource_storage c now input
      else if action \<in> {JStr ''upload-object'', JStr ''download-object'', JStr ''delete-object''}
        then manageObject c input
      else if action \<in> {JStr ''delete-bucket'', JStr ''delete-vcn'', JStr ''update-security-list''}
        then manageResource_storage c input
      else throw (new_Error (''Unsupported action: '' @ to_string action)))"

text \<open>\<^verbatim>\<open>StorageNetworkManager.execute\<close>\<close>

definition execute_storage :: "OCIClientManager \<Rightarrow> int \<Rightarrow> obj \<Rightarrow> trace \<Rightarrow> jv \<times> trace" where
  "execute_storage c now input = catch_execute (run_storage c now input)"

section \<open>Pagination helper (utils/oci-client.ts)\<close>

text \<open>
  A page of a list response, as the signature of \<^verbatim>\<open>getAllPages\<close> types it. The
  \<^verbatim>\<open>apiCall\<close> argument answers a request with a page or rejects; its answer may depend on
  the requests issued before.
\<close>

record page =
  items :: "jv list"
  opcNextPage :: "string option"

text \<open>
  \<^verbatim>\<open>nextPage ? { ...request, page: nextPage } : request\<close>: the request of one round, with
  the page token once there is one.
\<close>

definition requestWithPage :: "obj \<Rightarrow> string option \<Rightarrow> jv" where
  "requestWithPage request nextPage =
     (case nextPage of
        Some p \<Rightarrow> if p \<noteq> [] then JObj (set_prop request ''page'' (JStr p)) else JObj request
      | None \<Rightarrow> JObj request)"

text \<open>
  One round of the \<^verbatim>\<open>do ... while (nextPage)\<close> loop and the rounds after it: the request,
  the call, the items appended, the cap, the test of the next token. The trace is the list
  of requests issued so far. The loop need not end, so the result is optional: \<open>None\<close> is a
  run that never returns; a rejected call ends the run with its error.
\<close>

partial_function (option) getAllPages_loop ::
  "(jv list \<Rightarrow> jv \<Rightarrow> js_error + page) \<Rightarrow> obj \<Rightarrow> int \<Rightarrow> jv list \<Rightarrow> string option \<Rightarrow> jv list
     \<Rightarrow> ((js_error + jv list) \<times> jv list) option"
where
  "getAllPages_loop apiCall request maxItems allItems nextPage tr =
     (case apiCall tr (requestWithPage request nextPage) of
        Inl error \<Rightarrow> Some (Inl error, tr @ [requestWithPage request nextPage])
      | Inr response \<Rightarrow>
          (let allItems' = allItems @ items response;
               nextPage' = opcNextPage response
           in
           if int (length allItems') \<ge> maxItems then
             Some (Inr allItems', tr @ [requestWithPage request nextPage])
           else if nextPage' \<noteq> None \<and> nextPage' \<noteq> Some [] then
             getAllPages_loop apiCall request maxItems allItems' nextPage'
               (tr @ [requestWithPage request nextPage])
           else Some (Inr allItems', tr @ [requestWithPage request nextPage])))"

text \<open>\<^verbatim>\<open>getAllPages\<close>: the loop starts with no item and no token.\<close>

definition getAllPages ::
  "(jv list \<Rightarrow> jv \<Rightarrow> js_error + page) \<Rightarrow> obj \<Rightarrow> int \<Rightarrow> jv list
     \<Rightarrow> ((js_error + jv list) \<times> jv list) option" where
  "getAllPages apiCall request maxItems tr = getAllPages_loop apiCall request maxItems [] None tr"

text \<open>
  The rounds of the run of \<^verbatim>\<open>getAllPages\<close> that starts at the trace \<open>tr0\<close>: the items
  accumulated, the token and the trace with which the loop body is entered. The first round
  is entered unconditionally; another round is entered when the call of a round was answered
  with a page, the cap is not reached and the page carries a token. The pages answered to
  the calls of these rounds are the pages the run fetches.
\<close>

inductive rounds ::
  "(jv list \<Rightarrow> jv \<Rightarrow> js_error + page) \<Rightarrow> obj \<Rightarrow> int \<Rightarrow> jv list
     \<Rightarrow> jv list \<Rightarrow> string option \<Rightarrow> jv list \<Rightarrow> bool"
  for apiCall request maxItems tr0
where
  first_round: "rounds apiCall request maxItems tr0 [] None tr0"
| next_round:
    "rounds apiCall request maxItems tr0 allItems nextPage tr \<Longrightarrow>
     apiCall tr (requestWithPage request nextPage) = Inr response \<Longrightarrow>
     int (length (allItems @ items response)) < maxItems \<Longrightarrow>
     opcNextPage response \<noteq> None \<Longrightarrow> opcNextPage response \<noteq> Some [] \<Longrightarrow>
     rounds apiCall request maxItems tr0 (allItems @ items response) (opcNextPage response)
       (tr @ [requestWithPage request nextPage])"

code_pred rounds .

section \<open>The top-level servers (index.ts)\<close>

datatype ErrorCode = MethodNotFound | InvalidParams | InternalError

text \<open>What a handler throws: an \<^verbatim>\<open>McpError\<close> (an RPC-level error), or any other error.\<close>

datatype thrown = McpError ErrorCode string | OtherError js_error

text \<open>\<^verbatim>\<open>{ content: [ { type: 'text', text } ] }\<close>\<close>

definition text_content :: "string \<Rightarrow> jv" where
  "text_content text = JObj [(''content'', JArr [JObj [(''type'', JStr ''text''), (''text'', JStr text)]])]"

text \<open>\<^verbatim>\<open>error instanceof Error ? error.message : 'Unknown error'\<close>\<close>

definition error_message :: "js_error \<Rightarrow> string" where
  "error_message error = (if instanceofError error then to_string (message error) else ''Unknown error'')"

text \<open>
  The catch of the \<^verbatim>\<open>CallToolRequestSchema\<close> handler: an \<^verbatim>\<open>McpError\<close> is thrown again, any
  other error is wrapped as an internal error.
\<close>

definition catch_callTool :: "(thrown + jv) \<times> trace \<Rightarrow> (thrown + jv) \<times> trace" where
  "catch_callTool r =
     (case r of
        (Inl (OtherError error), tr) \<Rightarrow>
          (Inl (McpError InternalError (''Tool execution failed: '' @ error_message error)), tr)
      | _ \<Rightarrow> r)"

subsection \<open>The server with the four domain tools\<close>

text \<open>
  The four input unions are zod schemas: \<^verbatim>\<open>parse\<close> answers the validated input or throws.
  \<^verbatim>\<open>JSON.stringify(result, null, 2)\<close> is the parameter \<open>stringify\<close>.
\<close>

record schemas =
  ComputeToolInputSchema :: "jv \<Rightarrow> js_error + obj"
  StorageNetworkToolInputSchema :: "jv \<Rightarrow> js_error + obj"
  DatabaseAnalyticsToolInputSchema :: "jv \<Rightarrow> js_error + obj"
  MonitoringSecurityToolInputSchema :: "jv \<Rightarrow> js_error + obj"

record runtime =
  dateNow :: int
  newDate :: "jv \<Rightarrow> jv"
  stringify :: "jv \<Rightarrow> string"

definition handleComputeTool ::
  "schemas \<Rightarrow> runtime \<Rightarrow> OCIClientManager \<Rightarrow> jv \<Rightarrow> trace \<Rightarrow> (thrown + jv) \<times> trace" where
  "handleComputeTool z rt c args tr =
     (case ComputeToolInputSchema z args of
        Inl error \<Rightarrow>
          (Inl (McpError InvalidParams (''Invalid compute tool input: '' @ error_message error)), tr)
      | Inr validatedInput \<Rightarrow>
          (case execute_compute c (dateNow rt) validatedInput tr of
             (result, tr') \<Rightarrow> (Inr (text_content (stringify rt result)), tr')))"

definition handleStorageNetworkTool ::
  "schemas \<Rightarrow> runtime \<Rightarrow> OCIClientManager \<Rightarrow> jv \<Rightarrow> trace \<Rightarrow> (thrown + jv) \<times> trace" where
  "handleStorageNetworkTool z rt c args tr =
     (case StorageNetworkToolInputSchema z args of
        Inl error \<Rightarrow>
          (Inl (McpError InvalidParams
                  (''Invalid storage/network tool input: '' @ error_message error)), tr)
      | Inr validatedInput \<Rightarrow>
          (case execute_storage c (dateNow rt) validatedInput tr of
             (result, tr') \<Rightarrow> (Inr (text_content (stringify rt result)), tr')))"

definition handleDatabaseAnalyticsTool ::
  "schemas \<Rightarrow> runtime \<Rightarrow> OCIClientManager \<Rightarrow> jv \<Rightarrow> trace \<Rightarrow> (thrown + jv) \<times> trace" where
  "handleDatabaseAnalyticsTool z rt c args tr =
     (case DatabaseAnalyticsToolInputSchema z args of
        Inl error \<Rightarrow>
          (Inl (McpError InvalidParams
                  (''Invalid database/analytics tool input: '' @ error_message error)), tr)
      | Inr validatedInput \<Rightarrow>
          (case execute_database c (dateNow rt) validatedInput tr of
             (result, tr') \<Rightarrow> (Inr (text_content (stringify rt result)), tr')))"

definition handleMonitoringSecurityTool ::
  "schemas \<Rightarrow> runtime \<Rightarrow> OCIClientManager \<Rightarrow> jv \<Rightarrow> trace \<Rightarrow> (thrown + jv) \<times> trace" where
  "handleMonitoringSecurityTool z rt c args tr =
     (case MonitoringSecurityToolInputSchema z args of
        Inl error \<Rightarrow>
          (Inl (McpError InvalidParams
                  (''Invalid monitoring/security tool input: '' @ error_message error)), tr)
      | Inr validatedInput \<Rightarrow>
          (case execute_monitoring c (newDate rt) validatedInput tr of
             (result, tr') \<Rightarrow> (Inr (text_content (stringify rt result)), tr')))"

text \<open>The names of the tools the server declares in its tool listing.\<close>

definition declared_tools :: "string list" where
  "declared_tools =
     [''oci-compute'', ''oci-storage-network'', ''oci-database-analytics'',
      ''oci-monitoring-security'']"

text \<open>The \<^verbatim>\<open>CallToolRequestSchema\<close> handler.\<close>

definition callTool ::
  "schemas \<Rightarrow> runtime \<Rightarrow> OCIClientManager \<Rightarrow> string \<Rightarrow> jv \<Rightarrow> trace \<Rightarrow> (thrown + jv) \<times> trace" where
  "callTool z rt c name args tr =
     catch_callTool
       (if name = ''oci-compute'' then handleComputeTool z rt c args tr
        else if name = ''oci-storage-network'' then handleStorageNetworkTool z rt c args tr
        else if name = ''oci-database-analytics'' then handleDatabaseAnalyticsTool z rt c args tr
        else if name = ''oci-monitoring-security'' then handleMonitoringSecurityTool z rt c args tr
        else (Inl (McpError MethodNotFound (''Unknown tool: '' @ name)), tr))"

subsection \<open>The server with the single consolidated tool\<close>






section \<open>Construction of the client manager (utils/oci-client.ts)\<close>



section \<open>Shapes of response envelopes\<close>

text \<open>A success envelope: \<^verbatim>\<open>success\<close> is true and a \<^verbatim>\<open>message\<close> string is present.\<close>

definition is_success_envelope :: "jv \<Rightarrow> bool" where
  "is_success_envelope envelope =
     (case envelope of
        JObj kvs \<Rightarrow>
          fld kvs ''success'' = JBool True
          \<and> (case fld kvs ''message'' of JStr m \<Rightarrow> True | _ \<Rightarrow> False)
      | _ \<Rightarrow> False)"

text \<open>
  A failure envelope: \<^verbatim>\<open>success\<close> is false, a \<^verbatim>\<open>message\<close> string is present and
  \<^verbatim>\<open>data\<close> is omitted.
\<close>

definition is_failure_envelope :: "jv \<Rightarrow> bool" where
  "is_failure_envelope envelope =
     (case envelope of
        JObj kvs \<Rightarrow>
          fld kvs ''success'' = JBool False
          \<and> (case fld kvs ''message'' of JStr m \<Rightarrow> True | _ \<Rightarrow> False)
          \<and> fld kvs ''data'' = JUndef
      | _ \<Rightarrow> False)"

text \<open>A list envelope whose \<^verbatim>\<open>count\<close> is the length of its \<^verbatim>\<open>data\<close> array.\<close>

definition count_matches :: "jv \<Rightarrow> bool" where
  "count_matches envelope =
     (case (fld (as_object envelope) ''data'', fld (as_object envelope) ''count'') of
        (JArr xs, JNum n) \<Rightarrow> n = int (length xs)
      | _ \<Rightarrow> False)"

text \<open>Every value a computation returns (when it does not throw) satisfies \<open>P\<close>.\<close>

definition returns :: "('a \<Rightarrow> bool) \<Rightarrow> 'a io \<Rightarrow> bool" where
  "returns P m = (\<forall>tr a tr'. m tr = (Inr a, tr') \<longrightarrow> P a)"

text \<open>
  The backend rejects a call with an error. A rejected SDK method has no response, so the
  call is rejected whichever part of the response the dispatcher would have read.
\<close>

definition rejects :: "OCIClientManager \<Rightarrow> trace \<Rightarrow> call \<Rightarrow> js_error \<Rightarrow> bool" where
  "rejects c tr cl e =
     (itemsOp c tr (fst cl) (snd cl) = Inl e \<and> resourceOp c tr (fst cl) (snd cl) = Inl e
      \<and> objectsOp c tr (fst cl) (snd cl) = Inl e \<and> voidOp c tr (fst cl) (snd cl) = Inl e)"

text \<open>
  A computation only appends calls to the trace, and a rejection of any call it makes is
  its outcome: no rejection is swallowed.
\<close>

definition propagates :: "OCIClientManager \<Rightarrow> 'a io \<Rightarrow> bool" where
  "propagates c m =
     (\<forall>tr r tr'. m tr = (r, tr') \<longrightarrow>
        (\<exists>calls. tr' = tr @ calls
           \<and> (\<forall>j e. j < length calls \<and> rejects c (tr @ take j calls) (calls ! j) e
                  \<longrightarrow> r = Inl e)))"

section \<open>Example backends\<close>

text \<open>
  Concrete collaborators at which the theorems below are instantiated: a configuration, a
  backend that rejects every call with status 404, and a backend that accepts every call.
\<close>

definition example_config :: OCIAuthConfig where
  "example_config =
     \<lparr> tenancyId = ''ocid1.tenancy'', userId = ''ocid1.user'', keyFingerprint = ''aa:bb'',
       privateKeyPath = ''/key.pem'', region = ''us-ashburn-1'', compartmentId = None \<rparr>"

definition not_found :: js_error where
  "not_found =
     \<lparr> statusCode = JNum 404, code = JUndef, message = JStr ''NotFound'',
       toString = ''Error: NotFound'', instanceofError = True \<rparr>"

definition rejecting_client :: OCIClientManager where
  "rejecting_client =
     \<lparr> authConfig = example_config,
       itemsOp = (\<lambda>tr name req. Inl not_found),
       resourceOp = (\<lambda>tr name req. Inl not_found),
       objectsOp = (\<lambda>tr name req. Inl not_found),
       voidOp = (\<lambda>tr name req. Inl not_found) \<rparr>"

text \<open>
  A backend that accepts the first two calls of a run and rejects every later call whose
  response is not read.
\<close>

definition flaky_client :: OCIClientManager where
  "flaky_client =
     \<lparr> authConfig = example_config,
       itemsOp = (\<lambda>tr name req. Inr []),
       resourceOp = (\<lambda>tr name req. Inr [(''id'', JStr ''nsg1''), (''displayName'', JStr ''web'')]),
       objectsOp = (\<lambda>tr name req. Inr None),
       voidOp = (\<lambda>tr name req. if length tr \<ge> 2 then Inl not_found else Inr ()) \<rparr>"

text \<open>
  A validator that accepts every object as it is and rejects everything else, and a runtime
  whose serialiser is a stand-in.
\<close>

definition example_schemas :: schemas where
  "example_schemas =
     \<lparr> ComputeToolInputSchema =
         (\<lambda>args. case args of JObj kvs \<Rightarrow> Inr kvs | _ \<Rightarrow> Inl (new_Error ''Expected object'')),
       StorageNetworkToolInputSchema =
         (\<lambda>args. case args of JObj kvs \<Rightarrow> Inr kvs | _ \<Rightarrow> Inl (new_Error ''Expected object'')),
       DatabaseAnalyticsToolInputSchema =
         (\<lambda>args. case args of JObj kvs \<Rightarrow> Inr kvs | _ \<Rightarrow> Inl (new_Error ''Expected object'')),
       MonitoringSecurityToolInputSchema =
         (\<lambda>args. case args of JObj kvs \<Rightarrow> Inr kvs | _ \<Rightarrow> Inl (new_Error ''Expected object'')) \<rparr>"

definition example_runtime :: runtime where
  "example_runtime = \<lparr> dateNow = 0, newDate = (\<lambda>v. v), stringify = to_string \<rparr>"

definition accepting_client :: OCIClientManager where
  "accepting_client =
     \<lparr> authConfig = example_config,
       itemsOp = (\<lambda>tr name req. Inr [JObj [(''id'', JStr ''a'')], JObj [(''id'', JStr ''b'')]]),
       resourceOp = (\<lambda>tr name req. Inr [(''id'', JStr ''r1''), (''displayName'', JStr ''one'')]),
       objectsOp = (\<lambda>tr name req. Inr None),
       voidOp = (\<lambda>tr name req. Inr ()) \<rparr>"

text \<open>
  Two page streams: one that answers every request with the same page of two items and a
  token, and one whose second page is the last, and which would answer empty pages with a
  token to requests that are never issued.
\<close>

definition endless_pages :: "jv list \<Rightarrow> jv \<Rightarrow> js_error + page" where
  "endless_pages tr req = Inr \<lparr> items = [JStr ''a'', JStr ''b''], opcNextPage = Some ''n'' \<rparr>"

definition two_pages :: "jv list \<Rightarrow> jv \<Rightarrow> js_error + page" where
  "two_pages tr req =
     (if length tr = 0 then Inr \<lparr> items = [JStr ''a'', JStr ''b''], opcNextPage = Some ''n'' \<rparr>
      else if length tr = 1 then Inr \<lparr> items = [JStr ''c''], opcNextPage = None \<rparr>
      else Inr \<lparr> items = [], opcNextPage = Some ''n'' \<rparr>)"

section \<open>Properties\<close>

subsection \<open>Rendering of the number 404\<close>

lemma number_string_404: "number_string 404 = ''404''"
  by (simp add: number_string_def nat_digits.simps digit_char_def)

subsection \<open>Returned values of the dispatchers\<close>

lemma returns_ret: "P a \<Longrightarrow> returns P (ret a)"
  by (simp add: returns_def ret_def)

lemma returns_throw: "returns P (throw e)"
  by (simp add: returns_def throw_def)

lemma returns_bnd: "(\<And>a. returns P (f a)) \<Longrightarrow> returns P (bnd m f)"
  by (auto simp: returns_def bnd_def split: prod.splits sum.splits)

lemma returns_if:
  "(b \<Longrightarrow> returns P m) \<Longrightarrow> (\<not> b \<Longrightarrow> returns P n) \<Longrightarrow> returns P (if b then m else n)"
  by simp

lemmas returns_intros = returns_ret returns_throw returns_bnd returns_if
lemmas envelope_simps = is_success_envelope_def count_matches_def fld_def as_object_def

lemma run_compute_success: "returns is_success_envelope (run_compute c now input)"
  unfolding run_compute_def listResources_compute_def getResource_compute_def
    createResource_compute_def manageInstance_def manageVolume_def Let_def
  by (intro returns_intros) (simp_all add: envelope_simps)

lemma run_database_success: "returns is_success_envelope (run_database c now input)"
  unfolding run_database_def listResources_database_def getResource_database_def
    createResource_database_def manageResource_database_def Let_def
  by (intro returns_intros) (simp_all add: envelope_simps)

lemma run_monitoring_success: "returns is_success_envelope (run_monitoring c nd input)"
  unfolding run_monitoring_def listResources_monitoring_def getResource_monitoring_def
    createResource_monitoring_def manageResource_monitoring_def Let_def
  by (intro returns_intros) (simp_all add: envelope_simps)

lemma run_storage_success: "returns is_success_envelope (run_storage c now input)"
  unfolding run_storage_def listResources_storage_def getResource_storage_def
    createResource_storage_def manageObject_def manageResource_storage_def Let_def
  by (intro returns_intros) (simp_all add: envelope_simps)

lemma list_compute_count: "returns count_matches (listResources_compute c input)"
  unfolding listResources_compute_def Let_def
  by (intro returns_intros) (simp_all add: envelope_simps)

lemma list_database_count: "returns count_matches (listResources_database c input)"
  unfolding listResources_database_def Let_def
  by (intro returns_intros) (simp_all add: envelope_simps)

lemma list_monitoring_count: "returns count_matches (listResources_monitoring c nd input)"
  unfolding listResources_monitoring_def Let_def
  by (intro returns_intros) (simp_all add: envelope_simps)

lemma list_storage_count: "returns count_matches (listResources_storage c input)"
  unfolding listResources_storage_def Let_def
  by (intro returns_intros) (simp_all add: envelope_simps split: option.splits)

text \<open>The failure envelope built by the catch.\<close>

lemma failure_envelope_shape:
  "is_failure_envelope (JObj [(''success'', JBool False), (''message'', JStr m)])"
  "\<not> is_success_envelope (JObj [(''success'', JBool False), (''message'', JStr m)])"
  "fld (as_object (JObj [(''success'', JBool False), (''message'', JStr m)])) ''success''
     = JBool False"
  by (simp_all add: is_failure_envelope_def is_success_envelope_def fld_def as_object_def)

lemma success_envelope_flag:
  "is_success_envelope env \<Longrightarrow> fld (as_object env) ''success'' = JBool True"
  by (auto simp: is_success_envelope_def as_object_def split: jv.splits)

lemma catch_execute_Inl:
  "m tr = (Inl e, tr') \<Longrightarrow>
   catch_execute m tr = (JObj [(''success'', JBool False), (''message'', JStr (handleOCIError e))], tr')"
  by (simp add: catch_execute_def)

lemma catch_execute_Inr: "m tr = (Inr env, tr') \<Longrightarrow> catch_execute m tr = (env, tr')"
  by (simp add: catch_execute_def)

lemma catch_execute_shape:
  assumes "returns is_success_envelope m"
  shows "is_success_envelope (fst (catch_execute m tr)) \<or> is_failure_envelope (fst (catch_execute m tr))"
proof (cases "m tr")
  case (Pair r tr')
  show ?thesis
  proof (cases r)
    case (Inl e)
    with Pair show ?thesis by (simp add: catch_execute_Inl failure_envelope_shape)
  next
    case (Inr env)
    with Pair assms have "is_success_envelope env" by (auto simp: returns_def)
    with Pair Inr show ?thesis by (simp add: catch_execute_Inr)
  qed
qed

lemma catch_execute_failure:
  assumes "returns is_success_envelope m"
    and "fld (as_object (fst (catch_execute m tr))) ''success'' = JBool False"
  shows "is_failure_envelope (fst (catch_execute m tr))"
  using catch_execute_shape [OF assms(1), of tr] assms(2)
  by (auto dest: success_envelope_flag)

lemma catch_execute_count:
  assumes "returns count_matches m"
    and "fld (as_object (fst (catch_execute m tr))) ''success'' = JBool True"
  shows "count_matches (fst (catch_execute m tr))"
proof (cases "m tr")
  case (Pair r tr')
  show ?thesis
  proof (cases r)
    case (Inl e)
    with Pair assms(2) show ?thesis by (simp add: catch_execute_Inl failure_envelope_shape)
  next
    case (Inr env)
    with Pair assms(1) have "count_matches env" by (auto simp: returns_def)
    with Pair Inr show ?thesis by (simp add: catch_execute_Inr)
  qed
qed

lemma list_action_run:
  "fld input ''action'' = JStr ''list'' \<Longrightarrow> run_compute c now input = listResources_compute c input"
  "fld input ''action'' = JStr ''list'' \<Longrightarrow> run_storage c now input = listResources_storage c input"
  "fld input ''action'' = JStr ''list'' \<Longrightarrow> run_database c now input = listResources_database c input"
  "fld input ''action'' = JStr ''list'' \<Longrightarrow>
     run_monitoring c mkDate input = listResources_monitoring c mkDate input"
  by (simp_all add: run_compute_def run_storage_def run_database_def run_monitoring_def)

text \<open>No dispatcher swallows a rejection of the backend.\<close>

lemma propagates_ret: "propagates c (ret a)"
  by (simp add: propagates_def ret_def)

lemma propagates_throw: "propagates c (throw e)"
  by (simp add: propagates_def throw_def)

lemma propagates_calls:
  "propagates c (itemsCall c name req)"
  "propagates c (resourceCall c name req)"
  "propagates c (objectsCall c name req)"
  "propagates c (voidCall c name req)"
  by (auto simp: propagates_def itemsCall_def resourceCall_def objectsCall_def voidCall_def
      rejects_def)

lemma propagates_bnd:
  assumes m: "propagates c m" and f: "\<And>a. propagates c (f a)"
  shows "propagates c (bnd m f)"
  unfolding propagates_def
proof (intro allI impI)
  fix tr r tr'
  assume run: "bnd m f tr = (r, tr')"
  obtain r1 tr1 where m1: "m tr = (r1, tr1)" by (cases "m tr")
  from m m1 obtain calls1 where tr1: "tr1 = tr @ calls1"
    and p1: "\<And>j e. j < length calls1 \<Longrightarrow> rejects c (tr @ take j calls1) (calls1 ! j) e
               \<Longrightarrow> r1 = Inl e"
    unfolding propagates_def by blast
  show "\<exists>calls. tr' = tr @ calls
           \<and> (\<forall>j e. j < length calls \<and> rejects c (tr @ take j calls) (calls ! j) e
                  \<longrightarrow> r = Inl e)"
  proof (cases r1)
    case (Inl e1)
    with run m1 have "r = Inl e1" "tr' = tr1" by (simp_all add: bnd_def)
    with tr1 p1 Inl show ?thesis by auto
  next
    case (Inr a)
    with run m1 have fa: "f a tr1 = (r, tr')" by (simp add: bnd_def)
    from f [of a] fa obtain calls2 where tr2: "tr' = tr1 @ calls2"
      and p2: "\<And>j e. j < length calls2 \<Longrightarrow> rejects c (tr1 @ take j calls2) (calls2 ! j) e
                 \<Longrightarrow> r = Inl e"
      unfolding propagates_def by blast
    have "r = Inl e" if j: "j < length (calls1 @ calls2)"
      and rej: "rejects c (tr @ take j (calls1 @ calls2)) ((calls1 @ calls2) ! j) e" for j e
    proof (cases "j < length calls1")
      case True
      with rej have "rejects c (tr @ take j calls1) (calls1 ! j) e" by (simp add: nth_append)
      from p1 [OF True this] Inr show ?thesis by simp
    next
      case False
      with j have j2: "j - length calls1 < length calls2" by simp
      from False rej
      have "rejects c (tr1 @ take (j - length calls1) calls2) (calls2 ! (j - length calls1)) e"
        by (simp add: nth_append tr1)
      from p2 [OF j2 this] show ?thesis .
    qed
    then have "\<forall>j e. j < length (calls1 @ calls2)
        \<and> rejects c (tr @ take j (calls1 @ calls2)) ((calls1 @ calls2) ! j) e \<longrightarrow> r = Inl e"
      by blast
    moreover from tr1 tr2 have "tr' = tr @ (calls1 @ calls2)" by simp
    ultimately show ?thesis by blast
  qed
qed

lemma propagates_if:
  "(b \<Longrightarrow> propagates c m) \<Longrightarrow> (\<not> b \<Longrightarrow> propagates c n) \<Longrightarrow> propagates c (if b then m else n)"
  by simp

lemma propagates_addSecurityRules: "propagates c (addSecurityRules c nsgId rules)"
  by (induction rules) (auto intro: propagates_ret propagates_bnd propagates_calls)

lemma propagates_rules:
  "propagates c (case v of
                   JArr securityRules \<Rightarrow>
                     if length securityRules > 0
                     then addSecurityRules c nsgId securityRules
                     else ret ()
                 | _ \<Rightarrow> ret ())"
  by (cases v) (simp_all add: propagates_ret propagates_addSecurityRules)

lemmas propagates_intros = propagates_ret propagates_throw propagates_calls propagates_rules
  propagates_bnd propagates_if

lemma run_compute_propagates: "propagates c (run_compute c now input)"
  unfolding run_compute_def listResources_compute_def getResource_compute_def
    createResource_compute_def manageInstance_def manageVolume_def Let_def
  by (intro propagates_intros)

lemma run_database_propagates: "propagates c (run_database c now input)"
  unfolding run_database_def listResources_database_def getResource_database_def
    createResource_database_def manageResource_database_def Let_def
  by (intro propagates_intros)

lemma run_monitoring_propagates: "propagates c (run_monitoring c nd input)"
  unfolding run_monitoring_def listResources_monitoring_def getResource_monitoring_def
    createResource_monitoring_def manageResource_monitoring_def Let_def
  by (intro propagates_intros)

lemma run_storage_propagates: "propagates c (run_storage c now input)"
  unfolding run_storage_def listResources_storage_def getResource_storage_def
    createResource_storage_def manageObject_def manageResource_storage_def Let_def
    namespaceOf_def getNamespace_def
  by (intro propagates_intros)

text \<open>So the catch of \<^verbatim>\<open>execute\<close> turns a rejected call into the failure envelope.\<close>

lemma catch_execute_rejected:
  assumes m: "propagates c m"
    and tr': "snd (catch_execute m tr) = tr @ calls"
    and j: "j < length calls"
    and rej: "rejects c (tr @ take j calls) (calls ! j) e"
  shows "catch_execute m tr
    = (JObj [(''success'', JBool False), (''message'', JStr (handleOCIError e))], tr @ calls)"
proof -
  obtain r tr1 where run: "m tr = (r, tr1)" by (cases "m tr")
  then have "snd (catch_execute m tr) = tr1"
    by (cases r) (simp_all add: catch_execute_def)
  with tr' have tr1: "tr1 = tr @ calls" by simp
  from m run obtain calls1 where c1: "tr1 = tr @ calls1"
    and p: "\<And>j e. j < length calls1 \<Longrightarrow> rejects c (tr @ take j calls1) (calls1 ! j) e
              \<Longrightarrow> r = Inl e"
    unfolding propagates_def by blast
  from tr1 c1 have "calls1 = calls" by simp
  with p j rej have "r = Inl e" by blast
  with run tr1 show ?thesis by (simp add: catch_execute_Inl)
qed

lemma not_found_message: "handleOCIError not_found = ''OCI API Error (404): NotFound''"
  by (simp add: handleOCIError_def not_found_def jor_def number_string_404)

text \<open>Two concrete runs: a list call against each example backend.\<close>

lemma rejecting_list_instances:
  "execute_compute rejecting_client 0
      [(''action'', JStr ''list''), (''resourceType'', JStr ''instances'')] []
   = (JObj [(''success'', JBool False), (''message'', JStr ''OCI API Error (404): NotFound'')],
      [(''computeClient.listInstances'',
        JObj [(''compartmentId'', JStr ''ocid1.tenancy''),
              (''availabilityDomain'', JUndef),
              (''limit'', JNum 50),
              (''displayName'', JUndef),
              (''lifecycleState'', JUndef)])])"
  by (simp add: execute_compute_def run_compute_def listResources_compute_def catch_execute_def
      bnd_def itemsCall_def rejecting_client_def not_found_def example_config_def
      getDefaultCompartmentId_def fld_def jor_def handleOCIError_def number_string_404)

lemma accepting_list_instances:
  "execute_compute accepting_client 0
      [(''action'', JStr ''list''), (''resourceType'', JStr ''instances'')] []
   = (JObj [(''success'', JBool True),
            (''data'', JArr [JObj [(''id'', JStr ''a'')], JObj [(''id'', JStr ''b'')]]),
            (''count'', JNum 2),
            (''message'', JStr ''Found 2 compute instances'')],
      [(''computeClient.listInstances'',
        JObj [(''compartmentId'', JStr ''ocid1.tenancy''),
              (''availabilityDomain'', JUndef),
              (''limit'', JNum 50),
              (''displayName'', JUndef),
              (''lifecycleState'', JUndef)])])"
  by (simp add: execute_compute_def run_compute_def listResources_compute_def catch_execute_def
      bnd_def ret_def itemsCall_def accepting_client_def example_config_def
      getDefaultCompartmentId_def fld_def jor_def nat_digits.simps digit_char_def)

subsection \<open>C1: protocol-level and business-level outcomes\<close>

lemma handler_shapes:
  "ComputeToolInputSchema z args = Inl err \<Longrightarrow>
     handleComputeTool z rt c args tr
       = (Inl (McpError InvalidParams
                 (''Invalid compute tool input: '' @ error_message err)), tr)"
  "ComputeToolInputSchema z args = Inr input \<Longrightarrow>
     handleComputeTool z rt c args tr
       = (Inr (JObj [(''content'', JArr [JObj [(''type'', JStr ''text''),
                (''text'', JStr (stringify rt (fst (execute_compute c (dateNow rt) input tr))))]])]),
          snd (execute_compute c (dateNow rt) input tr))"
  "StorageNetworkToolInputSchema z args = Inl err \<Longrightarrow>
     handleStorageNetworkTool z rt c args tr
       = (Inl (McpError InvalidParams
                 (''Invalid storage/network tool input: '' @ error_message err)), tr)"
  "StorageNetworkToolInputSchema z args = Inr input \<Longrightarrow>
     handleStorageNetworkTool z rt c args tr
       = (Inr (JObj [(''content'', JArr [JObj [(''type'', JStr ''text''),
                (''text'', JStr (stringify rt (fst (execute_storage c (dateNow rt) input tr))))]])]),
          snd (execute_storage c (dateNow rt) input tr))"
  "DatabaseAnalyticsToolInputSchema z args = Inl err \<Longrightarrow>
     handleDatabaseAnalyticsTool z rt c args tr
       = (Inl (McpError InvalidParams
                 (''Invalid database/analytics tool input: '' @ error_message err)), tr)"
  "DatabaseAnalyticsToolInputSchema z args = Inr input \<Longrightarrow>
     handleDatabaseAnalyticsTool z rt c args tr
       = (Inr (JObj [(''content'', JArr [JObj [(''type'', JStr ''text''),
                (''text'', JStr (stringify rt (fst (execute_database c (dateNow rt) input tr))))]])]),
          snd (execute_database c (dateNow rt) input tr))"
  "MonitoringSecurityToolInputSchema z args = Inl err \<Longrightarrow>
     handleMonitoringSecurityTool z rt c args tr
       = (Inl (McpError InvalidParams
                 (''Invalid monitoring/security tool input: '' @ error_message err)), tr)"
  "MonitoringSecurityToolInputSchema z args = Inr input \<Longrightarrow>
     handleMonitoringSecurityTool z rt c args tr
       = (Inr (JObj [(''content'', JArr [JObj [(''type'', JStr ''text''),
                (''text'', JStr (stringify rt (fst (execute_monitoring c (newDate rt) input tr))))]])]),
          snd (execute_monitoring c (newDate rt) input tr))"
  by (simp_all add: handleComputeTool_def handleStorageNetworkTool_def
      handleDatabaseAnalyticsTool_def handleMonitoringSecurityTool_def text_content_def
      split: prod.splits)

lemma catch_callTool_simps:
  "catch_callTool (Inl (McpError k m), tr) = (Inl (McpError k m), tr)"
  "catch_callTool (Inr v, tr) = (Inr v, tr)"
  by (simp_all add: catch_callTool_def)

lemma callTool_declared:
  "callTool z rt c ''oci-compute'' args tr = handleComputeTool z rt c args tr"
  "callTool z rt c ''oci-storage-network'' args tr = handleStorageNetworkTool z rt c args tr"
  "callTool z rt c ''oci-database-analytics'' args tr = handleDatabaseAnalyticsTool z rt c args tr"
  "callTool z rt c ''oci-monitoring-security'' args tr = handleMonitoringSecurityTool z rt c args tr"
proof -
  have keep: "catch_callTool (handleComputeTool z rt c args tr) = handleComputeTool z rt c args tr"
    "catch_callTool (handleStorageNetworkTool z rt c args tr)
       = handleStorageNetworkTool z rt c args tr"
    "catch_callTool (handleDatabaseAnalyticsTool z rt c args tr)
       = handleDatabaseAnalyticsTool z rt c args tr"
    "catch_callTool (handleMonitoringSecurityTool z rt c args tr)
       = handleMonitoringSecurityTool z rt c args tr"
    by (simp_all add: handleComputeTool_def handleStorageNetworkTool_def
        handleDatabaseAnalyticsTool_def handleMonitoringSecurityTool_def catch_callTool_def
        split: sum.splits prod.splits)
  show "callTool z rt c ''oci-compute'' args tr = handleComputeTool z rt c args tr"
    "callTool z rt c ''oci-storage-network'' args tr = handleStorageNetworkTool z rt c args tr"
    "callTool z rt c ''oci-database-analytics'' args tr
       = handleDatabaseAnalyticsTool z rt c args tr"
    "callTool z rt c ''oci-monitoring-security'' args tr
       = handleMonitoringSecurityTool z rt c args tr"
    by (simp_all add: callTool_def keep)
qed

text \<open>The four dispatchers behind a validated input: their result when a call is rejected.\<close>

lemma execute_rejected:
  "snd (execute_compute c now input tr) = tr @ calls \<Longrightarrow> j < length calls \<Longrightarrow>
     rejects c (tr @ take j calls) (calls ! j) e \<Longrightarrow>
     execute_compute c now input tr = (JObj [(''success'', JBool False), (''message'', JStr (handleOCIError e))], tr @ calls)"
  "snd (execute_storage c now input tr) = tr @ calls \<Longrightarrow> j < length calls \<Longrightarrow>
     rejects c (tr @ take j calls) (calls ! j) e \<Longrightarrow>
     execute_storage c now input tr = (JObj [(''success'', JBool False), (''message'', JStr (handleOCIError e))], tr @ calls)"
  "snd (execute_database c now input tr) = tr @ calls \<Longrightarrow> j < length calls \<Longrightarrow>
     rejects c (tr @ take j calls) (calls ! j) e \<Longrightarrow>
     execute_database c now input tr = (JObj [(''success'', JBool False), (''message'', JStr (handleOCIError e))], tr @ calls)"
  "snd (execute_monitoring c nd input tr) = tr @ calls \<Longrightarrow> j < length calls \<Longrightarrow>
     rejects c (tr @ take j calls) (calls ! j) e \<Longrightarrow>
     execute_monitoring c nd input tr = (JObj [(''success'', JBool False), (''message'', JStr (handleOCIError e))], tr @ calls)"
  unfolding execute_compute_def execute_storage_def execute_database_def execute_monitoring_def
  by (rule catch_execute_rejected [OF run_compute_propagates]
      catch_execute_rejected [OF run_storage_propagates]
      catch_execute_rejected [OF run_database_propagates]
      catch_execute_rejected [OF run_monitoring_propagates]; assumption)+

text \<open>
  C1. At the server with the four domain tools, for every inbound call: a tool name that is
  not declared yields the RPC error "method not found"; a declared tool whose argument bag
  fails the validation of that tool's input union yields the RPC error "invalid params";
  a declared tool with a validated input yields the normal RPC result
  \<^verbatim>\<open>{ content: [ { type: 'text', text } ] }\<close> whose text is the serialised envelope of the
  dispatcher, and whenever the backend rejects one of the calls made for it with an error,
  that envelope is \<^verbatim>\<open>{ success: false, message }\<close> with the classified message of that
  error. The three outcomes are distinct results under conditions that exclude one another:
  a declared tool never yields "method not found", and its result is either "invalid
  params" or a serialised success or failure envelope.
\<close>

theorem callTool_outcomes:
  "(name \<notin> set declared_tools \<longrightarrow>
      callTool z rt c name args tr = (Inl (McpError MethodNotFound (''Unknown tool: '' @ name)), tr))
   \<and> (\<forall>err. ComputeToolInputSchema z args = Inl err \<longrightarrow>
        callTool z rt c ''oci-compute'' args tr
          = (Inl (McpError InvalidParams
                    (''Invalid compute tool input: '' @ error_message err)), tr))
   \<and> (\<forall>err. StorageNetworkToolInputSchema z args = Inl err \<longrightarrow>
        callTool z rt c ''oci-storage-network'' args tr
          = (Inl (McpError InvalidParams
                    (''Invalid storage/network tool input: '' @ error_message err)), tr))
   \<and> (\<forall>err. DatabaseAnalyticsToolInputSchema z args = Inl err \<longrightarrow>
        callTool z rt c ''oci-database-analytics'' args tr
          = (Inl (McpError InvalidParams
                    (''Invalid database/analytics tool input: '' @ error_message err)), tr))
   \<and> (\<forall>err. MonitoringSecurityToolInputSchema z args = Inl err \<longrightarrow>
        callTool z rt c ''oci-monitoring-security'' args tr
          = (Inl (McpError InvalidParams
                    (''Invalid monitoring/security tool input: '' @ error_message err)), tr))
   \<and> (\<forall>input. ComputeToolInputSchema z args = Inr input \<longrightarrow>
        callTool z rt c ''oci-compute'' args tr
          = (Inr (JObj [(''content'', JArr [JObj [(''type'', JStr ''text''),
                   (''text'', JStr (stringify rt (fst (execute_compute c (dateNow rt) input tr))))]])]),
             snd (execute_compute c (dateNow rt) input tr))
        \<and> (\<forall>calls j e.
              snd (execute_compute c (dateNow rt) input tr) = tr @ calls \<and> j < length calls
              \<and> rejects c (tr @ take j calls) (calls ! j) e \<longrightarrow>
              callTool z rt c ''oci-compute'' args tr
                = (Inr (JObj [(''content'', JArr [JObj [(''type'', JStr ''text''),
                       (''text'', JStr (stringify rt
                       (JObj [(''success'', JBool False), (''message'', JStr (handleOCIError e))])))]])]),
                   tr @ calls)))
   \<and> (\<forall>input. StorageNetworkToolInputSchema z args = Inr input \<longrightarrow>
        callTool z rt c ''oci-storage-network'' args tr
          = (Inr (JObj [(''content'', JArr [JObj [(''type'', JStr ''text''),
                   (''text'', JStr (stringify rt (fst (execute_storage c (dateNow rt) input tr))))]])]),
             snd (execute_storage c (dateNow rt) input tr))
        \<and> (\<forall>calls j e.
              snd (execute_storage c (dateNow rt) input tr) = tr @ calls \<and> j < length calls
              \<and> rejects c (tr @ take j calls) (calls ! j) e \<longrightarrow>
              callTool z rt c ''oci-storage-network'' args tr
                = (Inr (JObj [(''content'', JArr [JObj [(''type'', JStr ''text''),
                       (''text'', JStr (stringify rt
                       (JObj [(''success'', JBool False), (''message'', JStr (handleOCIError e))])))]])]),
                   tr @ calls)))
   \<and> (\<forall>input. DatabaseAnalyticsToolInputSchema z args = Inr input \<longrightarrow>
        callTool z rt c ''oci-database-analytics'' args tr
          = (Inr (JObj [(''content'', JArr [JObj [(''type'', JStr ''text''),
                   (''text'', JStr (stringify rt (fst (execute_database c (dateNow rt) input tr))))]])]),
             snd (execute_database c (dateNow rt) input tr))
        \<and> (\<forall>calls j e.
              snd (execute_database c (dateNow rt) input tr) = tr @ calls \<and> j < length calls
              \<and> rejects c (tr @ take j calls) (calls ! j) e \<longrightarrow>
              callTool z rt c ''oci-database-analytics'' args tr
                = (Inr (JObj [(''content'', JArr [JObj [(''type'', JStr ''text''),
                       (''text'', JStr (stringify rt
                       (JObj [(''success'', JBool False), (''message'', JStr (handleOCIError e))])))]])]),
                   tr @ calls)))
   \<and> (\<forall>input. MonitoringSecurityToolInputSchema z args = Inr input \<longrightarrow>
        callTool z rt c ''oci-monitoring-security'' args tr
          = (Inr (JObj [(''content'', JArr [JObj [(''type'', JStr ''text''),
                   (''text'', JStr (stringify rt (fst (execute_monitoring c (newDate rt) input tr))))]])]),
             snd (execute_monitoring c (newDate rt) input tr))
        \<and> (\<forall>calls j e.
              snd (execute_monitoring c (newDate rt) input tr) = tr @ calls \<and> j < length calls
              \<and> rejects c (tr @ take j calls) (calls ! j) e \<longrightarrow>
              callTool z rt c ''oci-monitoring-security'' args tr
                = (Inr (JObj [(''content'', JArr [JObj [(''type'', JStr ''text''),
                       (''text'', JStr (stringify rt
                       (JObj [(''success'', JBool False), (''message'', JStr (handleOCIError e))])))]])]),
                   tr @ calls)))
   \<and> (name \<in> set declared_tools \<longrightarrow>
        (\<exists>m. callTool z rt c name args tr = (Inl (McpError InvalidParams m), tr))
        \<or> (\<exists>envelope tr'.
              callTool z rt c name args tr
                = (Inr (JObj [(''content'', JArr [JObj [(''type'', JStr ''text''),
                       (''text'', JStr (stringify rt envelope))]])]), tr')
              \<and> (is_success_envelope envelope \<or> is_failure_envelope envelope)))"
proof -
  have undeclared: "name \<notin> set declared_tools \<longrightarrow>
      callTool z rt c name args tr = (Inl (McpError MethodNotFound (''Unknown tool: '' @ name)), tr)"
    by (simp add: callTool_def declared_tools_def catch_callTool_simps)
  have shapes:
    "is_success_envelope (fst (execute_compute c (dateNow rt) i tr))
       \<or> is_failure_envelope (fst (execute_compute c (dateNow rt) i tr))"
    "is_success_envelope (fst (execute_storage c (dateNow rt) i tr))
       \<or> is_failure_envelope (fst (execute_storage c (dateNow rt) i tr))"
    "is_success_envelope (fst (execute_database c (dateNow rt) i tr))
       \<or> is_failure_envelope (fst (execute_database c (dateNow rt) i tr))"
    "is_success_envelope (fst (execute_monitoring c (newDate rt) i tr))
       \<or> is_failure_envelope (fst (execute_monitoring c (newDate rt) i tr))" for i
    unfolding execute_compute_def execute_storage_def execute_database_def execute_monitoring_def
    by (rule catch_execute_shape [OF run_compute_success]
        catch_execute_shape [OF run_storage_success]
        catch_execute_shape [OF run_database_success]
        catch_execute_shape [OF run_monitoring_success])+
  have declared: "name \<in> set declared_tools \<longrightarrow>
        (\<exists>m. callTool z rt c name args tr = (Inl (McpError InvalidParams m), tr))
        \<or> (\<exists>envelope tr'.
              callTool z rt c name args tr
                = (Inr (JObj [(''content'', JArr [JObj [(''type'', JStr ''text''),
                       (''text'', JStr (stringify rt envelope))]])]), tr')
              \<and> (is_success_envelope envelope \<or> is_failure_envelope envelope))"
  proof
    assume "name \<in> set declared_tools"
    then have "name = ''oci-compute'' \<or> name = ''oci-storage-network''
      \<or> name = ''oci-database-analytics'' \<or> name = ''oci-monitoring-security''"
      by (simp add: declared_tools_def)
    then consider "name = ''oci-compute''" | "name = ''oci-storage-network''"
      | "name = ''oci-database-analytics''" | "name = ''oci-monitoring-security''"
      by blast
    then show "(\<exists>m. callTool z rt c name args tr = (Inl (McpError InvalidParams m), tr))
        \<or> (\<exists>envelope tr'.
              callTool z rt c name args tr
                = (Inr (JObj [(''content'', JArr [JObj [(''type'', JStr ''text''),
                       (''text'', JStr (stringify rt envelope))]])]), tr')
              \<and> (is_success_envelope envelope \<or> is_failure_envelope envelope))"
    proof cases
      case 1
      show ?thesis
      proof (cases "ComputeToolInputSchema z args")
        case (Inl err)
        with 1 have "callTool z rt c name args tr
          = (Inl (McpError InvalidParams (''Invalid compute tool input: '' @ error_message err)), tr)"
          by (simp add: callTool_declared handler_shapes)
        then show ?thesis by (intro disjI1 exI)
      next
        case (Inr i)
        with 1 have eq: "callTool z rt c name args tr
          = (Inr (JObj [(''content'', JArr [JObj [(''type'', JStr ''text''),
                   (''text'', JStr (stringify rt (fst (execute_compute c (dateNow rt) i tr))))]])]),
             snd (execute_compute c (dateNow rt) i tr))"
          by (simp add: callTool_declared handler_shapes)
        show ?thesis
          by (rule disjI2, rule exI, rule exI, rule conjI, rule eq, rule shapes(1))
      qed
    next
      case 2
      show ?thesis
      proof (cases "StorageNetworkToolInputSchema z args")
        case (Inl err)
        with 2 have "callTool z rt c name args tr
          = (Inl (McpError InvalidParams (''Invalid storage/network tool input: '' @ error_message err)), tr)"
          by (simp add: callTool_declared handler_shapes)
        then show ?thesis by (intro disjI1 exI)
      next
        case (Inr i)
        with 2 have eq: "callTool z rt c name args tr
          = (Inr (JObj [(''content'', JArr [JObj [(''type'', JStr ''text''),
                   (''text'', JStr (stringify rt (fst (execute_storage c (dateNow rt) i tr))))]])]),
             snd (execute_storage c (dateNow rt) i tr))"
          by (simp add: callTool_declared handler_shapes)
        show ?thesis
          by (rule disjI2, rule exI, rule exI, rule conjI, rule eq, rule shapes(2))
      qed
    next
      case 3
      show ?thesis
      proof (cases "DatabaseAnalyticsToolInputSchema z args")
        case (Inl err)
        with 3 have "callTool z rt c name args tr
          = (Inl (McpError InvalidParams (''Invalid database/analytics tool input: '' @ error_message err)), tr)"
          by (simp add: callTool_declared handler_shapes)
        then show ?thesis by (intro disjI1 exI)
      next
        case (Inr i)
        with 3 have eq: "callTool z rt c name args tr
          = (Inr (JObj [(''content'', JArr [JObj [(''type'', JStr ''text''),
                   (''text'', JStr (stringify rt (fst (execute_database c (dateNow rt) i tr))))]])]),
             snd (execute_database c (dateNow rt) i tr))"
          by (simp add: callTool_declared handler_shapes)
        show ?thesis
          by (rule disjI2, rule exI, rule exI, rule conjI, rule eq, rule shapes(3))
      qed
    next
      case 4
      show ?thesis
      proof (cases "MonitoringSecurityToolInputSchema z args")
        case (Inl err)
        with 4 have "callTool z rt c name args tr
          = (Inl (McpError InvalidParams (''Invalid monitoring/security tool input: '' @ error_message err)), tr)"
          by (simp add: callTool_declared handler_shapes)
        then show ?thesis by (intro disjI1 exI)
      next
        case (Inr i)
        with 4 have eq: "callTool z rt c name args tr
          = (Inr (JObj [(''content'', JArr [JObj [(''type'', JStr ''text''),
                   (''text'', JStr (stringify rt (fst (execute_monitoring c (newDate rt) i tr))))]])]),
             snd (execute_monitoring c (newDate rt) i tr))"
          by (simp add: callTool_declared handler_shapes)
        show ?thesis
          by (rule disjI2, rule exI, rule exI, rule conjI, rule eq, rule shapes(4))
      qed
    qed
  qed
  have invalid1: "\<forall>err. ComputeToolInputSchema z args = Inl err \<longrightarrow>
        callTool z rt c ''oci-compute'' args tr
          = (Inl (McpError InvalidParams
                    (''Invalid compute tool input: '' @ error_message err)), tr)"
    by (simp add: callTool_declared handler_shapes)
  have invalid2: "\<forall>err. StorageNetworkToolInputSchema z args = Inl err \<longrightarrow>
        callTool z rt c ''oci-storage-network'' args tr
          = (Inl (McpError InvalidParams
                    (''Invalid storage/network tool input: '' @ error_message err)), tr)"
    by (simp add: callTool_declared handler_shapes)
  have invalid3: "\<forall>err. DatabaseAnalyticsToolInputSchema z args = Inl err \<longrightarrow>
        callTool z rt c ''oci-database-analytics'' args tr
          = (Inl (McpError InvalidParams
                    (''Invalid database/analytics tool input: '' @ error_message err)), tr)"
    by (simp add: callTool_declared handler_shapes)
  have invalid4: "\<forall>err. MonitoringSecurityToolInputSchema z args = Inl err \<longrightarrow>
        callTool z rt c ''oci-monitoring-security'' args tr
          = (Inl (McpError InvalidParams
                    (''Invalid monitoring/security tool input: '' @ error_message err)), tr)"
    by (simp add: callTool_declared handler_shapes)
  have valid1: "\<forall>input. ComputeToolInputSchema z args = Inr input \<longrightarrow>
        callTool z rt c ''oci-compute'' args tr
          = (Inr (JObj [(''content'', JArr [JObj [(''type'', JStr ''text''),
                   (''text'', JStr (stringify rt (fst (execute_compute c (dateNow rt) input tr))))]])]),
             snd (execute_compute c (dateNow rt) input tr))
        \<and> (\<forall>calls j e.
              snd (execute_compute c (dateNow rt) input tr) = tr @ calls \<and> j < length calls
              \<and> rejects c (tr @ take j calls) (calls ! j) e \<longrightarrow>
              callTool z rt c ''oci-compute'' args tr
                = (Inr (JObj [(''content'', JArr [JObj [(''type'', JStr ''text''),
                       (''text'', JStr (stringify rt
                       (JObj [(''success'', JBool False), (''message'', JStr (handleOCIError e))])))]])]),
                   tr @ calls))"
  proof (intro allI impI conjI)
    fix input
    assume ok: "ComputeToolInputSchema z args = Inr input"
    then show "callTool z rt c ''oci-compute'' args tr
          = (Inr (JObj [(''content'', JArr [JObj [(''type'', JStr ''text''),
                   (''text'', JStr (stringify rt (fst (execute_compute c (dateNow rt) input tr))))]])]),
             snd (execute_compute c (dateNow rt) input tr))"
      by (simp add: callTool_declared handler_shapes)
  next
    fix input calls j e
    assume ok: "ComputeToolInputSchema z args = Inr input"
      and "snd (execute_compute c (dateNow rt) input tr) = tr @ calls \<and> j < length calls
              \<and> rejects c (tr @ take j calls) (calls ! j) e"
    then have "execute_compute c (dateNow rt) input tr
        = (JObj [(''success'', JBool False), (''message'', JStr (handleOCIError e))], tr @ calls)"
      by (intro execute_rejected(1) [of c _ input tr calls j e]) simp_all
    with ok show "callTool z rt c ''oci-compute'' args tr
                = (Inr (JObj [(''content'', JArr [JObj [(''type'', JStr ''text''),
                       (''text'', JStr (stringify rt
                       (JObj [(''success'', JBool False), (''message'', JStr (handleOCIError e))])))]])]),
                   tr @ calls)"
      by (simp add: callTool_declared handler_shapes)
  qed
  have valid2: "\<forall>input. StorageNetworkToolInputSchema z args = Inr input \<longrightarrow>
        callTool z rt c ''oci-storage-network'' args tr
          = (Inr (JObj [(''content'', JArr [JObj [(''type'', JStr ''text''),
                   (''text'', JStr (stringify rt (fst (execute_storage c (dateNow rt) input tr))))]])]),
             snd (execute_storage c (dateNow rt) input tr))
        \<and> (\<forall>calls j e.
              snd (execute_storage c (dateNow rt) input tr) = tr @ calls \<and> j < length calls
              \<and> rejects c (tr @ take j calls) (calls ! j) e \<longrightarrow>
              callTool z rt c ''oci-storage-network'' args tr
                = (Inr (JObj [(''content'', JArr [JObj [(''type'', JStr ''text''),
                       (''text'', JStr (stringify rt
                       (JObj [(''success'', JBool False), (''message'', JStr (handleOCIError e))])))]])]),
                   tr @ calls))"
  proof (intro allI impI conjI)
    fix input
    assume ok: "StorageNetworkToolInputSchema z args = Inr input"
    then show "callTool z rt c ''oci-storage-network'' args tr
          = (Inr (JObj [(''content'', JArr [JObj [(''type'', JStr ''text''),
                   (''text'', JStr (stringify rt (fst (execute_storage c (dateNow rt) input tr))))]])]),
             snd (execute_storage c (dateNow rt) input tr))"
      by (simp add: callTool_declared handler_shapes)
  next
    fix input calls j e
    assume ok: "StorageNetworkToolInputSchema z args = Inr input"
      and "snd (execute_storage c (dateNow rt) input tr) = tr @ calls \<and> j < length calls
              \<and> rejects c (tr @ take j calls) (calls ! j) e"
    then have "execute_storage c (dateNow rt) input tr
        = (JObj [(''success'', JBool False), (''message'', JStr (handleOCIError e))], tr @ calls)"
      by (intro execute_rejected(2) [of c _ input tr calls j e]) simp_all
    with ok show "callTool z rt c ''oci-storage-network'' args tr
                = (Inr (JObj [(''content'', JArr [JObj [(''type'', JStr ''text''),
                       (''text'', JStr (stringify rt
                       (JObj [(''success'', JBool False), (''message'', JStr (handleOCIError e))])))]])]),
                   tr @ calls)"
      by (simp add: callTool_declared handler_shapes)
  qed
  have valid3: "\<forall>input. DatabaseAnalyticsToolInputSchema z args = Inr input \<longrightarrow>
        callTool z rt c ''oci-database-analytics'' args tr
          = (Inr (JObj [(''content'', JArr [JObj [(''type'', JStr ''text''),
                   (''text'', JStr (stringify rt (fst (execute_database c (dateNow rt) input tr))))]])]),
             snd (execute_database c (dateNow rt) input tr))
        \<and> (\<forall>calls j e.
              snd (execute_database c (dateNow rt) input tr) = tr @ calls \<and> j < length calls
              \<and> rejects c (tr @ take j calls) (calls ! j) e \<longrightarrow>
              callTool z rt c ''oci-database-analytics'' args tr
                = (Inr (JObj [(''content'', JArr [JObj [(''type'', JStr ''text''),
                       (''text'', JStr (stringify rt
                       (JObj [(''success'', JBool False), (''message'', JStr (handleOCIError e))])))]])]),
                   tr @ calls))"
  proof (intro allI impI conjI)
    fix input
    assume ok: "DatabaseAnalyticsToolInputSchema z args = Inr input"
    then show "callTool z rt c ''oci-database-analytics'' args tr
          = (Inr (JObj [(''content'', JArr [JObj [(''type'', JStr ''text''),
                   (''text'', JStr (stringify rt (fst (execute_database c (dateNow rt) input tr))))]])]),
             snd (execute_database c (dateNow rt) input tr))"
      by (simp add: callTool_declared handler_shapes)
  next
    fix input calls j e
    assume ok: "DatabaseAnalyticsToolInputSchema z args = Inr input"
      and "snd (execute_database c (dateNow rt) input tr) = tr @ calls \<and> j < length calls
              \<and> rejects c (tr @ take j calls) (calls ! j) e"
    then have "execute_database c (dateNow rt) input tr
        = (JObj [(''success'', JBool False), (''message'', JStr (handleOCIError e))], tr @ calls)"
      by (intro execute_rejected(3) [of c _ input tr calls j e]) simp_all
    with ok show "callTool z rt c ''oci-database-analytics'' args tr
                = (Inr (JObj [(''content'', JArr [JObj [(''type'', JStr ''text''),
                       (''text'', JStr (stringify rt
                       (JObj [(''success'', JBool False), (''message'', JStr (handleOCIError e))])))]])]),
                   tr @ calls)"
      by (simp add: callTool_declared handler_shapes)
  qed
  have valid4: "\<forall>input. MonitoringSecurityToolInputSchema z args = Inr input \<longrightarrow>
        callTool z rt c ''oci-monitoring-security'' args tr
          = (Inr (JObj [(''content'', JArr [JObj [(''type'', JStr ''text''),
                   (''text'', JStr (stringify rt (fst (execute_monitoring c (newDate rt) input tr))))]])]),
             snd (execute_monitoring c (newDate rt) input tr))
        \<and> (\<forall>calls j e.
              snd (execute_monitoring c (newDate rt) input tr) = tr @ calls \<and> j < length calls
              \<and> rejects c (tr @ take j calls) (calls ! j) e \<longrightarrow>
              callTool z rt c ''oci-monitoring-security'' args tr
                = (Inr (JObj [(''content'', JArr [JObj [(''type'', JStr ''text''),
                       (''text'', JStr (stringify rt
                       (JObj [(''success'', JBool False), (''message'', JStr (handleOCIError e))])))]])]),
                   tr @ calls))"
  proof (intro allI impI conjI)
    fix input
    assume ok: "MonitoringSecurityToolInputSchema z args = Inr input"
    then show "callTool z rt c ''oci-monitoring-security'' args tr
          = (Inr (JObj [(''content'', JArr [JObj [(''type'', JStr ''text''),
                   (''text'', JStr (stringify rt (fst (execute_monitoring c (newDate rt) input tr))))]])]),
             snd (execute_monitoring c (newDate rt) input tr))"
      by (simp add: callTool_declared handler_shapes)
  next
    fix input calls j e
    assume ok: "MonitoringSecurityToolInputSchema z args = Inr input"
      and "snd (execute_monitoring c (newDate rt) input tr) = tr @ calls \<and> j < length calls
              \<and> rejects c (tr @ take j calls) (calls ! j) e"
    then have "execute_monitoring c (newDate rt) input tr
        = (JObj [(''success'', JBool False), (''message'', JStr (handleOCIError e))], tr @ calls)"
      by (intro execute_rejected(4) [of c _ input tr calls j e]) simp_all
    with ok show "callTool z rt c ''oci-monitoring-security'' args tr
                = (Inr (JObj [(''content'', JArr [JObj [(''type'', JStr ''text''),
                       (''text'', JStr (stringify rt
                       (JObj [(''success'', JBool False), (''message'', JStr (handleOCIError e))])))]])]),
                   tr @ calls)"
      by (simp add: callTool_declared handler_shapes)
  qed
  show ?thesis
    by (intro conjI undeclared invalid1 invalid2 invalid3 invalid4 valid1 valid2 valid3 valid4
        declared)
qed

text \<open>
  C1 (witness). An undeclared tool, a declared tool with a bag that is not an object, and
  three calls that the backend rejects with status 404: a list of instances, the
  termination of an instance and the retrieval of an instance.
\<close>

theorem callTool_outcomes_witness:
  "callTool example_schemas example_runtime rejecting_client ''oci-unknown'' (JObj []) []
     = (Inl (McpError MethodNotFound ''Unknown tool: oci-unknown''), [])
   \<and> callTool example_schemas example_runtime rejecting_client ''oci-compute'' JNull []
     = (Inl (McpError InvalidParams ''Invalid compute tool input: Expected object''), [])
   \<and> callTool example_schemas example_runtime rejecting_client ''oci-compute''
        (JObj [(''action'', JStr ''list''), (''resourceType'', JStr ''instances'')]) []
     = (Inr (JObj [(''content'', JArr [JObj [(''type'', JStr ''text''),
            (''text'', JStr (stringify example_runtime
               (JObj [(''success'', JBool False),
                      (''message'', JStr ''OCI API Error (404): NotFound'')])))]])]),
        [(''computeClient.listInstances'',
          JObj [(''compartmentId'', JStr ''ocid1.tenancy''),
                (''availabilityDomain'', JUndef),
                (''limit'', JNum 50),
                (''displayName'', JUndef),
                (''lifecycleState'', JUndef)])])
   \<and> callTool example_schemas example_runtime rejecting_client ''oci-compute''
        (JObj [(''action'', JStr ''terminate''), (''resourceType'', JStr ''instance''),
               (''resourceId'', JStr ''ocid1.instance'')]) []
     = (Inr (JObj [(''content'', JArr [JObj [(''type'', JStr ''text''),
            (''text'', JStr (stringify example_runtime
               (JObj [(''success'', JBool False),
                      (''message'', JStr ''OCI API Error (404): NotFound'')])))]])]),
        [(''computeClient.terminateInstance'', JObj [(''instanceId'', JStr ''ocid1.instance'')])])
   \<and> callTool example_schemas example_runtime rejecting_client ''oci-compute''
        (JObj [(''action'', JStr ''get''), (''resourceType'', JStr ''instance''),
               (''resourceId'', JStr ''ocid1.instance'')]) []
     = (Inr (JObj [(''content'', JArr [JObj [(''type'', JStr ''text''),
            (''text'', JStr (stringify example_runtime
               (JObj [(''success'', JBool False),
                      (''message'', JStr ''OCI API Error (404): NotFound'')])))]])]),
        [(''computeClient.getInstance'', JObj [(''instanceId'', JStr ''ocid1.instance'')])])"
proof -
  let ?list = "[(''action'', JStr ''list''), (''resourceType'', JStr ''instances'')]"
  let ?terminate = "[(''action'', JStr ''terminate''), (''resourceType'', JStr ''instance''),
               (''resourceId'', JStr ''ocid1.instance'')]"
  let ?get = "[(''action'', JStr ''get''), (''resourceType'', JStr ''instance''),
               (''resourceId'', JStr ''ocid1.instance'')]"
  let ?getCalls = "[(''computeClient.getInstance'', JObj [(''instanceId'', JStr ''ocid1.instance'')])]"
  let ?listCalls = "[(''computeClient.listInstances'',
          JObj [(''compartmentId'', JStr ''ocid1.tenancy''),
                (''availabilityDomain'', JUndef),
                (''limit'', JNum 50),
                (''displayName'', JUndef),
                (''lifecycleState'', JUndef)])]"
  let ?terminateCalls = "[(''computeClient.terminateInstance'', JObj [(''instanceId'', JStr ''ocid1.instance'')])]"
  have unknown: "''oci-unknown'' \<notin> set declared_tools"
    by (simp add: declared_tools_def)
  have bad: "ComputeToolInputSchema example_schemas JNull = Inl (new_Error ''Expected object'')"
    by (simp add: example_schemas_def)
  have good: "ComputeToolInputSchema example_schemas (JObj ?list) = Inr ?list"
    "ComputeToolInputSchema example_schemas (JObj ?terminate) = Inr ?terminate"
    "ComputeToolInputSchema example_schemas (JObj ?get) = Inr ?get"
    by (simp_all add: example_schemas_def)
  have calls: "snd (execute_compute rejecting_client (dateNow example_runtime) ?list [])
      = [] @ ?listCalls"
    "snd (execute_compute rejecting_client (dateNow example_runtime) ?terminate [])
      = [] @ ?terminateCalls"
    "snd (execute_compute rejecting_client (dateNow example_runtime) ?get [])
      = [] @ ?getCalls"
    by (simp_all add: execute_compute_def run_compute_def listResources_compute_def
        getResource_compute_def manageInstance_def catch_execute_def bnd_def itemsCall_def
        voidCall_def resourceCall_def Let_def
        rejecting_client_def example_config_def getDefaultCompartmentId_def fld_def jor_def)
  have rejected: "rejects rejecting_client tr cl not_found" for tr cl
    by (simp add: rejects_def rejecting_client_def)
  have msg: "error_message (new_Error ''Expected object'') = ''Expected object''"
    by (simp add: error_message_def new_Error_def)
  from callTool_outcomes [of "''oci-unknown''" example_schemas example_runtime rejecting_client
      "JObj []" "[]"] unknown
  have a: "callTool example_schemas example_runtime rejecting_client ''oci-unknown'' (JObj []) []
     = (Inl (McpError MethodNotFound ''Unknown tool: oci-unknown''), [])"
    by simp
  from callTool_outcomes [of "''oci-compute''" example_schemas example_runtime rejecting_client
      JNull "[]"] bad msg
  have b: "callTool example_schemas example_runtime rejecting_client ''oci-compute'' JNull []
     = (Inl (McpError InvalidParams ''Invalid compute tool input: Expected object''), [])"
    by simp
  have pre1: "snd (execute_compute rejecting_client (dateNow example_runtime) ?list [])
      = [] @ ?listCalls \<and> 0 < length ?listCalls
      \<and> rejects rejecting_client ([] @ take 0 ?listCalls) (?listCalls ! 0) not_found"
    using calls(1) rejected by simp
  have pre2: "snd (execute_compute rejecting_client (dateNow example_runtime) ?terminate [])
      = [] @ ?terminateCalls \<and> 0 < length ?terminateCalls
      \<and> rejects rejecting_client ([] @ take 0 ?terminateCalls) (?terminateCalls ! 0) not_found"
    using calls(2) rejected by simp
  from callTool_outcomes [of "''oci-compute''" example_schemas example_runtime rejecting_client
      "JObj ?list" "[]"]
  have "\<forall>input. ComputeToolInputSchema example_schemas (JObj ?list) = Inr input \<longrightarrow>
      (\<forall>calls j e.
         snd (execute_compute rejecting_client (dateNow example_runtime) input []) = [] @ calls
         \<and> j < length calls \<and> rejects rejecting_client ([] @ take j calls) (calls ! j) e \<longrightarrow>
         callTool example_schemas example_runtime rejecting_client ''oci-compute'' (JObj ?list) []
           = (Inr (JObj [(''content'', JArr [JObj [(''type'', JStr ''text''),
            (''text'', JStr (stringify example_runtime
               (JObj [(''success'', JBool False),
                      (''message'', JStr (handleOCIError e))])))]])]),
              [] @ calls))"
    by blast
  with good(1) pre1
  have c: "callTool example_schemas example_runtime rejecting_client ''oci-compute''
        (JObj ?list) []
     = (Inr (JObj [(''content'', JArr [JObj [(''type'', JStr ''text''),
            (''text'', JStr (stringify example_runtime
               (JObj [(''success'', JBool False),
                      (''message'', JStr (handleOCIError not_found))])))]])]),
        [] @ ?listCalls)"
    by blast
  from callTool_outcomes [of "''oci-compute''" example_schemas example_runtime rejecting_client
      "JObj ?terminate" "[]"]
  have "\<forall>input. ComputeToolInputSchema example_schemas (JObj ?terminate) = Inr input \<longrightarrow>
      (\<forall>calls j e.
         snd (execute_compute rejecting_client (dateNow example_runtime) input []) = [] @ calls
         \<and> j < length calls \<and> rejects rejecting_client ([] @ take j calls) (calls ! j) e \<longrightarrow>
         callTool example_schemas example_runtime rejecting_client ''oci-compute''
             (JObj ?terminate) []
           = (Inr (JObj [(''content'', JArr [JObj [(''type'', JStr ''text''),
            (''text'', JStr (stringify example_runtime
               (JObj [(''success'', JBool False),
                      (''message'', JStr (handleOCIError e))])))]])]),
              [] @ calls))"
    by blast
  with good(2) pre2
  have d: "callTool example_schemas example_runtime rejecting_client ''oci-compute''
        (JObj ?terminate) []
     = (Inr (JObj [(''content'', JArr [JObj [(''type'', JStr ''text''),
            (''text'', JStr (stringify example_runtime
               (JObj [(''success'', JBool False),
                      (''message'', JStr (handleOCIError not_found))])))]])]),
        [] @ ?terminateCalls)"
    by blast
  have pre3: "snd (execute_compute rejecting_client (dateNow example_runtime) ?get [])
      = [] @ ?getCalls \<and> 0 < length ?getCalls
      \<and> rejects rejecting_client ([] @ take 0 ?getCalls) (?getCalls ! 0) not_found"
    using calls(3) rejected by simp
  from callTool_outcomes [of "''oci-compute''" example_schemas example_runtime rejecting_client
      "JObj ?get" "[]"]
  have "\<forall>input. ComputeToolInputSchema example_schemas (JObj ?get) = Inr input \<longrightarrow>
      (\<forall>calls j e.
         snd (execute_compute rejecting_client (dateNow example_runtime) input []) = [] @ calls
         \<and> j < length calls \<and> rejects rejecting_client ([] @ take j calls) (calls ! j) e \<longrightarrow>
         callTool example_schemas example_runtime rejecting_client ''oci-compute'' (JObj ?get) []
           = (Inr (JObj [(''content'', JArr [JObj [(''type'', JStr ''text''),
            (''text'', JStr (stringify example_runtime
               (JObj [(''success'', JBool False),
                      (''message'', JStr (handleOCIError e))])))]])]),
              [] @ calls))"
    by blast
  with good(3) pre3
  have e: "callTool example_schemas example_runtime rejecting_client ''oci-compute''
        (JObj ?get) []
     = (Inr (JObj [(''content'', JArr [JObj [(''type'', JStr ''text''),
            (''text'', JStr (stringify example_runtime
               (JObj [(''success'', JBool False),
                      (''message'', JStr (handleOCIError not_found))])))]])]),
        [] @ ?getCalls)"
    by blast
  from a b c d e show ?thesis by (simp add: not_found_message)
qed

subsection \<open>C2: execute resolves with an envelope\<close>

text \<open>
  C2. For every input and every backend, \<^verbatim>\<open>execute\<close> of each of the four dispatchers
  resolves with an envelope: a success envelope or a failure envelope, never a thrown error
  (the model of \<^verbatim>\<open>execute\<close> is total and has no error result). Whenever the envelope has
  \<^verbatim>\<open>success = false\<close> it carries a message string and omits \<^verbatim>\<open>data\<close>. Whenever the
  dispatched operation throws an error (a backend rejection or a precondition error), the
  result is the failure envelope whose message is the classified error.
\<close>

theorem execute_resolves_with_envelope:
  "(is_success_envelope (fst (execute_compute c now input tr))
      \<or> is_failure_envelope (fst (execute_compute c now input tr)))
   \<and> (fld (as_object (fst (execute_compute c now input tr))) ''success'' = JBool False \<longrightarrow>
        is_failure_envelope (fst (execute_compute c now input tr)))
   \<and> (\<forall>e tr'. run_compute c now input tr = (Inl e, tr') \<longrightarrow>
        execute_compute c now input tr
          = (JObj [(''success'', JBool False), (''message'', JStr (handleOCIError e))], tr'))
   \<and> (is_success_envelope (fst (execute_storage c now input tr))
      \<or> is_failure_envelope (fst (execute_storage c now input tr)))
   \<and> (fld (as_object (fst (execute_storage c now input tr))) ''success'' = JBool False \<longrightarrow>
        is_failure_envelope (fst (execute_storage c now input tr)))
   \<and> (\<forall>e tr'. run_storage c now input tr = (Inl e, tr') \<longrightarrow>
        execute_storage c now input tr
          = (JObj [(''success'', JBool False), (''message'', JStr (handleOCIError e))], tr'))
   \<and> (is_success_envelope (fst (execute_database c now input tr))
      \<or> is_failure_envelope (fst (execute_database c now input tr)))
   \<and> (fld (as_object (fst (execute_database c now input tr))) ''success'' = JBool False \<longrightarrow>
        is_failure_envelope (fst (execute_database c now input tr)))
   \<and> (\<forall>e tr'. run_database c now input tr = (Inl e, tr') \<longrightarrow>
        execute_database c now input tr
          = (JObj [(''success'', JBool False), (''message'', JStr (handleOCIError e))], tr'))
   \<and> (is_success_envelope (fst (execute_monitoring c mkDate input tr))
      \<or> is_failure_envelope (fst (execute_monitoring c mkDate input tr)))
   \<and> (fld (as_object (fst (execute_monitoring c mkDate input tr))) ''success'' = JBool False \<longrightarrow>
        is_failure_envelope (fst (execute_monitoring c mkDate input tr)))
   \<and> (\<forall>e tr'. run_monitoring c mkDate input tr = (Inl e, tr') \<longrightarrow>
        execute_monitoring c mkDate input tr
          = (JObj [(''success'', JBool False), (''message'', JStr (handleOCIError e))], tr'))"
  unfolding execute_compute_def execute_storage_def execute_database_def execute_monitoring_def
  using catch_execute_shape [OF run_compute_success, of c now input tr]
    catch_execute_shape [OF run_storage_success, of c now input tr]
    catch_execute_shape [OF run_database_success, of c now input tr]
    catch_execute_shape [OF run_monitoring_success, of c mkDate input tr]
    catch_execute_failure [OF run_compute_success, of c now input tr]
    catch_execute_failure [OF run_storage_success, of c now input tr]
    catch_execute_failure [OF run_database_success, of c now input tr]
    catch_execute_failure [OF run_monitoring_success, of c mkDate input tr]
  by (simp add: catch_execute_Inl)

text \<open>
  C2 (witness). A list call against the backend that rejects with status 404 resolves with
  a failure envelope.
\<close>

theorem execute_resolves_with_envelope_witness:
  "fld (as_object (fst (execute_compute rejecting_client 0
         [(''action'', JStr ''list''), (''resourceType'', JStr ''instances'')] []))) ''success''
     = JBool False
   \<and> is_failure_envelope (fst (execute_compute rejecting_client 0
         [(''action'', JStr ''list''), (''resourceType'', JStr ''instances'')] []))
   \<and> fst (execute_compute rejecting_client 0
         [(''action'', JStr ''list''), (''resourceType'', JStr ''instances'')] [])
     = JObj [(''success'', JBool False), (''message'', JStr ''OCI API Error (404): NotFound'')]"
proof -
  let ?input = "[(''action'', JStr ''list''), (''resourceType'', JStr ''instances'')]"
  have s: "fld (as_object (fst (execute_compute rejecting_client 0 ?input []))) ''success''
     = JBool False"
    by (simp add: rejecting_list_instances as_object_def fld_def)
  from execute_resolves_with_envelope [of rejecting_client 0 ?input "[]"] s
  have "is_failure_envelope (fst (execute_compute rejecting_client 0 ?input []))"
    by blast
  with s show ?thesis by (simp add: rejecting_list_instances)
qed

subsection \<open>C3: the error classifier\<close>

text \<open>
  C3 (counterexample). The claim reads: an error that carries a status code is rendered as
  "OCI API Error (code): message". An error that carries status code 404 and an empty
  message is not rendered with its message interpolated: the classifier substitutes the
  text Unknown error. An error that carries status code 0 is not rendered in the first
  format at all.
\<close>

theorem handleOCIError_empty_message_counterexample:
  "handleOCIError \<lparr> statusCode = JNum 404, code = JUndef, message = JStr [],
                    toString = ''Error'', instanceofError = True \<rparr>
     = ''OCI API Error (404): Unknown error''
   \<and> classify_spec \<lparr> statusCode = JNum 404, code = JUndef, message = JStr [],
                    toString = ''Error'', instanceofError = True \<rparr>
     = ''OCI API Error (404): ''
   \<and> handleOCIError \<lparr> statusCode = JNum 404, code = JUndef, message = JStr [],
                    toString = ''Error'', instanceofError = True \<rparr>
     \<noteq> classify_spec \<lparr> statusCode = JNum 404, code = JUndef, message = JStr [],
                    toString = ''Error'', instanceofError = True \<rparr>
   \<and> handleOCIError \<lparr> statusCode = JNum 0, code = JUndef, message = JStr ''offline'',
                    toString = ''Error: offline'', instanceofError = True \<rparr>
     = ''OCI Error: offline''
   \<and> classify_spec \<lparr> statusCode = JNum 0, code = JUndef, message = JStr ''offline'',
                    toString = ''Error: offline'', instanceofError = True \<rparr>
     = ''OCI API Error (0): offline''"
  by (simp add: handleOCIError_def classify_spec_def jor_def number_string_404
      number_string_def nat_digits.simps digit_char_def)

text \<open>
  C3 (amended). The classifier tests the status code, then the code, for truthiness (a status
  code 0 or an empty code does not select its format). In the first two formats the message
  is the error's message when that is truthy and the text Unknown error otherwise; in the
  third it is the error's message when truthy and the error's string form otherwise. Where
  the message is truthy and each of status code and code is truthy or absent, this is the
  classification the specification words. A rejection with status code 404 and message
  NotFound is rendered as "OCI API Error (404): NotFound", and that is the message of the
  failure envelope a dispatcher's catch builds from it.
\<close>

theorem handleOCIError_classification:
  "(truthy (statusCode e) \<longrightarrow>
      handleOCIError e = ''OCI API Error ('' @ to_string (statusCode e) @ ''): ''
        @ (if truthy (message e) then to_string (message e) else ''Unknown error''))
   \<and> (\<not> truthy (statusCode e) \<and> truthy (code e) \<longrightarrow>
      handleOCIError e = ''OCI Error ('' @ to_string (code e) @ ''): ''
        @ (if truthy (message e) then to_string (message e) else ''Unknown error''))
   \<and> (\<not> truthy (statusCode e) \<and> \<not> truthy (code e) \<longrightarrow>
      handleOCIError e
        = ''OCI Error: '' @ (if truthy (message e) then to_string (message e) else toString e))
   \<and> (truthy (message e) \<and> (statusCode e = JUndef \<or> truthy (statusCode e))
        \<and> (code e = JUndef \<or> truthy (code e)) \<longrightarrow>
      handleOCIError e = classify_spec e)
   \<and> (statusCode e = JNum 404 \<and> message e = JStr ''NotFound'' \<longrightarrow>
      handleOCIError e = ''OCI API Error (404): NotFound''
      \<and> (\<forall>run tr tr'. run tr = (Inl e, tr') \<longrightarrow>
            fld (as_object (fst (catch_execute run tr))) ''message''
              = JStr ''OCI API Error (404): NotFound''))"
  by (auto simp: handleOCIError_def classify_spec_def jor_def number_string_404
      catch_execute_def fld_def as_object_def)

text \<open>
  C3 (witness). The rejection with status code 404 and message NotFound, classified and
  caught.
\<close>

theorem handleOCIError_classification_witness:
  "truthy (statusCode \<lparr> statusCode = JNum 404, code = JUndef, message = JStr ''NotFound'',
              toString = ''Error: NotFound'', instanceofError = True \<rparr>)
   \<and> handleOCIError \<lparr> statusCode = JNum 404, code = JUndef, message = JStr ''NotFound'',
              toString = ''Error: NotFound'', instanceofError = True \<rparr>
       = ''OCI API Error (404): NotFound''
   \<and> fld (as_object (fst (catch_execute
         (throw \<lparr> statusCode = JNum 404, code = JUndef, message = JStr ''NotFound'',
              toString = ''Error: NotFound'', instanceofError = True \<rparr>) [])))
        ''message'' = JStr ''OCI API Error (404): NotFound''"
proof -
  let ?e = "\<lparr> statusCode = JNum 404, code = JUndef, message = JStr ''NotFound'',
              toString = ''Error: NotFound'', instanceofError = True \<rparr>"
  have pre: "statusCode ?e = JNum 404 \<and> message ?e = JStr ''NotFound''"
    by simp
  have run: "throw ?e [] = (Inl ?e, [])"
    by (simp add: throw_def)
  from handleOCIError_classification [of ?e] pre
  have a: "handleOCIError ?e = ''OCI API Error (404): NotFound''"
    and b: "\<forall>run tr tr'. run tr = (Inl ?e, tr') \<longrightarrow>
            fld (as_object (fst (catch_execute run tr))) ''message''
              = JStr ''OCI API Error (404): NotFound''"
    by blast+
  from b run have "fld (as_object (fst (catch_execute (throw ?e) []))) ''message''
              = JStr ''OCI API Error (404): NotFound''"
    by blast
  with a show ?thesis by simp
qed

subsection \<open>C4: count equals the length of data\<close>

text \<open>
  C4. For every list action dispatched by any of the four dispatchers, whenever the result
  is a success, the returned list envelope has \<^verbatim>\<open>data\<close> an array and \<^verbatim>\<open>count\<close> equal
  to its length.
\<close>

theorem list_envelope_count:
  "fld input ''action'' = JStr ''list'' \<longrightarrow>
     (fld (as_object (fst (execute_compute c now input tr))) ''success'' = JBool True \<longrightarrow>
        count_matches (fst (execute_compute c now input tr)))
     \<and> (fld (as_object (fst (execute_storage c now input tr))) ''success'' = JBool True \<longrightarrow>
        count_matches (fst (execute_storage c now input tr)))
     \<and> (fld (as_object (fst (execute_database c now input tr))) ''success'' = JBool True \<longrightarrow>
        count_matches (fst (execute_database c now input tr)))
     \<and> (fld (as_object (fst (execute_monitoring c mkDate input tr))) ''success'' = JBool True \<longrightarrow>
        count_matches (fst (execute_monitoring c mkDate input tr)))"
  unfolding execute_compute_def execute_storage_def execute_database_def execute_monitoring_def
  using catch_execute_count [OF list_compute_count, of c input tr]
    catch_execute_count [OF list_storage_count, of c input tr]
    catch_execute_count [OF list_database_count, of c input tr]
    catch_execute_count [OF list_monitoring_count, of c mkDate input tr]
  by (simp add: list_action_run)

text \<open>
  C4 (witness). Listing instances against the backend that answers two items: the count is 2.
\<close>

theorem list_envelope_count_witness:
  "fld [(''action'', JStr ''list''), (''resourceType'', JStr ''instances'')] ''action''
     = JStr ''list''
   \<and> fld (as_object (fst (execute_compute accepting_client 0
         [(''action'', JStr ''list''), (''resourceType'', JStr ''instances'')] []))) ''success''
     = JBool True
   \<and> count_matches (fst (execute_compute accepting_client 0
         [(''action'', JStr ''list''), (''resourceType'', JStr ''instances'')] []))
   \<and> fld (as_object (fst (execute_compute accepting_client 0
         [(''action'', JStr ''list''), (''resourceType'', JStr ''instances'')] []))) ''count''
     = JNum 2"
proof -
  let ?input = "[(''action'', JStr ''list''), (''resourceType'', JStr ''instances'')]"
  have a: "fld ?input ''action'' = JStr ''list''"
    by (simp add: fld_def)
  have s: "fld (as_object (fst (execute_compute accepting_client 0 ?input []))) ''success''
     = JBool True"
    by (simp add: accepting_list_instances as_object_def fld_def)
  have n: "fld (as_object (fst (execute_compute accepting_client 0 ?input []))) ''count''
     = JNum 2"
    by (simp add: accepting_list_instances as_object_def fld_def)
  from list_envelope_count [of ?input accepting_client 0 "[]"] a s
  have "count_matches (fst (execute_compute accepting_client 0 ?input []))"
    by blast
  with a s n show ?thesis by blast
qed

subsection \<open>C5: missing credentials\<close>






subsection \<open>C6: defaults of the autonomous database request\<close>

text \<open>
  C6. For a create call with resource type autonomous-database whose payload leaves every
  optional field absent, the dispatcher makes exactly one backend call,
  \<^verbatim>\<open>createAutonomousDatabase\<close>, and the request it passes has the workload OLTP, auto
  scaling off, free tier off and the licence model LICENSE_INCLUDED (the display name is
  the database name; the version, subnet and security groups are undefined).
\<close>

theorem autonomous_database_defaults:
  "fld input ''action'' = JStr ''create''
     \<and> fld input ''resourceType'' = JStr ''autonomous-database''
     \<and> fld input ''data'' = JObj adbData
     \<and> fld adbData ''displayName'' = JUndef \<and> fld adbData ''dbVersion'' = JUndef
     \<and> fld adbData ''dbWorkload'' = JUndef \<and> fld adbData ''isAutoScalingEnabled'' = JUndef
     \<and> fld adbData ''isFreeTier'' = JUndef \<and> fld adbData ''licenseModel'' = JUndef
     \<and> fld adbData ''subnetId'' = JUndef \<and> fld adbData ''nsgIds'' = JUndef \<longrightarrow>
   snd (execute_database c now input tr)
     = tr @ [(''databaseClient.createAutonomousDatabase'',
              JObj [(''createAutonomousDatabaseDetails'', JObj
                [(''compartmentId'', fld adbData ''compartmentId''),
                 (''dbName'', fld adbData ''dbName''),
                 (''cpuCoreCount'', fld adbData ''cpuCoreCount''),
                 (''dataStorageSizeInTBs'', fld adbData ''dataStorageSizeInTBs''),
                 (''adminPassword'', fld adbData ''adminPassword''),
                 (''displayName'', fld adbData ''dbName''),
                 (''dbVersion'', JUndef),
                 (''dbWorkload'', JStr ''OLTP''),
                 (''isAutoScalingEnabled'', JBool False),
                 (''isFreeTier'', JBool False),
                 (''licenseModel'', JStr ''LICENSE_INCLUDED''),
                 (''subnetId'', JUndef),
                 (''nsgIds'', JUndef)])])]"
  by (auto simp add: execute_database_def run_database_def createResource_database_def
      createAdbRequest_def catch_execute_def bnd_def ret_def resourceCall_def as_object_def jor_def
      split: sum.splits prod.splits)

text \<open>C6 (witness). The payload of the specification's example.\<close>

theorem autonomous_database_defaults_witness:
  "snd (execute_database accepting_client 0
      [(''action'', JStr ''create''), (''resourceType'', JStr ''autonomous-database''),
       (''data'', JObj [(''compartmentId'', JStr ''c1''), (''dbName'', JStr ''db1''),
                        (''cpuCoreCount'', JNum 2), (''dataStorageSizeInTBs'', JNum 1),
                        (''adminPassword'', JStr ''longenough123'')])] [])
     = [(''databaseClient.createAutonomousDatabase'',
         JObj [(''createAutonomousDatabaseDetails'', JObj
           [(''compartmentId'', JStr ''c1''),
            (''dbName'', JStr ''db1''),
            (''cpuCoreCount'', JNum 2),
            (''dataStorageSizeInTBs'', JNum 1),
            (''adminPassword'', JStr ''longenough123''),
            (''displayName'', JStr ''db1''),
            (''dbVersion'', JUndef),
            (''dbWorkload'', JStr ''OLTP''),
            (''isAutoScalingEnabled'', JBool False),
            (''isFreeTier'', JBool False),
            (''licenseModel'', JStr ''LICENSE_INCLUDED''),
            (''subnetId'', JUndef),
            (''nsgIds'', JUndef)])])]"
proof -
  let ?data = "[(''compartmentId'', JStr ''c1''), (''dbName'', JStr ''db1''),
                        (''cpuCoreCount'', JNum 2), (''dataStorageSizeInTBs'', JNum 1),
                        (''adminPassword'', JStr ''longenough123'')]"
  let ?input = "[(''action'', JStr ''create''), (''resourceType'', JStr ''autonomous-database''),
       (''data'', JObj ?data)]"
  have pre: "fld ?input ''action'' = JStr ''create''
     \<and> fld ?input ''resourceType'' = JStr ''autonomous-database''
     \<and> fld ?input ''data'' = JObj ?data
     \<and> fld ?data ''displayName'' = JUndef \<and> fld ?data ''dbVersion'' = JUndef
     \<and> fld ?data ''dbWorkload'' = JUndef \<and> fld ?data ''isAutoScalingEnabled'' = JUndef
     \<and> fld ?data ''isFreeTier'' = JUndef \<and> fld ?data ''licenseModel'' = JUndef
     \<and> fld ?data ''subnetId'' = JUndef \<and> fld ?data ''nsgIds'' = JUndef"
    by (simp add: fld_def)
  have vals: "fld ?data ''compartmentId'' = JStr ''c1''" "fld ?data ''dbName'' = JStr ''db1''"
    "fld ?data ''cpuCoreCount'' = JNum 2" "fld ?data ''dataStorageSizeInTBs'' = JNum 1"
    "fld ?data ''adminPassword'' = JStr ''longenough123''"
    by (simp_all add: fld_def)
  from autonomous_database_defaults [of ?input ?data accepting_client 0 "[]"] pre
  have "snd (execute_database accepting_client 0 ?input [])
     = [] @ [(''databaseClient.createAutonomousDatabase'',
              JObj [(''createAutonomousDatabaseDetails'', JObj
                [(''compartmentId'', fld ?data ''compartmentId''),
                 (''dbName'', fld ?data ''dbName''),
                 (''cpuCoreCount'', fld ?data ''cpuCoreCount''),
                 (''dataStorageSizeInTBs'', fld ?data ''dataStorageSizeInTBs''),
                 (''adminPassword'', fld ?data ''adminPassword''),
                 (''displayName'', fld ?data ''dbName''),
                 (''dbVersion'', JUndef),
                 (''dbWorkload'', JStr ''OLTP''),
                 (''isAutoScalingEnabled'', JBool False),
                 (''isFreeTier'', JBool False),
                 (''licenseModel'', JStr ''LICENSE_INCLUDED''),
                 (''subnetId'', JUndef),
                 (''nsgIds'', JUndef)])])]"
    by blast
  then show ?thesis unfolding vals by simp
qed

subsection \<open>C7 and C8: preconditions checked before any backend call\<close>

lemma new_Error_message:
  "handleOCIError (new_Error (x # xs)) = ''OCI Error: '' @ x # xs"
  by (simp add: handleOCIError_def new_Error_def)

text \<open>
  C7. For every list call with resource type databases in which neither \<^verbatim>\<open>dbSystemId\<close>
  nor \<^verbatim>\<open>dbHomeId\<close> is supplied (absent, or empty), the database dispatcher resolves with
  the failure envelope whose message names both alternatives, and the trace of backend
  calls is unchanged: the rejection comes before any backend call.
\<close>

theorem list_databases_requires_parent:
  "fld input ''action'' = JStr ''list'' \<and> fld input ''resourceType'' = JStr ''databases''
     \<and> \<not> truthy (fld input ''dbSystemId'') \<and> \<not> truthy (fld input ''dbHomeId'') \<longrightarrow>
   execute_database c now input tr
     = (JObj [(''success'', JBool False),
              (''message'', JStr
                 ''OCI Error: Either dbSystemId or dbHomeId is required for listing databases'')],
        tr)"
  by (simp add: execute_database_def run_database_def listResources_database_def
      catch_execute_def throw_def new_Error_message)

text \<open>C7 (witness). A list call for databases with no identifier at all.\<close>

theorem list_databases_requires_parent_witness:
  "execute_database accepting_client 0
      [(''action'', JStr ''list''), (''resourceType'', JStr ''databases'')] []
     = (JObj [(''success'', JBool False),
              (''message'', JStr
                 ''OCI Error: Either dbSystemId or dbHomeId is required for listing databases'')],
        [])"
proof -
  let ?input = "[(''action'', JStr ''list''), (''resourceType'', JStr ''databases'')]"
  have "fld ?input ''action'' = JStr ''list'' \<and> fld ?input ''resourceType'' = JStr ''databases''
     \<and> \<not> truthy (fld ?input ''dbSystemId'') \<and> \<not> truthy (fld ?input ''dbHomeId'')"
    by (simp add: fld_def)
  with list_databases_requires_parent [of ?input accepting_client 0 "[]"]
  show ?thesis by blast
qed

text \<open>
  C8. For every manage call with the verb attach-volume in which \<^verbatim>\<open>instanceId\<close> is
  omitted or \<^verbatim>\<open>volumeId\<close> is omitted (absent, or empty), the compute dispatcher resolves
  with the failure envelope of the precondition error, and the trace of backend calls is
  unchanged: the attach operation is not invoked.
\<close>

theorem attach_volume_requires_both:
  "fld input ''action'' = JStr ''attach-volume''
     \<and> (\<not> truthy (fld input ''instanceId'') \<or> \<not> truthy (fld input ''volumeId'')) \<longrightarrow>
   execute_compute c now input tr
     = (JObj [(''success'', JBool False),
              (''message'', JStr
                 ''OCI Error: Both instanceId and volumeId are required for volume attachment'')],
        tr)"
  by (auto simp add: execute_compute_def run_compute_def manageVolume_def
      catch_execute_def throw_def new_Error_message)

text \<open>C8 (witness). Only \<^verbatim>\<open>volumeId\<close> is set.\<close>

theorem attach_volume_requires_both_witness:
  "execute_compute accepting_client 0
      [(''action'', JStr ''attach-volume''), (''resourceType'', JStr ''volume''),
       (''resourceId'', JStr ''ocid1.volume.1''), (''volumeId'', JStr ''ocid1.volume.1'')] []
     = (JObj [(''success'', JBool False),
              (''message'', JStr
                 ''OCI Error: Both instanceId and volumeId are required for volume attachment'')],
        [])"
proof -
  let ?input = "[(''action'', JStr ''attach-volume''), (''resourceType'', JStr ''volume''),
       (''resourceId'', JStr ''ocid1.volume.1''), (''volumeId'', JStr ''ocid1.volume.1'')]"
  have "fld ?input ''action'' = JStr ''attach-volume''
     \<and> (\<not> truthy (fld ?input ''instanceId'') \<or> \<not> truthy (fld ?input ''volumeId''))"
    by (simp add: fld_def)
  with attach_volume_requires_both [of ?input accepting_client 0 "[]"]
  show ?thesis by blast
qed

subsection \<open>C9: creation of a network security group with inline rules\<close>

text \<open>The loop over the rules, when every call succeeds and when one call is rejected.\<close>

lemma addSecurityRules_all_ok:
  "(\<forall>i < length rules.
      voidOp c (tr @ map (\<lambda>rule. (''virtualNetworkClient.addNetworkSecurityGroupSecurityRules'',
           JObj [(''networkSecurityGroupId'', nsgId),
                 (''addNetworkSecurityGroupSecurityRulesDetails'', JObj
                    [(''securityRules'', JArr [rule])])]))
                     (take i rules))
        ''virtualNetworkClient.addNetworkSecurityGroupSecurityRules''
        (JObj [(''networkSecurityGroupId'', nsgId),
              (''addNetworkSecurityGroupSecurityRulesDetails'', JObj
                 [(''securityRules'', JArr [rules ! i])])]) = Inr ()) \<Longrightarrow>
   addSecurityRules c nsgId rules tr
     = (Inr (), tr @ map (\<lambda>rule. (''virtualNetworkClient.addNetworkSecurityGroupSecurityRules'',
           JObj [(''networkSecurityGroupId'', nsgId),
                 (''addNetworkSecurityGroupSecurityRulesDetails'', JObj
                    [(''securityRules'', JArr [rule])])])) rules)"
proof (induction rules arbitrary: tr)
  case Nil
  then show ?case by (simp add: ret_def)
next
  case (Cons r rules)
  let ?req = "\<lambda>rule. JObj [(''networkSecurityGroupId'', nsgId),
             (''addNetworkSecurityGroupSecurityRulesDetails'', JObj
                [(''securityRules'', JArr [rule])])]"
  let ?add = "\<lambda>rule. (''virtualNetworkClient.addNetworkSecurityGroupSecurityRules'', ?req rule)"
  from Cons.prems [rule_format, of 0]
  have first: "voidOp c tr ''virtualNetworkClient.addNetworkSecurityGroupSecurityRules'' (?req r) = Inr ()"
    by simp
  have rest: "\<forall>i < length rules.
      voidOp c ((tr @ [?add r]) @ map ?add (take i rules)) ''virtualNetworkClient.addNetworkSecurityGroupSecurityRules'' (?req (rules ! i)) = Inr ()"
  proof (intro allI impI)
    fix i assume "i < length rules"
    with Cons.prems [rule_format, of "Suc i"]
    show "voidOp c ((tr @ [?add r]) @ map ?add (take i rules)) ''virtualNetworkClient.addNetworkSecurityGroupSecurityRules'' (?req (rules ! i)) = Inr ()"
      by simp
  qed
  from Cons.IH [OF rest] first show ?case
    by (simp add: bnd_def voidCall_def)
qed

lemma addSecurityRules_fails_at:
  "k < length rules \<Longrightarrow>
   (\<forall>i < k.
      voidOp c (tr @ map (\<lambda>rule. (''virtualNetworkClient.addNetworkSecurityGroupSecurityRules'',
           JObj [(''networkSecurityGroupId'', nsgId),
                 (''addNetworkSecurityGroupSecurityRulesDetails'', JObj
                    [(''securityRules'', JArr [rule])])]))
                     (take i rules))
        ''virtualNetworkClient.addNetworkSecurityGroupSecurityRules''
        (JObj [(''networkSecurityGroupId'', nsgId),
              (''addNetworkSecurityGroupSecurityRulesDetails'', JObj
                 [(''securityRules'', JArr [rules ! i])])]) = Inr ()) \<Longrightarrow>
   voidOp c (tr @ map (\<lambda>rule. (''virtualNetworkClient.addNetworkSecurityGroupSecurityRules'',
           JObj [(''networkSecurityGroupId'', nsgId),
                 (''addNetworkSecurityGroupSecurityRulesDetails'', JObj
                    [(''securityRules'', JArr [rule])])]))
                     (take k rules))
        ''virtualNetworkClient.addNetworkSecurityGroupSecurityRules''
        (JObj [(''networkSecurityGroupId'', nsgId),
              (''addNetworkSecurityGroupSecurityRulesDetails'', JObj
                 [(''securityRules'', JArr [rules ! k])])]) = Inl e \<Longrightarrow>
   addSecurityRules c nsgId rules tr
     = (Inl e, tr @ map (\<lambda>rule. (''virtualNetworkClient.addNetworkSecurityGroupSecurityRules'',
           JObj [(''networkSecurityGroupId'', nsgId),
                 (''addNetworkSecurityGroupSecurityRulesDetails'', JObj
                    [(''securityRules'', JArr [rule])])])) (take (Suc k) rules))"
proof (induction rules arbitrary: tr k)
  case Nil
  then show ?case by simp
next
  case (Cons r rules)
  let ?req = "\<lambda>rule. JObj [(''networkSecurityGroupId'', nsgId),
             (''addNetworkSecurityGroupSecurityRulesDetails'', JObj
                [(''securityRules'', JArr [rule])])]"
  let ?add = "\<lambda>rule. (''virtualNetworkClient.addNetworkSecurityGroupSecurityRules'', ?req rule)"
  show ?case
  proof (cases k)
    case 0
    with Cons.prems(3) show ?thesis
      by (simp add: bnd_def voidCall_def)
  next
    case (Suc j)
    from Cons.prems(2) [rule_format, of 0] Suc
    have first: "voidOp c tr ''virtualNetworkClient.addNetworkSecurityGroupSecurityRules'' (?req r) = Inr ()"
      by simp
    from Cons.prems(1) Suc have j: "j < length rules" by simp
    have ok: "\<forall>i < j.
      voidOp c ((tr @ [?add r]) @ map ?add (take i rules)) ''virtualNetworkClient.addNetworkSecurityGroupSecurityRules'' (?req (rules ! i)) = Inr ()"
    proof (intro allI impI)
      fix i assume "i < j"
      with Cons.prems(2) [rule_format, of "Suc i"] Suc
      show "voidOp c ((tr @ [?add r]) @ map ?add (take i rules)) ''virtualNetworkClient.addNetworkSecurityGroupSecurityRules'' (?req (rules ! i)) = Inr ()"
        by simp
    qed
    from Cons.prems(3) Suc
    have bad: "voidOp c ((tr @ [?add r]) @ map ?add (take j rules)) ''virtualNetworkClient.addNetworkSecurityGroupSecurityRules'' (?req (rules ! j)) = Inl e"
      by simp
    from Cons.IH [OF j ok bad] first Suc show ?thesis
      by (simp add: bnd_def voidCall_def)
  qed
qed

text \<open>
  C9. For every create call for a network security group whose payload carries n rules
  (n at least 1), when the creation call succeeds: if every add-rule call succeeds, the
  dispatcher has made the creation call (with the compartment, the network and the display
  name of the payload) followed by one add-rule call per rule, in payload order, each for
  the identifier of the created group and with that one rule, and resolves with the success
  envelope; if the add-rule call for rule number k (counted from 0) is the first to fail,
  the dispatcher has made the creation call, the k successful add-rule calls and the failing
  one, makes no further call (no rollback, no later rule), and resolves with the failure
  envelope of that error. The theorem is about the dispatcher and the validated input it is
  given.
\<close>

theorem nsg_creation_not_transactional:
  "fld input ''action'' = JStr ''create''
     \<and> fld input ''resourceType'' = JStr ''network-security-group''
     \<and> fld input ''data'' = JObj nsgData
     \<and> fld nsgData ''securityRules'' = JArr rules \<and> length rules \<ge> 1
     \<and> resourceOp c tr ''virtualNetworkClient.createNetworkSecurityGroup''
           (JObj [(''createNetworkSecurityGroupDetails'', JObj
              [(''compartmentId'', fld nsgData ''compartmentId''),
               (''vcnId'', fld nsgData ''vcnId''),
               (''displayName'', fld nsgData ''displayName'')])]) = Inr nsg \<longrightarrow>
   ((\<forall>i < length rules.
        voidOp c
          (tr @ (''virtualNetworkClient.createNetworkSecurityGroup'',
             JObj [(''createNetworkSecurityGroupDetails'', JObj
                [(''compartmentId'', fld nsgData ''compartmentId''),
                 (''vcnId'', fld nsgData ''vcnId''),
                 (''displayName'', fld nsgData ''displayName'')])])
            # map (\<lambda>rule. (''virtualNetworkClient.addNetworkSecurityGroupSecurityRules'',
                     JObj [(''networkSecurityGroupId'', (fld nsg ''id'')),
                           (''addNetworkSecurityGroupSecurityRulesDetails'', JObj
                              [(''securityRules'', JArr [rule])])]))
                (take i rules))
          ''virtualNetworkClient.addNetworkSecurityGroupSecurityRules''
          (JObj [(''networkSecurityGroupId'', (fld nsg ''id'')),
                (''addNetworkSecurityGroupSecurityRulesDetails'', JObj
                   [(''securityRules'', JArr [rules ! i])])]) = Inr ()) \<longrightarrow>
      execute_monitoring c mkDate input tr
        = (JObj [(''success'', JBool True),
                 (''data'', JObj nsg),
                 (''message'', JStr (''Network security group created successfully: ''
                     @ to_string (fld nsg ''displayName''))),
                 (''operationId'', fld nsg ''id'')],
           tr @ (''virtualNetworkClient.createNetworkSecurityGroup'',
              JObj [(''createNetworkSecurityGroupDetails'', JObj
                 [(''compartmentId'', fld nsgData ''compartmentId''),
                  (''vcnId'', fld nsgData ''vcnId''),
                  (''displayName'', fld nsgData ''displayName'')])])
             # map (\<lambda>rule. (''virtualNetworkClient.addNetworkSecurityGroupSecurityRules'',
                      JObj [(''networkSecurityGroupId'', (fld nsg ''id'')),
                            (''addNetworkSecurityGroupSecurityRulesDetails'', JObj
                               [(''securityRules'', JArr [rule])])]))
                 rules))
   \<and> (\<forall>k e. k < length rules
        \<and> (\<forall>i < k.
              voidOp c
                (tr @ (''virtualNetworkClient.createNetworkSecurityGroup'',
                   JObj [(''createNetworkSecurityGroupDetails'', JObj
                      [(''compartmentId'', fld nsgData ''compartmentId''),
                       (''vcnId'', fld nsgData ''vcnId''),
                       (''displayName'', fld nsgData ''displayName'')])])
                  # map (\<lambda>rule. (''virtualNetworkClient.addNetworkSecurityGroupSecurityRules'',
                           JObj [(''networkSecurityGroupId'', (fld nsg ''id'')),
                                 (''addNetworkSecurityGroupSecurityRulesDetails'', JObj
                                    [(''securityRules'', JArr [rule])])]))
                      (take i rules))
                ''virtualNetworkClient.addNetworkSecurityGroupSecurityRules''
                (JObj [(''networkSecurityGroupId'', (fld nsg ''id'')),
                      (''addNetworkSecurityGroupSecurityRulesDetails'', JObj
                         [(''securityRules'', JArr [rules ! i])])]) = Inr ())
        \<and> voidOp c
            (tr @ (''virtualNetworkClient.createNetworkSecurityGroup'',
               JObj [(''createNetworkSecurityGroupDetails'', JObj
                  [(''compartmentId'', fld nsgData ''compartmentId''),
                   (''vcnId'', fld nsgData ''vcnId''),
                   (''displayName'', fld nsgData ''displayName'')])])
              # map (\<lambda>rule. (''virtualNetworkClient.addNetworkSecurityGroupSecurityRules'',
                       JObj [(''networkSecurityGroupId'', (fld nsg ''id'')),
                             (''addNetworkSecurityGroupSecurityRulesDetails'', JObj
                                [(''securityRules'', JArr [rule])])]))
                  (take k rules))
            ''virtualNetworkClient.addNetworkSecurityGroupSecurityRules''
            (JObj [(''networkSecurityGroupId'', (fld nsg ''id'')),
                  (''addNetworkSecurityGroupSecurityRulesDetails'', JObj
                     [(''securityRules'', JArr [rules ! k])])]) = Inl e \<longrightarrow>
      execute_monitoring c mkDate input tr
        = (JObj [(''success'', JBool False), (''message'', JStr (handleOCIError e))],
           tr @ (''virtualNetworkClient.createNetworkSecurityGroup'',
              JObj [(''createNetworkSecurityGroupDetails'', JObj
                 [(''compartmentId'', fld nsgData ''compartmentId''),
                  (''vcnId'', fld nsgData ''vcnId''),
                  (''displayName'', fld nsgData ''displayName'')])])
             # map (\<lambda>rule. (''virtualNetworkClient.addNetworkSecurityGroupSecurityRules'',
                      JObj [(''networkSecurityGroupId'', (fld nsg ''id'')),
                            (''addNetworkSecurityGroupSecurityRulesDetails'', JObj
                               [(''securityRules'', JArr [rule])])]))
                 (take (Suc k) rules)))"
proof (intro impI, elim conjE)
  assume inp: "fld input ''action'' = JStr ''create''"
    "fld input ''resourceType'' = JStr ''network-security-group''"
    "fld input ''data'' = JObj nsgData"
    and rules: "fld nsgData ''securityRules'' = JArr rules" "length rules \<ge> 1"
    and created: "resourceOp c tr ''virtualNetworkClient.createNetworkSecurityGroup''
           (JObj [(''createNetworkSecurityGroupDetails'', JObj
              [(''compartmentId'', fld nsgData ''compartmentId''),
               (''vcnId'', fld nsgData ''vcnId''),
               (''displayName'', fld nsgData ''displayName'')])]) = Inr nsg"
  let ?create = "(''virtualNetworkClient.createNetworkSecurityGroup'',
        JObj [(''createNetworkSecurityGroupDetails'', JObj
           [(''compartmentId'', fld nsgData ''compartmentId''),
            (''vcnId'', fld nsgData ''vcnId''),
            (''displayName'', fld nsgData ''displayName'')])])"
  let ?req = "\<lambda>rule. JObj [(''networkSecurityGroupId'', (fld nsg ''id'')),
             (''addNetworkSecurityGroupSecurityRulesDetails'', JObj
                [(''securityRules'', JArr [rule])])]"
  let ?add = "\<lambda>rule. (''virtualNetworkClient.addNetworkSecurityGroupSecurityRules'', ?req rule)"
  let ?tr1 = "tr @ [?create]"
  have run: "run_monitoring c mkDate input tr
    = (case addSecurityRules c (fld nsg ''id'') rules ?tr1 of
         (Inl e, tr') \<Rightarrow> (Inl e, tr')
       | (Inr u, tr') \<Rightarrow>
           (Inr (JObj [(''success'', JBool True),
                 (''data'', JObj nsg),
                 (''message'', JStr (''Network security group created successfully: ''
                     @ to_string (fld nsg ''displayName''))),
                 (''operationId'', fld nsg ''id'')]), tr'))"
    using inp rules created
    by (simp add: run_monitoring_def createResource_monitoring_def bnd_def ret_def
        resourceCall_def as_object_def split: prod.splits sum.splits)
  have all_ok: "execute_monitoring c mkDate input tr
        = (JObj [(''success'', JBool True),
                 (''data'', JObj nsg),
                 (''message'', JStr (''Network security group created successfully: ''
                     @ to_string (fld nsg ''displayName''))),
                 (''operationId'', fld nsg ''id'')],
           tr @ ?create # map ?add rules)"
    if "\<forall>i < length rules.
        voidOp c (tr @ ?create # map ?add (take i rules)) ''virtualNetworkClient.addNetworkSecurityGroupSecurityRules'' (?req (rules ! i)) = Inr ()"
  proof -
    from that have "\<forall>i < length rules.
        voidOp c (?tr1 @ map ?add (take i rules)) ''virtualNetworkClient.addNetworkSecurityGroupSecurityRules'' (?req (rules ! i)) = Inr ()"
      by simp
    from addSecurityRules_all_ok [OF this]
    show ?thesis
      by (simp add: execute_monitoring_def catch_execute_def run)
  qed
  have fails: "execute_monitoring c mkDate input tr
        = (JObj [(''success'', JBool False), (''message'', JStr (handleOCIError e))],
           tr @ ?create # map ?add (take (Suc k) rules))"
    if "k < length rules
        \<and> (\<forall>i < k.
              voidOp c (tr @ ?create # map ?add (take i rules)) ''virtualNetworkClient.addNetworkSecurityGroupSecurityRules'' (?req (rules ! i)) = Inr ())
        \<and> voidOp c (tr @ ?create # map ?add (take k rules)) ''virtualNetworkClient.addNetworkSecurityGroupSecurityRules'' (?req (rules ! k)) = Inl e"
    for k e
  proof -
    from that have "k < length rules"
      and "\<forall>i < k.
              voidOp c (?tr1 @ map ?add (take i rules)) ''virtualNetworkClient.addNetworkSecurityGroupSecurityRules'' (?req (rules ! i)) = Inr ()"
      and "voidOp c (?tr1 @ map ?add (take k rules)) ''virtualNetworkClient.addNetworkSecurityGroupSecurityRules'' (?req (rules ! k)) = Inl e"
      by simp_all
    from addSecurityRules_fails_at [OF this]
    show ?thesis
      by (simp add: execute_monitoring_def catch_execute_def run)
  qed
  from all_ok fails
  show "((\<forall>i < length rules.
        voidOp c
          (tr @ (''virtualNetworkClient.createNetworkSecurityGroup'',
             JObj [(''createNetworkSecurityGroupDetails'', JObj
                [(''compartmentId'', fld nsgData ''compartmentId''),
                 (''vcnId'', fld nsgData ''vcnId''),
                 (''displayName'', fld nsgData ''displayName'')])])
            # map (\<lambda>rule. (''virtualNetworkClient.addNetworkSecurityGroupSecurityRules'',
                     JObj [(''networkSecurityGroupId'', (fld nsg ''id'')),
                           (''addNetworkSecurityGroupSecurityRulesDetails'', JObj
                              [(''securityRules'', JArr [rule])])]))
                (take i rules))
          ''virtualNetworkClient.addNetworkSecurityGroupSecurityRules''
          (JObj [(''networkSecurityGroupId'', (fld nsg ''id'')),
                (''addNetworkSecurityGroupSecurityRulesDetails'', JObj
                   [(''securityRules'', JArr [rules ! i])])]) = Inr ()) \<longrightarrow>
      execute_monitoring c mkDate input tr
        = (JObj [(''success'', JBool True),
                 (''data'', JObj nsg),
                 (''message'', JStr (''Network security group created successfully: ''
                     @ to_string (fld nsg ''displayName''))),
                 (''operationId'', fld nsg ''id'')],
           tr @ (''virtualNetworkClient.createNetworkSecurityGroup'',
              JObj [(''createNetworkSecurityGroupDetails'', JObj
                 [(''compartmentId'', fld nsgData ''compartmentId''),
                  (''vcnId'', fld nsgData ''vcnId''),
                  (''displayName'', fld nsgData ''displayName'')])])
             # map (\<lambda>rule. (''virtualNetworkClient.addNetworkSecurityGroupSecurityRules'',
                      JObj [(''networkSecurityGroupId'', (fld nsg ''id'')),
                            (''addNetworkSecurityGroupSecurityRulesDetails'', JObj
                               [(''securityRules'', JArr [rule])])]))
                 rules))
   \<and> (\<forall>k e. k < length rules
        \<and> (\<forall>i < k.
              voidOp c
                (tr @ (''virtualNetworkClient.createNetworkSecurityGroup'',
                   JObj [(''createNetworkSecurityGroupDetails'', JObj
                      [(''compartmentId'', fld nsgData ''compartmentId''),
                       (''vcnId'', fld nsgData ''vcnId''),
                       (''displayName'', fld nsgData ''displayName'')])])
                  # map (\<lambda>rule. (''virtualNetworkClient.addNetworkSecurityGroupSecurityRules'',
                           JObj [(''networkSecurityGroupId'', (fld nsg ''id'')),
                                 (''addNetworkSecurityGroupSecurityRulesDetails'', JObj
                                    [(''securityRules'', JArr [rule])])]))
                      (take i rules))
                ''virtualNetworkClient.addNetworkSecurityGroupSecurityRules''
                (JObj [(''networkSecurityGroupId'', (fld nsg ''id'')),
                      (''addNetworkSecurityGroupSecurityRulesDetails'', JObj
                         [(''securityRules'', JArr [rules ! i])])]) = Inr ())
        \<and> voidOp c
            (tr @ (''virtualNetworkClient.createNetworkSecurityGroup'',
               JObj [(''createNetworkSecurityGroupDetails'', JObj
                  [(''compartmentId'', fld nsgData ''compartmentId''),
                   (''vcnId'', fld nsgData ''vcnId''),
                   (''displayName'', fld nsgData ''displayName'')])])
              # map (\<lambda>rule. (''virtualNetworkClient.addNetworkSecurityGroupSecurityRules'',
                       JObj [(''networkSecurityGroupId'', (fld nsg ''id'')),
                             (''addNetworkSecurityGroupSecurityRulesDetails'', JObj
                                [(''securityRules'', JArr [rule])])]))
                  (take k rules))
            ''virtualNetworkClient.addNetworkSecurityGroupSecurityRules''
            (JObj [(''networkSecurityGroupId'', (fld nsg ''id'')),
                  (''addNetworkSecurityGroupSecurityRulesDetails'', JObj
                     [(''securityRules'', JArr [rules ! k])])]) = Inl e \<longrightarrow>
      execute_monitoring c mkDate input tr
        = (JObj [(''success'', JBool False), (''message'', JStr (handleOCIError e))],
           tr @ (''virtualNetworkClient.createNetworkSecurityGroup'',
              JObj [(''createNetworkSecurityGroupDetails'', JObj
                 [(''compartmentId'', fld nsgData ''compartmentId''),
                  (''vcnId'', fld nsgData ''vcnId''),
                  (''displayName'', fld nsgData ''displayName'')])])
             # map (\<lambda>rule. (''virtualNetworkClient.addNetworkSecurityGroupSecurityRules'',
                      JObj [(''networkSecurityGroupId'', (fld nsg ''id'')),
                            (''addNetworkSecurityGroupSecurityRulesDetails'', JObj
                               [(''securityRules'', JArr [rule])])]))
                 (take (Suc k) rules)))"
    by blast
qed

text \<open>
  C9 (witness). Three rules against the backend that rejects its third call: the group is
  created, the first rule is added, the second add-rule call fails, the third rule is never
  attempted.
\<close>

theorem nsg_creation_not_transactional_witness:
  "execute_monitoring flaky_client (\<lambda>v. v)
      [(''action'', JStr ''create''), (''resourceType'', JStr ''network-security-group''),
       (''data'', JObj [(''compartmentId'', JStr ''c1''), (''vcnId'', JStr ''vcn1''),
                        (''displayName'', JStr ''web''),
                        (''securityRules'', JArr
                           [JObj [(''direction'', JStr ''INGRESS''), (''protocol'', JStr ''6'')],
                            JObj [(''direction'', JStr ''EGRESS''), (''protocol'', JStr ''17'')],
                            JObj [(''direction'', JStr ''INGRESS''), (''protocol'', JStr ''1'')]])])] []
     = (JObj [(''success'', JBool False), (''message'', JStr ''OCI API Error (404): NotFound'')],
        [(''virtualNetworkClient.createNetworkSecurityGroup'',
          JObj [(''createNetworkSecurityGroupDetails'', JObj
             [(''compartmentId'', JStr ''c1''),
              (''vcnId'', JStr ''vcn1''),
              (''displayName'', JStr ''web'')])]),
         (''virtualNetworkClient.addNetworkSecurityGroupSecurityRules'',
          JObj [(''networkSecurityGroupId'', JStr ''nsg1''),
                (''addNetworkSecurityGroupSecurityRulesDetails'', JObj
                   [(''securityRules'', JArr
                      [JObj [(''direction'', JStr ''INGRESS''), (''protocol'', JStr ''6'')]])])]),
         (''virtualNetworkClient.addNetworkSecurityGroupSecurityRules'',
          JObj [(''networkSecurityGroupId'', JStr ''nsg1''),
                (''addNetworkSecurityGroupSecurityRulesDetails'', JObj
                   [(''securityRules'', JArr
                      [JObj [(''direction'', JStr ''EGRESS''), (''protocol'', JStr ''17'')]])])])])"
proof -
  let ?rules = "[JObj [(''direction'', JStr ''INGRESS''), (''protocol'', JStr ''6'')],
                 JObj [(''direction'', JStr ''EGRESS''), (''protocol'', JStr ''17'')],
                 JObj [(''direction'', JStr ''INGRESS''), (''protocol'', JStr ''1'')]]"
  let ?data = "[(''compartmentId'', JStr ''c1''), (''vcnId'', JStr ''vcn1''),
                        (''displayName'', JStr ''web''), (''securityRules'', JArr ?rules)]"
  let ?input = "[(''action'', JStr ''create''),
       (''resourceType'', JStr ''network-security-group''), (''data'', JObj ?data)]"
  let ?nsg = "[(''id'', JStr ''nsg1''), (''displayName'', JStr ''web'')]"
  have pre: "fld ?input ''action'' = JStr ''create''
     \<and> fld ?input ''resourceType'' = JStr ''network-security-group''
     \<and> fld ?input ''data'' = JObj ?data
     \<and> fld ?data ''securityRules'' = JArr ?rules \<and> length ?rules \<ge> 1
     \<and> resourceOp flaky_client [] ''virtualNetworkClient.createNetworkSecurityGroup''
           (JObj [(''createNetworkSecurityGroupDetails'', JObj
              [(''compartmentId'', fld ?data ''compartmentId''),
               (''vcnId'', fld ?data ''vcnId''),
               (''displayName'', fld ?data ''displayName'')])]) = Inr ?nsg"
    by (simp add: fld_def flaky_client_def)
  have id: "fld ?nsg ''id'' = JStr ''nsg1''"
    by (simp add: fld_def)
  have fails: "(1::nat) < length ?rules
        \<and> (\<forall>i < 1.
              voidOp flaky_client
                ([] @ (''virtualNetworkClient.createNetworkSecurityGroup'',
                   JObj [(''createNetworkSecurityGroupDetails'', JObj
                      [(''compartmentId'', fld ?data ''compartmentId''),
                       (''vcnId'', fld ?data ''vcnId''),
                       (''displayName'', fld ?data ''displayName'')])])
                  # map (\<lambda>rule. (''virtualNetworkClient.addNetworkSecurityGroupSecurityRules'',
                           JObj [(''networkSecurityGroupId'', (fld ?nsg ''id'')),
                                 (''addNetworkSecurityGroupSecurityRulesDetails'', JObj
                                    [(''securityRules'', JArr [rule])])]))
                      (take i ?rules))
                ''virtualNetworkClient.addNetworkSecurityGroupSecurityRules''
                (JObj [(''networkSecurityGroupId'', (fld ?nsg ''id'')),
                      (''addNetworkSecurityGroupSecurityRulesDetails'', JObj
                         [(''securityRules'', JArr [?rules ! i])])]) = Inr ())
        \<and> voidOp flaky_client
            ([] @ (''virtualNetworkClient.createNetworkSecurityGroup'',
               JObj [(''createNetworkSecurityGroupDetails'', JObj
                  [(''compartmentId'', fld ?data ''compartmentId''),
                   (''vcnId'', fld ?data ''vcnId''),
                   (''displayName'', fld ?data ''displayName'')])])
              # map (\<lambda>rule. (''virtualNetworkClient.addNetworkSecurityGroupSecurityRules'',
                       JObj [(''networkSecurityGroupId'', (fld ?nsg ''id'')),
                             (''addNetworkSecurityGroupSecurityRulesDetails'', JObj
                                [(''securityRules'', JArr [rule])])]))
                  (take 1 ?rules))
            ''virtualNetworkClient.addNetworkSecurityGroupSecurityRules''
            (JObj [(''networkSecurityGroupId'', (fld ?nsg ''id'')),
                  (''addNetworkSecurityGroupSecurityRulesDetails'', JObj
                     [(''securityRules'', JArr [?rules ! 1])])]) = Inl not_found"
    by (simp add: flaky_client_def)
  from nsg_creation_not_transactional [of ?input ?data ?rules flaky_client "[]" ?nsg "\<lambda>v. v"] pre
  have "\<forall>k e. k < length ?rules
        \<and> (\<forall>i < k.
              voidOp flaky_client
                ([] @ (''virtualNetworkClient.createNetworkSecurityGroup'',
                   JObj [(''createNetworkSecurityGroupDetails'', JObj
                      [(''compartmentId'', fld ?data ''compartmentId''),
                       (''vcnId'', fld ?data ''vcnId''),
                       (''displayName'', fld ?data ''displayName'')])])
                  # map (\<lambda>rule. (''virtualNetworkClient.addNetworkSecurityGroupSecurityRules'',
                           JObj [(''networkSecurityGroupId'', (fld ?nsg ''id'')),
                                 (''addNetworkSecurityGroupSecurityRulesDetails'', JObj
                                    [(''securityRules'', JArr [rule])])]))
                      (take i ?rules))
                ''virtualNetworkClient.addNetworkSecurityGroupSecurityRules''
                (JObj [(''networkSecurityGroupId'', (fld ?nsg ''id'')),
                      (''addNetworkSecurityGroupSecurityRulesDetails'', JObj
                         [(''securityRules'', JArr [?rules ! i])])]) = Inr ())
        \<and> voidOp flaky_client
            ([] @ (''virtualNetworkClient.createNetworkSecurityGroup'',
               JObj [(''createNetworkSecurityGroupDetails'', JObj
                  [(''compartmentId'', fld ?data ''compartmentId''),
                   (''vcnId'', fld ?data ''vcnId''),
                   (''displayName'', fld ?data ''displayName'')])])
              # map (\<lambda>rule. (''virtualNetworkClient.addNetworkSecurityGroupSecurityRules'',
                       JObj [(''networkSecurityGroupId'', (fld ?nsg ''id'')),
                             (''addNetworkSecurityGroupSecurityRulesDetails'', JObj
                                [(''securityRules'', JArr [rule])])]))
                  (take k ?rules))
            ''virtualNetworkClient.addNetworkSecurityGroupSecurityRules''
            (JObj [(''networkSecurityGroupId'', (fld ?nsg ''id'')),
                  (''addNetworkSecurityGroupSecurityRulesDetails'', JObj
                     [(''securityRules'', JArr [?rules ! k])])]) = Inl e \<longrightarrow>
      execute_monitoring flaky_client (\<lambda>v. v) ?input []
        = (JObj [(''success'', JBool False), (''message'', JStr (handleOCIError e))],
           [] @ (''virtualNetworkClient.createNetworkSecurityGroup'',
              JObj [(''createNetworkSecurityGroupDetails'', JObj
                 [(''compartmentId'', fld ?data ''compartmentId''),
                  (''vcnId'', fld ?data ''vcnId''),
                  (''displayName'', fld ?data ''displayName'')])])
             # map (\<lambda>rule. (''virtualNetworkClient.addNetworkSecurityGroupSecurityRules'',
                      JObj [(''networkSecurityGroupId'', (fld ?nsg ''id'')),
                            (''addNetworkSecurityGroupSecurityRulesDetails'', JObj
                               [(''securityRules'', JArr [rule])])]))
                 (take (Suc k) ?rules))"
    by blast
  from this [rule_format, of 1 not_found] fails
  have "execute_monitoring flaky_client (\<lambda>v. v) ?input []
        = (JObj [(''success'', JBool False), (''message'', JStr (handleOCIError not_found))],
           [] @ (''virtualNetworkClient.createNetworkSecurityGroup'',
              JObj [(''createNetworkSecurityGroupDetails'', JObj
                 [(''compartmentId'', fld ?data ''compartmentId''),
                  (''vcnId'', fld ?data ''vcnId''),
                  (''displayName'', fld ?data ''displayName'')])])
             # map (\<lambda>rule. (''virtualNetworkClient.addNetworkSecurityGroupSecurityRules'',
                      JObj [(''networkSecurityGroupId'', (fld ?nsg ''id'')),
                            (''addNetworkSecurityGroupSecurityRulesDetails'', JObj
                               [(''securityRules'', JArr [rule])])]))
                 (take (Suc 1) ?rules))"
    by blast
  then show ?thesis
    by (simp add: id not_found_message fld_def)
qed

subsection \<open>C10: the pagination helper\<close>

lemma getAllPages_loop_unfold:
  "getAllPages_loop apiCall request maxItems allItems nextPage tr =
    (case apiCall tr (requestWithPage request nextPage) of
        Inl error \<Rightarrow> Some (Inl error, tr @ [requestWithPage request nextPage])
      | Inr response \<Rightarrow>
          if int (length (allItems @ items response)) \<ge> maxItems
          then Some (Inr (allItems @ items response), tr @ [requestWithPage request nextPage])
          else if opcNextPage response \<noteq> None \<and> opcNextPage response \<noteq> Some [] then
             getAllPages_loop apiCall request maxItems (allItems @ items response)
               (opcNextPage response) (tr @ [requestWithPage request nextPage])
           else Some (Inr (allItems @ items response), tr @ [requestWithPage request nextPage]))"
  by (subst getAllPages_loop.simps) (simp only: Let_def)

text \<open>The loop returns from every round of a run whose fetched pages are not empty.\<close>

lemma getAllPages_loop_terminates:
  assumes nonempty: "\<And>allItems nextPage tr p.
      rounds apiCall request maxItems tr0 allItems nextPage tr \<Longrightarrow>
      apiCall tr (requestWithPage request nextPage) = Inr p \<Longrightarrow> items p \<noteq> []"
    and reach: "rounds apiCall request maxItems tr0 allItems nextPage tr"
  shows "\<exists>r. getAllPages_loop apiCall request maxItems allItems nextPage tr = Some r"
  using reach
proof (induction "nat (maxItems - int (length allItems))" arbitrary: allItems nextPage tr
    rule: less_induct)
  case less
  let ?req = "requestWithPage request nextPage"
  show ?case
  proof (cases "apiCall tr ?req")
    case (Inl e)
    then show ?thesis
      by (simp add: getAllPages_loop_unfold)
  next
    case (Inr response)
    from nonempty [OF less.prems Inr] have grow: "length (items response) > 0" by simp
    show ?thesis
    proof (cases "int (length (allItems @ items response)) \<ge> maxItems
        \<or> \<not> (opcNextPage response \<noteq> None \<and> opcNextPage response \<noteq> Some [])")
      case True
      with Inr show ?thesis
        by (auto simp: getAllPages_loop_unfold)
    next
      case False
      then have small: "int (length (allItems @ items response)) < maxItems"
        and token: "opcNextPage response \<noteq> None" "opcNextPage response \<noteq> Some []"
        by simp_all
      from small grow have "nat (maxItems - int (length (allItems @ items response)))
          < nat (maxItems - int (length allItems))"
        by simp
      moreover from less.prems Inr small token
      have "rounds apiCall request maxItems tr0 (allItems @ items response)
          (opcNextPage response) (tr @ [?req])"
        by (rule next_round)
      ultimately obtain r where
        "getAllPages_loop apiCall request maxItems (allItems @ items response)
          (opcNextPage response) (tr @ [?req]) = Some r"
        using less.hyps by blast
      with Inr False show ?thesis
        by (simp add: getAllPages_loop_unfold)
    qed
  qed
qed

text \<open>
  The calls of a run that returns: the requests issued, the pages answered, the token each
  later request carries, and the count of items before each later request.
\<close>

lemma getAllPages_loop_pages:
  assumes run: "getAllPages_loop apiCall request maxItems allItems nextPage tr = Some y"
  shows "\<forall>r tr'. y = (r, tr') \<longrightarrow>
           (\<exists>reqs pages. tr' = tr @ reqs \<and> reqs \<noteq> []
              \<and> hd reqs = requestWithPage request nextPage
              \<and> (\<forall>j < length pages. apiCall (tr @ take j reqs) (reqs ! j) = Inr (pages ! j))
              \<and> (\<forall>j. 0 < j \<and> j < length reqs \<longrightarrow>
                    (\<exists>p. opcNextPage (pages ! (j - 1)) = Some p \<and> p \<noteq> []
                       \<and> reqs ! j = JObj (set_prop request ''page'' (JStr p)))
                    \<and> int (length (allItems @ concat (map items (take j pages)))) < maxItems)
              \<and> ((\<exists>e. r = Inl e \<and> length reqs = Suc (length pages)
                      \<and> apiCall (tr @ butlast reqs) (last reqs) = Inl e)
                   \<or> (r = Inr (allItems @ concat (map items pages))
                      \<and> length pages = length reqs)))"
proof (rule getAllPages_loop.raw_induct
      [where P = "\<lambda>apiCall request maxItems allItems nextPage tr y.
         \<forall>r tr'. y = (r, tr') \<longrightarrow>
           (\<exists>reqs pages. tr' = tr @ reqs \<and> reqs \<noteq> []
              \<and> hd reqs = requestWithPage request nextPage
              \<and> (\<forall>j < length pages. apiCall (tr @ take j reqs) (reqs ! j) = Inr (pages ! j))
              \<and> (\<forall>j. 0 < j \<and> j < length reqs \<longrightarrow>
                    (\<exists>p. opcNextPage (pages ! (j - 1)) = Some p \<and> p \<noteq> []
                       \<and> reqs ! j = JObj (set_prop request ''page'' (JStr p)))
                    \<and> int (length (allItems @ concat (map items (take j pages)))) < maxItems)
              \<and> ((\<exists>e. r = Inl e \<and> length reqs = Suc (length pages)
                      \<and> apiCall (tr @ butlast reqs) (last reqs) = Inl e)
                   \<or> (r = Inr (allItems @ concat (map items pages))
                      \<and> length pages = length reqs)))",
       OF _ run], goal_cases)
  case (1 loop apiCall request maxItems allItems nextPage tr y)
  define req where "req = requestWithPage request nextPage"
  from 1(2) have body: "(case apiCall tr req of
        Inl error \<Rightarrow> Some (Inl error, tr @ [req])
      | Inr response \<Rightarrow>
          if int (length (allItems @ items response)) \<ge> maxItems
          then Some (Inr (allItems @ items response), tr @ [req])
          else if opcNextPage response \<noteq> None \<and> opcNextPage response \<noteq> Some [] then
             loop apiCall request maxItems (allItems @ items response)
               (opcNextPage response) (tr @ [req])
           else Some (Inr (allItems @ items response), tr @ [req])) = Some y"
    by (simp only: Let_def req_def)
  let ?goal = "\<lambda>r tr'. \<exists>reqs pages. tr' = tr @ reqs \<and> reqs \<noteq> []
              \<and> hd reqs = req
              \<and> (\<forall>j < length pages. apiCall (tr @ take j reqs) (reqs ! j) = Inr (pages ! j))
              \<and> (\<forall>j. 0 < j \<and> j < length reqs \<longrightarrow>
                    (\<exists>p. opcNextPage (pages ! (j - 1)) = Some p \<and> p \<noteq> []
                       \<and> reqs ! j = JObj (set_prop request ''page'' (JStr p)))
                    \<and> int (length (allItems @ concat (map items (take j pages)))) < maxItems)
              \<and> ((\<exists>e. r = Inl e \<and> length reqs = Suc (length pages)
                      \<and> apiCall (tr @ butlast reqs) (last reqs) = Inl e)
                   \<or> (r = Inr (allItems @ concat (map items pages))
                      \<and> length pages = length reqs))"
  have "?goal r tr'" if y: "y = (r, tr')" for r tr'
  proof (cases "apiCall tr req")
    case (Inl e)
    with body y have "r = Inl e" "tr' = tr @ [req]" by simp_all
    with Inl show ?thesis
      by (intro exI [of _ "[req]"] exI [of _ "[] :: page list"]) simp
  next
    case (Inr response)
    show ?thesis
    proof (cases "int (length (allItems @ items response)) \<ge> maxItems
          \<or> \<not> (opcNextPage response \<noteq> None \<and> opcNextPage response \<noteq> Some [])")
      case True
      with body Inr y have "r = Inr (allItems @ items response)" "tr' = tr @ [req]"
        by (simp_all split: if_splits)
      with Inr show ?thesis
        by (intro exI [of _ "[req]"] exI [of _ "[response]"]) simp
    next
      case False
      with body Inr have rec: "loop apiCall request maxItems (allItems @ items response)
            (opcNextPage response) (tr @ [req]) = Some y"
        by (simp split: if_splits)
      from False have small: "int (length (allItems @ items response)) < maxItems" by simp
      from False obtain p0 where p0: "opcNextPage response = Some p0" "p0 \<noteq> []" by auto
      from 1(1) [OF rec] y obtain reqs pages where
        tr': "tr' = (tr @ [req]) @ reqs" and ne: "reqs \<noteq> []"
        and hd: "hd reqs = requestWithPage request (opcNextPage response)"
        and calls: "\<forall>j < length pages.
            apiCall ((tr @ [req]) @ take j reqs) (reqs ! j) = Inr (pages ! j)"
        and later: "\<forall>j. 0 < j \<and> j < length reqs \<longrightarrow>
            (\<exists>p. opcNextPage (pages ! (j - 1)) = Some p \<and> p \<noteq> []
               \<and> reqs ! j = JObj (set_prop request ''page'' (JStr p)))
            \<and> int (length ((allItems @ items response) @ concat (map items (take j pages))))
                < maxItems"
        and res: "(\<exists>e. r = Inl e \<and> length reqs = Suc (length pages)
                      \<and> apiCall ((tr @ [req]) @ butlast reqs) (last reqs) = Inl e)
                   \<or> (r = Inr ((allItems @ items response) @ concat (map items pages))
                      \<and> length pages = length reqs)"
        by blast
      from hd ne p0 have first: "reqs ! 0 = JObj (set_prop request ''page'' (JStr p0))"
        by (simp add: requestWithPage_def hd_conv_nth)
      have calls': "\<forall>j < length (response # pages).
          apiCall (tr @ take j (req # reqs)) ((req # reqs) ! j) = Inr ((response # pages) ! j)"
      proof (intro allI impI)
        fix j assume j: "j < length (response # pages)"
        show "apiCall (tr @ take j (req # reqs)) ((req # reqs) ! j) = Inr ((response # pages) ! j)"
        proof (cases j)
          case 0
          with Inr show ?thesis by simp
        next
          case (Suc i)
          with j have "i < length pages" by simp
          with calls have "apiCall ((tr @ [req]) @ take i reqs) (reqs ! i) = Inr (pages ! i)"
            by blast
          with Suc show ?thesis by simp
        qed
      qed
      have later': "\<forall>j. 0 < j \<and> j < length (req # reqs) \<longrightarrow>
          (\<exists>p. opcNextPage ((response # pages) ! (j - 1)) = Some p \<and> p \<noteq> []
             \<and> (req # reqs) ! j = JObj (set_prop request ''page'' (JStr p)))
          \<and> int (length (allItems @ concat (map items (take j (response # pages))))) < maxItems"
      proof (intro allI impI)
        fix j assume j: "0 < j \<and> j < length (req # reqs)"
        then obtain i where i: "j = Suc i" by (cases j) auto
        show "(\<exists>p. opcNextPage ((response # pages) ! (j - 1)) = Some p \<and> p \<noteq> []
             \<and> (req # reqs) ! j = JObj (set_prop request ''page'' (JStr p)))
          \<and> int (length (allItems @ concat (map items (take j (response # pages))))) < maxItems"
        proof (cases i)
          case 0
          with i small p0 first show ?thesis by simp
        next
          case (Suc k)
          with i j have "0 < i \<and> i < length reqs" by simp
          with later have "(\<exists>p. opcNextPage (pages ! (i - 1)) = Some p \<and> p \<noteq> []
               \<and> reqs ! i = JObj (set_prop request ''page'' (JStr p)))
            \<and> int (length ((allItems @ items response) @ concat (map items (take i pages))))
                < maxItems"
            by blast
          with i Suc show ?thesis by simp
        qed
      qed
      from ne have bl: "butlast (req # reqs) = req # butlast reqs" "last (req # reqs) = last reqs"
        by simp_all
      from res have res': "(\<exists>e. r = Inl e \<and> length (req # reqs) = Suc (length (response # pages))
                      \<and> apiCall (tr @ butlast (req # reqs)) (last (req # reqs)) = Inl e)
                   \<or> (r = Inr (allItems @ concat (map items (response # pages)))
                      \<and> length (response # pages) = length (req # reqs))"
        unfolding bl by simp
      have tr'': "tr' = tr @ (req # reqs)" "req # reqs \<noteq> []" "hd (req # reqs) = req"
        using tr' by simp_all
      from tr'' calls' later' res' show ?thesis
        by (intro exI [of _ "req # reqs"] exI [of _ "response # pages"] conjI)
    qed
  qed
  then show ?case unfolding req_def by blast
qed

lemma getAllPages_loop_diverges:
  assumes run: "getAllPages_loop apiCall request maxItems allItems nextPage tr = Some y"
  shows "\<not> (apiCall = (\<lambda>tr req. Inr \<lparr> items = [], opcNextPage = Some ''next'' \<rparr>)
       \<and> maxItems = 1 \<and> allItems = [])"
proof (rule getAllPages_loop.raw_induct
      [where P = "\<lambda>apiCall request maxItems allItems nextPage tr y.
         \<not> (apiCall = (\<lambda>tr req. Inr \<lparr> items = [], opcNextPage = Some ''next'' \<rparr>)
            \<and> maxItems = 1 \<and> allItems = [])", OF _ run], goal_cases)
  case (1 loop apiCall request maxItems allItems nextPage tr y)
  show ?case
  proof
    assume a: "apiCall = (\<lambda>tr req. Inr \<lparr> items = [], opcNextPage = Some ''next'' \<rparr>)
       \<and> maxItems = 1 \<and> allItems = []"
    with 1(2) obtain req where "loop apiCall request maxItems [] (Some ''next'') (tr @ [req]) = Some y"
      by (simp add: Let_def)
    from 1(1) [OF this] a show False by simp
  qed
qed

text \<open>Two concrete runs.\<close>

lemma endless_pages_run:
  "getAllPages endless_pages [(''limit'', JNum 2)] 3 []
   = Some (Inr [JStr ''a'', JStr ''b'', JStr ''a'', JStr ''b''],
           [JObj [(''limit'', JNum 2)], JObj [(''limit'', JNum 2), (''page'', JStr ''n'')]])"
  unfolding getAllPages_def
  apply (subst getAllPages_loop.simps)
  apply (simp add: endless_pages_def requestWithPage_def)
  apply (subst getAllPages_loop.simps)
  apply (simp add: endless_pages_def requestWithPage_def)
  done

lemma two_pages_rounds:
  "rounds two_pages request maxItems [] allItems nextPage tr \<Longrightarrow> length tr \<le> 1"
  by (induction rule: rounds.induct) (auto simp: two_pages_def le_Suc_eq split: if_splits)

text \<open>
  C10 (counterexample). With \<^verbatim>\<open>maxItems = 0\<close> and a backend whose single page holds one
  item, the first call is still issued and the returned list has one item: that is not
  fewer than \<^verbatim>\<open>maxItems\<close> plus the size of the final page.
\<close>

theorem getAllPages_zero_cap_counterexample:
  "getAllPages (\<lambda>tr req. Inr \<lparr> items = [JStr ''a''], opcNextPage = None \<rparr>) [] 0 []
     = Some (Inr [JStr ''a''], [JObj []])
   \<and> \<not> int (length [JStr ''a''])
        < 0 + int (length (items \<lparr> items = [JStr ''a''], opcNextPage = None \<rparr>))"
  unfolding getAllPages_def
  by (subst getAllPages_loop.simps) (simp add: requestWithPage_def)

text \<open>
  C10 (amended). For every backend in which each page fetched by the run holds at least one
  item, \<^verbatim>\<open>getAllPages\<close> returns (with the items, or with the error of a rejected call).
  Whenever it returns, whatever \<^verbatim>\<open>maxItems\<close> is and whether it returns a list or the error
  of a rejected call: the first call has been issued, with the request as given; every
  later call carries the token of the page before it and was issued while the count of the
  items of the pages before it was below \<^verbatim>\<open>maxItems\<close>, so no call is issued once the
  count has reached \<^verbatim>\<open>maxItems\<close>, and with \<^verbatim>\<open>maxItems\<close> at most 0 exactly one call is
  issued; a returned list is the concatenation of the pages answered to the calls, in
  order, and for \<^verbatim>\<open>maxItems\<close> at least 1 it has fewer than \<^verbatim>\<open>maxItems\<close> plus the size of
  the final page items. A backend that answers empty pages with a next-page token makes the
  loop run forever.
\<close>

theorem getAllPages_capped:
  "((\<forall>allItems nextPage tr1 p.
       rounds apiCall request maxItems tr allItems nextPage tr1
       \<and> apiCall tr1 (requestWithPage request nextPage) = Inr p \<longrightarrow> items p \<noteq> []) \<longrightarrow>
      (\<exists>y. getAllPages apiCall request maxItems tr = Some y))
   \<and> (getAllPages apiCall request maxItems tr = Some (r, tr') \<longrightarrow>
      (\<exists>reqs pages. tr' = tr @ reqs \<and> reqs \<noteq> [] \<and> hd reqs = JObj request
         \<and> (\<forall>j < length pages. apiCall (tr @ take j reqs) (reqs ! j) = Inr (pages ! j))
         \<and> (\<forall>j. 0 < j \<and> j < length reqs \<longrightarrow>
               (\<exists>p. opcNextPage (pages ! (j - 1)) = Some p \<and> p \<noteq> []
                  \<and> reqs ! j = JObj (set_prop request ''page'' (JStr p)))
               \<and> int (length (concat (map items (take j pages)))) < maxItems)
         \<and> (maxItems \<le> 0 \<longrightarrow> length reqs = 1)
         \<and> ((\<exists>e. r = Inl e \<and> length reqs = Suc (length pages)
                 \<and> apiCall (tr @ butlast reqs) (last reqs) = Inl e)
              \<or> (r = Inr (concat (map items pages)) \<and> length pages = length reqs
                 \<and> (0 < maxItems \<longrightarrow>
                       int (length (concat (map items pages)))
                         < maxItems + int (length (items (last pages))))))))
   \<and> getAllPages (\<lambda>tr req. Inr \<lparr> items = [], opcNextPage = Some ''next'' \<rparr>) request 1 tr = None"
proof (intro conjI impI)
  assume "\<forall>allItems nextPage tr1 p.
       rounds apiCall request maxItems tr allItems nextPage tr1
       \<and> apiCall tr1 (requestWithPage request nextPage) = Inr p \<longrightarrow> items p \<noteq> []"
  then have ne: "\<And>allItems nextPage tr1 p.
      rounds apiCall request maxItems tr allItems nextPage tr1 \<Longrightarrow>
      apiCall tr1 (requestWithPage request nextPage) = Inr p \<Longrightarrow> items p \<noteq> []"
    by blast
  show "\<exists>y. getAllPages apiCall request maxItems tr = Some y"
    unfolding getAllPages_def
    by (rule getAllPages_loop_terminates [where ?tr0.0 = tr]) (rule ne, assumption+, rule first_round)
next
  assume "getAllPages apiCall request maxItems tr = Some (r, tr')"
  then have "getAllPages_loop apiCall request maxItems [] None tr = Some (r, tr')"
    by (simp add: getAllPages_def)
  from getAllPages_loop_pages [OF this]
  obtain reqs pages where tr': "tr' = tr @ reqs" and ne: "reqs \<noteq> []"
    and hd: "hd reqs = JObj request"
    and calls: "\<forall>j < length pages. apiCall (tr @ take j reqs) (reqs ! j) = Inr (pages ! j)"
    and later: "\<forall>j. 0 < j \<and> j < length reqs \<longrightarrow>
               (\<exists>p. opcNextPage (pages ! (j - 1)) = Some p \<and> p \<noteq> []
                  \<and> reqs ! j = JObj (set_prop request ''page'' (JStr p)))
               \<and> int (length (concat (map items (take j pages)))) < maxItems"
    and res: "(\<exists>e. r = Inl e \<and> length reqs = Suc (length pages)
                 \<and> apiCall (tr @ butlast reqs) (last reqs) = Inl e)
              \<or> (r = Inr (concat (map items pages)) \<and> length pages = length reqs)"
    by (auto simp: requestWithPage_def)
  have one: "length reqs = 1" if "maxItems \<le> 0"
  proof (rule ccontr)
    assume "length reqs \<noteq> 1"
    with ne have "0 < (1::nat) \<and> 1 < length reqs" by (cases reqs) auto
    with later have "int (length (concat (map items (take 1 pages)))) < maxItems" by blast
    with that show False by simp
  qed
  have bound: "int (length (concat (map items pages)))
      < maxItems + int (length (items (last pages)))"
    if pos: "0 < maxItems" and len: "length pages = length reqs"
  proof -
    from ne len have pne: "pages \<noteq> []" by auto
    then have split: "pages = butlast pages @ [last pages]" by simp
    have eq: "concat (map items pages) = concat (map items (butlast pages)) @ items (last pages)"
      by (subst split) simp
    have "int (length (concat (map items (butlast pages)))) < maxItems"
    proof (cases "length pages = 1")
      case True
      then have "butlast pages = []" by (cases pages) auto
      with pos show ?thesis by simp
    next
      case False
      with pne len have "0 < length pages - 1 \<and> length pages - 1 < length reqs"
        by (cases pages) auto
      with later have "int (length (concat (map items (take (length pages - 1) pages)))) < maxItems"
        by blast
      then show ?thesis by (simp add: butlast_conv_take)
    qed
    with eq show ?thesis by simp
  qed
  from res bound
  have res': "(\<exists>e. r = Inl e \<and> length reqs = Suc (length pages)
                 \<and> apiCall (tr @ butlast reqs) (last reqs) = Inl e)
              \<or> (r = Inr (concat (map items pages)) \<and> length pages = length reqs
                 \<and> (0 < maxItems \<longrightarrow>
                       int (length (concat (map items pages)))
                         < maxItems + int (length (items (last pages)))))"
    by blast
  from one have one': "maxItems \<le> 0 \<longrightarrow> length reqs = 1" by blast
  from tr' ne hd calls later one' res'
  show "(\<exists>reqs pages. tr' = tr @ reqs \<and> reqs \<noteq> [] \<and> hd reqs = JObj request
         \<and> (\<forall>j < length pages. apiCall (tr @ take j reqs) (reqs ! j) = Inr (pages ! j))
         \<and> (\<forall>j. 0 < j \<and> j < length reqs \<longrightarrow>
               (\<exists>p. opcNextPage (pages ! (j - 1)) = Some p \<and> p \<noteq> []
                  \<and> reqs ! j = JObj (set_prop request ''page'' (JStr p)))
               \<and> int (length (concat (map items (take j pages)))) < maxItems)
         \<and> (maxItems \<le> 0 \<longrightarrow> length reqs = 1)
         \<and> ((\<exists>e. r = Inl e \<and> length reqs = Suc (length pages)
                 \<and> apiCall (tr @ butlast reqs) (last reqs) = Inl e)
              \<or> (r = Inr (concat (map items pages)) \<and> length pages = length reqs
                 \<and> (0 < maxItems \<longrightarrow>
                       int (length (concat (map items pages)))
                         < maxItems + int (length (items (last pages)))))))"
    by (intro exI [of _ reqs] exI [of _ pages] conjI)
next
  show "getAllPages (\<lambda>tr req. Inr \<lparr> items = [], opcNextPage = Some ''next'' \<rparr>) request 1 tr = None"
  proof (cases "getAllPages (\<lambda>tr req. Inr \<lparr> items = [], opcNextPage = Some ''next'' \<rparr>) request 1 tr")
    case None
    then show ?thesis .
  next
    case (Some y)
    then have "getAllPages_loop (\<lambda>tr req. Inr \<lparr> items = [], opcNextPage = Some ''next'' \<rparr>)
        request 1 [] None tr = Some y"
      by (simp add: getAllPages_def)
    from getAllPages_loop_diverges [OF this] show ?thesis by simp
  qed
qed

lemma two_pages_run:
  "getAllPages two_pages [(''limit'', JNum 2)] 1000 []
   = Some (Inr [JStr ''a'', JStr ''b'', JStr ''c''],
           [JObj [(''limit'', JNum 2)], JObj [(''limit'', JNum 2), (''page'', JStr ''n'')]])"
  unfolding getAllPages_def
  apply (subst getAllPages_loop.simps)
  apply (simp add: two_pages_def requestWithPage_def)
  apply (subst getAllPages_loop.simps)
  apply (simp add: two_pages_def requestWithPage_def)
  done

lemma endless_pages_zero_cap_run:
  "getAllPages endless_pages [(''limit'', JNum 2)] 0 []
   = Some (Inr [JStr ''a'', JStr ''b''], [JObj [(''limit'', JNum 2)]])"
  unfolding getAllPages_def
  by (subst getAllPages_loop.simps) (simp add: endless_pages_def requestWithPage_def)

text \<open>
  C10 (witness). A stream whose two fetched pages are not empty, and which would answer
  empty pages to requests the run never issues: the run returns the three items after two
  calls. Pages of two items with a next-page token: with \<^verbatim>\<open>maxItems = 3\<close> the run makes
  two calls and returns four items, fewer than 3 plus 2; with \<^verbatim>\<open>maxItems = 0\<close> it makes
  one call.
\<close>

theorem getAllPages_capped_witness:
  "(\<exists>y. getAllPages two_pages [(''limit'', JNum 2)] 1000 [] = Some y)
   \<and> getAllPages two_pages [(''limit'', JNum 2)] 1000 []
       = Some (Inr [JStr ''a'', JStr ''b'', JStr ''c''],
           [JObj [(''limit'', JNum 2)], JObj [(''limit'', JNum 2), (''page'', JStr ''n'')]])
   \<and> getAllPages endless_pages [(''limit'', JNum 2)] 3 []
       = Some (Inr [JStr ''a'', JStr ''b'', JStr ''a'', JStr ''b''],
           [JObj [(''limit'', JNum 2)], JObj [(''limit'', JNum 2), (''page'', JStr ''n'')]])
   \<and> (\<exists>pages :: page list.
         [JStr ''a'', JStr ''b'', JStr ''a'', JStr ''b''] = concat (map items pages)
         \<and> length pages = 2
         \<and> int (length (concat (map items (take 1 pages)))) < 3
         \<and> int (length [JStr ''a'', JStr ''b'', JStr ''a'', JStr ''b''])
             < 3 + int (length (items (last pages))))
   \<and> getAllPages endless_pages [(''limit'', JNum 2)] 0 []
       = Some (Inr [JStr ''a'', JStr ''b''], [JObj [(''limit'', JNum 2)]])
   \<and> (\<exists>reqs. [JObj [(''limit'', JNum 2)]] = [] @ reqs \<and> length reqs = 1)"
proof -
  let ?request = "[(''limit'', JNum 2)]"
  let ?xs = "[JStr ''a'', JStr ''b'', JStr ''a'', JStr ''b'']"
  let ?tr = "[JObj [(''limit'', JNum 2)], JObj [(''limit'', JNum 2), (''page'', JStr ''n'')]]"
  have fetched: "\<forall>allItems nextPage tr1 p.
       rounds two_pages ?request 1000 [] allItems nextPage tr1
       \<and> two_pages tr1 (requestWithPage ?request nextPage) = Inr p \<longrightarrow> items p \<noteq> []"
  proof (intro allI impI, elim conjE)
    fix allItems nextPage tr1 and p :: page
    assume reach: "rounds two_pages ?request 1000 [] allItems nextPage tr1"
      and p: "two_pages tr1 (requestWithPage ?request nextPage) = Inr p"
    from reach have "length tr1 \<le> 1" by (rule two_pages_rounds)
    with p show "items p \<noteq> []"
      by (auto simp: two_pages_def le_Suc_eq split: if_splits)
  qed
  from getAllPages_capped [of two_pages ?request 1000 "[]"] fetched
  have a: "\<exists>y. getAllPages two_pages ?request 1000 [] = Some y"
    by blast
  from getAllPages_capped [of endless_pages ?request 3 "[]" "Inr ?xs" ?tr] endless_pages_run
  obtain reqs and pages :: "page list" where tr: "?tr = [] @ reqs"
    and later: "\<forall>j. 0 < j \<and> j < length reqs \<longrightarrow>
               (\<exists>p. opcNextPage (pages ! (j - 1)) = Some p \<and> p \<noteq> []
                  \<and> reqs ! j = JObj (set_prop ?request ''page'' (JStr p)))
               \<and> int (length (concat (map items (take j pages)))) < 3"
    and res: "(\<exists>e. (Inr ?xs :: js_error + jv list) = Inl e \<and> length reqs = Suc (length pages)
                 \<and> endless_pages ([] @ butlast reqs) (last reqs) = Inl e)
              \<or> ((Inr ?xs :: js_error + jv list) = Inr (concat (map items pages))
                 \<and> length pages = length reqs
                 \<and> ((0::int) < 3 \<longrightarrow>
                       int (length (concat (map items pages)))
                         < 3 + int (length (items (last pages)))))"
    by blast
  from tr have len: "length reqs = 2" by auto
  from res have xs: "?xs = concat (map items pages)" and lp: "length pages = length reqs"
    and bound: "int (length (concat (map items pages))) < 3 + int (length (items (last pages)))"
    by auto
  from later len have "int (length (concat (map items (take 1 pages)))) < 3"
    by auto
  with xs lp len bound
  have b: "\<exists>pages :: page list. ?xs = concat (map items pages) \<and> length pages = 2
      \<and> int (length (concat (map items (take 1 pages)))) < 3
      \<and> int (length ?xs) < 3 + int (length (items (last pages)))"
    by (intro exI [of _ pages]) simp
  from getAllPages_capped [of endless_pages ?request 0 "[]" "Inr [JStr ''a'', JStr ''b'']"
      "[JObj ?request]"] endless_pages_zero_cap_run
  obtain reqs0 where "[JObj ?request] = [] @ reqs0" and "(0::int) \<le> 0 \<longrightarrow> length reqs0 = 1"
    by blast
  then have c: "\<exists>reqs. [JObj ?request] = [] @ reqs \<and> length reqs = 1"
    by (intro exI [of _ reqs0]) simp
  from a two_pages_run endless_pages_run b endless_pages_zero_cap_run c
  show ?thesis by (intro conjI)
qed

end
